theory Spec2Isabelle
  imports Complex_Main "HOL-Library.Word"
begin

unbundle bit_operations_syntax

section \<open>Single-precision values\<close>

text \<open>
  The kernel computes in C \<^verbatim>\<open>float\<close>, the binary32 format of IEEE 754. A value is a finite
  number, one of the two infinities, or not-a-number. The finite values of the format are
  the numbers \<open>n * 2 ^ k\<close> with \<open>\<bar>n\<bar> < 2 ^ 24\<close> and \<open>- 149 \<le> k \<le> 104\<close>. Each arithmetic
  operation rounds its exact result to the nearest of them, a tie going to the even
  mantissa (\<open>round32\<close>): a result of magnitude \<open>2 ^ 128 - 2 ^ 103\<close> or more becomes an
  infinity, results below \<open>2 ^ (- 126)\<close> are rounded on the grid of the subnormal
  numbers and may become 0. Each operation is rounded on its own: there is no fused
  multiply-add, no wider intermediate precision and no flush of subnormal results to
  zero. The special values follow IEEE 754 (a division by zero gives an infinity or
  not-a-number and does not trap, every ordered comparison with not-a-number is
  false). The sign of zero is left out. A \<open>Finite\<close> value that is handed in from outside
  need not be a number of the format; what the arithmetic returns always is.
\<close>

datatype cfloat = Finite real | Pos_Inf | Neg_Inf | Not_a_Number


text \<open>The nearest integer, a tie going to the even one.\<close>

definition rne :: "real \<Rightarrow> int" where
  "rne q = (let f = \<lfloor>q\<rfloor>
            in if q - of_int f < 1 / 2 then f
               else if 1 / 2 < q - of_int f then f + 1
               else if even f then f else f + 1)"

text \<open>The exponent of the last mantissa bit of the binary32 numbers around \<open>x\<close>: 23 below
  the exponent of \<open>x\<close>, and \<open>- 149\<close> throughout the subnormal range.\<close>

definition ulp_exponent :: "real \<Rightarrow> int" where
  "ulp_exponent x = max \<lfloor>log 2 \<bar>x\<bar>\<rfloor> (- 126) - 23"

definition round32 :: "real \<Rightarrow> cfloat" where
  "round32 x =
     (if x = 0 then Finite 0
      else if 2 ^ 128 - 2 ^ 103 \<le> \<bar>x\<bar> then (if 0 < x then Pos_Inf else Neg_Inf)
      else Finite (of_int (rne (x / 2 powr of_int (ulp_exponent x)))
                     * 2 powr of_int (ulp_exponent x)))"

text \<open>The finite numbers of the format.\<close>

definition in_grid :: "real \<Rightarrow> bool" where
  "in_grid x = (\<exists>n k. \<bar>n\<bar> < 2 ^ 24 \<and> - 149 \<le> k \<and> k \<le> 104
                      \<and> x = of_int n * 2 powr of_int k)"

instantiation cfloat :: "{zero,one,plus,minus,uminus,times,inverse,ord}"
begin

definition zero_cfloat :: cfloat where
  "zero_cfloat = Finite 0"

definition one_cfloat :: cfloat where
  "one_cfloat = Finite 1"

fun plus_cfloat :: "cfloat \<Rightarrow> cfloat \<Rightarrow> cfloat" where
  "plus_cfloat Not_a_Number b = Not_a_Number"
| "plus_cfloat a Not_a_Number = Not_a_Number"
| "plus_cfloat (Finite a) (Finite b) = round32 (a + b)"
| "plus_cfloat Pos_Inf Neg_Inf = Not_a_Number"
| "plus_cfloat Neg_Inf Pos_Inf = Not_a_Number"
| "plus_cfloat Pos_Inf b = Pos_Inf"
| "plus_cfloat Neg_Inf b = Neg_Inf"
| "plus_cfloat a Pos_Inf = Pos_Inf"
| "plus_cfloat a Neg_Inf = Neg_Inf"

fun uminus_cfloat :: "cfloat \<Rightarrow> cfloat" where
  "uminus_cfloat (Finite a) = Finite (- a)"
| "uminus_cfloat Pos_Inf = Neg_Inf"
| "uminus_cfloat Neg_Inf = Pos_Inf"
| "uminus_cfloat Not_a_Number = Not_a_Number"

definition minus_cfloat :: "cfloat \<Rightarrow> cfloat \<Rightarrow> cfloat" where
  "minus_cfloat (a::cfloat) (b::cfloat) = (a + (- b) :: cfloat)"

fun times_cfloat :: "cfloat \<Rightarrow> cfloat \<Rightarrow> cfloat" where
  "times_cfloat Not_a_Number b = Not_a_Number"
| "times_cfloat a Not_a_Number = Not_a_Number"
| "times_cfloat (Finite a) (Finite b) = round32 (a * b)"
| "times_cfloat (Finite a) Pos_Inf =
     (if a = 0 then Not_a_Number else if 0 < a then Pos_Inf else Neg_Inf)"
| "times_cfloat (Finite a) Neg_Inf =
     (if a = 0 then Not_a_Number else if 0 < a then Neg_Inf else Pos_Inf)"
| "times_cfloat Pos_Inf (Finite b) =
     (if b = 0 then Not_a_Number else if 0 < b then Pos_Inf else Neg_Inf)"
| "times_cfloat Neg_Inf (Finite b) =
     (if b = 0 then Not_a_Number else if 0 < b then Neg_Inf else Pos_Inf)"
| "times_cfloat Pos_Inf Pos_Inf = Pos_Inf"
| "times_cfloat Pos_Inf Neg_Inf = Neg_Inf"
| "times_cfloat Neg_Inf Pos_Inf = Neg_Inf"
| "times_cfloat Neg_Inf Neg_Inf = Pos_Inf"

fun divide_cfloat :: "cfloat \<Rightarrow> cfloat \<Rightarrow> cfloat" where
  "divide_cfloat Not_a_Number b = Not_a_Number"
| "divide_cfloat a Not_a_Number = Not_a_Number"
| "divide_cfloat (Finite a) (Finite b) =
     (if b = 0 then (if a = 0 then Not_a_Number else if 0 < a then Pos_Inf else Neg_Inf)
      else round32 (a / b))"
| "divide_cfloat (Finite a) b = Finite 0"
| "divide_cfloat Pos_Inf (Finite b) = (if 0 \<le> b then Pos_Inf else Neg_Inf)"
| "divide_cfloat Neg_Inf (Finite b) = (if 0 \<le> b then Neg_Inf else Pos_Inf)"
| "divide_cfloat a b = Not_a_Number"

fun inverse_cfloat :: "cfloat \<Rightarrow> cfloat" where
  "inverse_cfloat (Finite a) = (if a = 0 then Pos_Inf else round32 (1 / a))"
| "inverse_cfloat Pos_Inf = Finite 0"
| "inverse_cfloat Neg_Inf = Finite 0"
| "inverse_cfloat Not_a_Number = Not_a_Number"

fun less_cfloat :: "cfloat \<Rightarrow> cfloat \<Rightarrow> bool" where
  "less_cfloat Not_a_Number b = False"
| "less_cfloat a Not_a_Number = False"
| "less_cfloat (Finite a) (Finite b) = (a < b)"
| "less_cfloat a Neg_Inf = False"
| "less_cfloat Pos_Inf b = False"
| "less_cfloat Neg_Inf b = True"
| "less_cfloat a Pos_Inf = True"

fun less_eq_cfloat :: "cfloat \<Rightarrow> cfloat \<Rightarrow> bool" where
  "less_eq_cfloat Not_a_Number b = False"
| "less_eq_cfloat a Not_a_Number = False"
| "less_eq_cfloat (Finite a) (Finite b) = (a \<le> b)"
| "less_eq_cfloat Neg_Inf b = True"
| "less_eq_cfloat a Pos_Inf = True"
| "less_eq_cfloat a Neg_Inf = False"
| "less_eq_cfloat Pos_Inf b = False"

instance ..

end

text \<open>The C operator \<^verbatim>\<open>==\<close>: not-a-number equals nothing, itself included.\<close>

definition feq :: "cfloat \<Rightarrow> cfloat \<Rightarrow> bool" where
  "feq a b = (a \<noteq> Not_a_Number \<and> b \<noteq> Not_a_Number \<and> a = b)"

text \<open>\<^verbatim>\<open>fmaxf\<close> and \<^verbatim>\<open>fminf\<close> of the C library return the other argument when one is
  not-a-number.\<close>

definition fmaxf :: "cfloat \<Rightarrow> cfloat \<Rightarrow> cfloat" where
  "fmaxf a b = (if a = Not_a_Number then b else if b = Not_a_Number then a
                else if a < b then b else a)"

definition fminf :: "cfloat \<Rightarrow> cfloat \<Rightarrow> cfloat" where
  "fminf a b = (if a = Not_a_Number then b else if b = Not_a_Number then a
                else if b < a then b else a)"

fun fabsf :: "cfloat \<Rightarrow> cfloat" where
  "fabsf (Finite a) = Finite \<bar>a\<bar>"
| "fabsf Pos_Inf = Pos_Inf"
| "fabsf Neg_Inf = Pos_Inf"
| "fabsf Not_a_Number = Not_a_Number"


section \<open>Vectors\<close>

text \<open>
  Modelled from the spec: the \<^verbatim>\<open>float3\<close> type and its arithmetic (componentwise sum,
  difference and negation, scaling by a scalar, \<^verbatim>\<open>dot\<close> and \<^verbatim>\<open>len_squared\<close>) belong to
  the kernel's math headers. They are written out here as the usual componentwise
  operations, each sum taken left to right.
\<close>

datatype float3 = make_float3 (fx: cfloat) (fy: cfloat) (fz: cfloat)

instantiation float3 :: "{plus,minus,uminus}"
begin

definition plus_float3 :: "float3 \<Rightarrow> float3 \<Rightarrow> float3" where
  "plus_float3 a b = make_float3 (fx a + fx b) (fy a + fy b) (fz a + fz b)"

definition minus_float3 :: "float3 \<Rightarrow> float3 \<Rightarrow> float3" where
  "minus_float3 a b = make_float3 (fx a - fx b) (fy a - fy b) (fz a - fz b)"

definition uminus_float3 :: "float3 \<Rightarrow> float3" where
  "uminus_float3 a = make_float3 (- fx a) (- fy a) (- fz a)"

instance ..

end

definition scale3 :: "cfloat \<Rightarrow> float3 \<Rightarrow> float3" where
  "scale3 f a = make_float3 (f * fx a) (f * fy a) (f * fz a)"

definition dot :: "float3 \<Rightarrow> float3 \<Rightarrow> cfloat" where
  "dot a b = fx a * fx b + fy a * fy b + fz a * fz b"

definition len_squared :: "float3 \<Rightarrow> cfloat" where
  "len_squared a = dot a a"

text \<open>
  \<^verbatim>\<open>normalize\<close>, \<^verbatim>\<open>fast_acosf\<close> and \<^verbatim>\<open>fast_cosf\<close> are functions of the same headers
  (a vector scaled to unit length and polynomial approximations of the arc cosine and
  the cosine). The importance estimator takes them as parameters.
\<close>

record math_lib =
  normalize :: "float3 \<Rightarrow> float3"
  fast_acosf :: "cfloat \<Rightarrow> cfloat"
  fast_cosf :: "cfloat \<Rightarrow> cfloat"

section \<open>Importance of a cluster or an emitter\<close>

definition corners :: "float3 \<Rightarrow> float3 \<Rightarrow> float3 list" where
  "corners bbox_min bbox_max =
     [bbox_min,
      make_float3 (fx bbox_min) (fy bbox_min) (fz bbox_max),
      make_float3 (fx bbox_min) (fy bbox_max) (fz bbox_min),
      make_float3 (fx bbox_min) (fy bbox_max) (fz bbox_max),
      make_float3 (fx bbox_max) (fy bbox_min) (fz bbox_min),
      make_float3 (fx bbox_max) (fy bbox_min) (fz bbox_max),
      make_float3 (fx bbox_max) (fy bbox_max) (fz bbox_min),
      bbox_max]"

text \<open>One round of the loop over the corners: \<open>theta_u\<close> is the running maximum.\<close>

definition corner_step :: "math_lib \<Rightarrow> float3 \<Rightarrow> float3 \<Rightarrow> cfloat \<Rightarrow> float3 \<Rightarrow> cfloat" where
  "corner_step m P point_to_centroid theta_u corner =
     (let point_to_corner = normalize m (corner - P);
          cos_theta_u = dot point_to_centroid point_to_corner
      in fmaxf (fast_acosf m cos_theta_u) theta_u)"

definition light_tree_bounding_box_angle ::
  "math_lib \<Rightarrow> float3 \<Rightarrow> float3 \<Rightarrow> float3 \<Rightarrow> float3 \<Rightarrow> cfloat" where
  "light_tree_bounding_box_angle m bbox_min bbox_max P point_to_centroid =
     foldl (corner_step m P point_to_centroid) (Finite 0) (corners bbox_min bbox_max)"

definition light_tree_node_importance ::
  "math_lib \<Rightarrow> float3 \<Rightarrow> float3 \<Rightarrow> float3 \<Rightarrow> float3 \<Rightarrow> float3 \<Rightarrow> cfloat \<Rightarrow> cfloat \<Rightarrow> cfloat
     \<Rightarrow> cfloat" where
  "light_tree_node_importance m P N bbox_min bbox_max bcone_axis theta_o theta_e energy =
     (let centroid = scale3 (Finite (1 / 2)) bbox_min + scale3 (Finite (1 / 2)) bbox_max;
          point_to_centroid = normalize m (centroid - P);
          distance_squared = fminf (len_squared (centroid - P))
                                   (Finite (1 / 4) * len_squared (bbox_max - centroid));
          theta = fast_acosf m (dot bcone_axis (- point_to_centroid));
          theta_i = fast_acosf m (dot point_to_centroid N);
          theta_u = light_tree_bounding_box_angle m bbox_min bbox_max P point_to_centroid;
          theta_prime = fmaxf (theta - theta_o - theta_u) (Finite 0)
      in if theta_e \<le> theta_prime then Finite 0
         else
           let cos_theta_prime = fast_cosf m theta_prime;
               cos_theta_i_prime =
                 (if Finite 0 < theta_i - theta_u then fabsf (fast_cosf m (theta_i - theta_u))
                  else Finite 1);
               f_a = Finite 1
           in f_a * cos_theta_i_prime * energy / distance_squared * cos_theta_prime)"

section \<open>Kernel data\<close>

text \<open>
  The records of the scene tables, with the fields the samplers read. A \<^verbatim>\<open>float[3]\<close>
  member is a \<open>float_array3\<close>, read with constant indices only. A table is a list, and
  \<open>kernel_data_fetch\<close> outside of it is a fault of its own, not a value. Indices and
  counts are C \<^verbatim>\<open>int\<close>s, modelled as integers without overflow: the only arithmetic on
  them is \<open>index + 1\<close>, \<open>- child_index + i\<close> and \<open>- prim - 1\<close>, on values that index tables.
  Three faults are told apart: a fetch outside of a table, the \<^verbatim>\<open>assert(false)\<close> of a debug
  build, and the end of a function reached without a \<^verbatim>\<open>return\<close>.
\<close>

datatype fault = Out_Of_Bounds | Assertion_Failed | No_Return_Value

datatype float_array3 = Float_Array3 cfloat cfloat cfloat

fun elem :: "float_array3 \<Rightarrow> nat \<Rightarrow> cfloat" where
  "elem (Float_Array3 a b c) i = (if i = 0 then a else if i = 1 then b else c)"

record KernelLightTreeEmitter =
  bounding_box_min :: float_array3
  bounding_box_max :: float_array3
  bounding_cone_axis :: float_array3
  theta_o :: cfloat
  theta_e :: cfloat
  energy :: cfloat

record KernelLightTreeNode =
  bounding_box_min :: float_array3
  bounding_box_max :: float_array3
  bounding_cone_axis :: float_array3
  theta_o :: cfloat
  theta_e :: cfloat
  energy :: cfloat
  child_index :: int
  num_prims :: int

record KernelMeshLight =
  object_id :: int
  shader_flag :: "32 word"

record KernelLightDistribution =
  prim :: int
  mesh_light :: KernelMeshLight

record KernelLightTreeDistantEmitter =
  prim_id :: int
  energy :: cfloat

record KernelIntegrator =
  num_distant_lights :: int
  num_distribution :: int

record KernelGlobals =
  light_tree_nodes :: "KernelLightTreeNode list"
  light_tree_emitters :: "KernelLightTreeEmitter list"
  light_distribution :: "KernelLightDistribution list"
  light_tree_distant_group :: "KernelLightTreeDistantEmitter list"
  object_flag :: "32 word list"
  integrator :: KernelIntegrator

record LightSample =
  pdf :: cfloat
  shader :: "32 word"

definition kernel_data_fetch :: "'a list \<Rightarrow> int \<Rightarrow> fault + 'a" where
  "kernel_data_fetch xs i =
     (if 0 \<le> i \<and> i < int (length xs) then Inr (xs ! nat i) else Inl Out_Of_Bounds)"

text \<open>
  The collaborators of the samplers: the random number service, the bounce-budget
  predicate, the two shape samplers (which write the light sample) and the two flag
  constants. Their own reads of the kernel data are no part of this development, so
  they take no \<open>KernelGlobals\<close>. \<open>debug_build\<close> says whether \<^verbatim>\<open>assert\<close> is compiled in.
\<close>

record 'r collaborators =
  path_state_rng_1D :: "'r \<Rightarrow> int \<Rightarrow> cfloat"
  light_select_reached_max_bounces :: "int \<Rightarrow> int \<Rightarrow> bool"
  light_sample :: "bool \<Rightarrow> int \<Rightarrow> cfloat \<Rightarrow> cfloat \<Rightarrow> float3 \<Rightarrow> 32 word \<Rightarrow> LightSample
                     \<Rightarrow> bool \<times> LightSample"
  triangle_light_sample :: "bool \<Rightarrow> int \<Rightarrow> int \<Rightarrow> cfloat \<Rightarrow> cfloat \<Rightarrow> cfloat \<Rightarrow> LightSample
                               \<Rightarrow> float3 \<Rightarrow> LightSample"
  PATH_RAY_SHADOW_CATCHER_PASS :: "32 word"
  SD_OBJECT_SHADOW_CATCHER :: "32 word"
  debug_build :: bool

definition light_tree_emitter_importance ::
  "math_lib \<Rightarrow> KernelGlobals \<Rightarrow> float3 \<Rightarrow> float3 \<Rightarrow> int \<Rightarrow> fault + cfloat" where
  "light_tree_emitter_importance m kg P N emitter_index =
     (case kernel_data_fetch (light_tree_emitters kg) emitter_index of
        Inl e \<Rightarrow> Inl e
      | Inr kemitter \<Rightarrow>
          let bbox_min = make_float3 (elem (KernelLightTreeEmitter.bounding_box_min kemitter) 0)
                                     (elem (KernelLightTreeEmitter.bounding_box_min kemitter) 1)
                                     (elem (KernelLightTreeEmitter.bounding_box_min kemitter) 2);
              bbox_max = make_float3 (elem (KernelLightTreeEmitter.bounding_box_max kemitter) 0)
                                     (elem (KernelLightTreeEmitter.bounding_box_max kemitter) 1)
                                     (elem (KernelLightTreeEmitter.bounding_box_max kemitter) 2);
              bcone_axis = make_float3 (elem (KernelLightTreeEmitter.bounding_cone_axis kemitter) 0)
                                       (elem (KernelLightTreeEmitter.bounding_cone_axis kemitter) 1)
                                       (elem (KernelLightTreeEmitter.bounding_cone_axis kemitter) 2)
          in Inr (light_tree_node_importance m P N bbox_min bbox_max bcone_axis
                    (KernelLightTreeEmitter.theta_o kemitter)
                    (KernelLightTreeEmitter.theta_e kemitter)
                    (KernelLightTreeEmitter.energy kemitter)))"

text \<open>The third component of the cone axis is read at index 1, as the source has it.\<close>

definition light_tree_cluster_importance ::
  "math_lib \<Rightarrow> float3 \<Rightarrow> float3 \<Rightarrow> KernelLightTreeNode \<Rightarrow> cfloat" where
  "light_tree_cluster_importance m P N knode =
     (let bbox_min = make_float3 (elem (KernelLightTreeNode.bounding_box_min knode) 0)
                                 (elem (KernelLightTreeNode.bounding_box_min knode) 1)
                                 (elem (KernelLightTreeNode.bounding_box_min knode) 2);
          bbox_max = make_float3 (elem (KernelLightTreeNode.bounding_box_max knode) 0)
                                 (elem (KernelLightTreeNode.bounding_box_max knode) 1)
                                 (elem (KernelLightTreeNode.bounding_box_max knode) 2);
          bcone_axis = make_float3 (elem (KernelLightTreeNode.bounding_cone_axis knode) 0)
                                   (elem (KernelLightTreeNode.bounding_cone_axis knode) 1)
                                   (elem (KernelLightTreeNode.bounding_cone_axis knode) 1)
      in light_tree_node_importance m P N bbox_min bbox_max bcone_axis
           (KernelLightTreeNode.theta_o knode) (KernelLightTreeNode.theta_e knode)
           (KernelLightTreeNode.energy knode))"


section \<open>The tree sampler\<close>

text \<open>
  One round of the \<^verbatim>\<open>while\<close> loop of \<open>light_tree_sample\<close> at an interior node. The state
  of the loop is the node index, the node, the running \<open>tree_u\<close> and \<open>pdf_factor\<close>.
\<close>

type_synonym descent_state = "int \<times> KernelLightTreeNode \<times> cfloat \<times> cfloat"

definition interior_step ::
  "math_lib \<Rightarrow> KernelGlobals \<Rightarrow> float3 \<Rightarrow> float3 \<Rightarrow> descent_state \<Rightarrow> fault + descent_state" where
  "interior_step m kg P N st =
     (case st of (index, knode, tree_u, pdf_factor) \<Rightarrow>
        (case kernel_data_fetch (light_tree_nodes kg) (index + 1) of
          Inl e \<Rightarrow> Inl e
        | Inr left \<Rightarrow>
            (case kernel_data_fetch (light_tree_nodes kg) (child_index knode) of
               Inl e \<Rightarrow> Inl e
             | Inr right \<Rightarrow>
                 let left_importance = light_tree_cluster_importance m P N left;
                     right_importance = light_tree_cluster_importance m P N right;
                     left_probability = left_importance / (left_importance + right_importance)
                 in if tree_u < left_probability
                    then Inr (index + 1, left,
                              tree_u * (left_importance + right_importance) / left_importance,
                              pdf_factor * left_probability)
                    else Inr (child_index knode, right,
                              (tree_u * (left_importance + right_importance) - left_importance)
                                / right_importance,
                              pdf_factor * (Finite 1 - left_probability)))))"

text \<open>The loop itself. It need not end on a table that is no tree: \<open>None\<close> is a descent
  that runs forever.\<close>

partial_function (option) descend ::
  "math_lib \<Rightarrow> KernelGlobals \<Rightarrow> float3 \<Rightarrow> float3 \<Rightarrow> descent_state \<Rightarrow> (fault + descent_state) option"
  where
  "descend m kg P N st =
     (if 0 < child_index (fst (snd st))
      then (case interior_step m kg P N st of
              Inl e \<Rightarrow> Some (Inl e)
            | Inr st' \<Rightarrow> descend m kg P N st')
      else Some (Inr st))"

text \<open>The first loop over the emitters of the leaf: the total importance.\<close>

function leaf_total ::
  "math_lib \<Rightarrow> KernelGlobals \<Rightarrow> float3 \<Rightarrow> float3 \<Rightarrow> KernelLightTreeNode \<Rightarrow> int \<Rightarrow> cfloat
     \<Rightarrow> fault + cfloat" where
  "leaf_total m kg P N knode i total_emitter_importance =
     (if i < num_prims knode
      then (let prim_index = - child_index knode + i
            in case light_tree_emitter_importance m kg P N prim_index of
                 Inl e \<Rightarrow> Inl e
               | Inr imp \<Rightarrow> leaf_total m kg P N knode (i + 1) (total_emitter_importance + imp))
      else Inr total_emitter_importance)"
  by pat_completeness auto
termination
  by (relation "measure (\<lambda>(m, kg, P, N, knode, i, t). nat (num_prims knode - i))") auto

text \<open>What happens once the walk over the cumulative distribution has stopped at the
  emitter \<open>prim_index\<close>: the body of the \<^verbatim>\<open>if (tree_u < emitter_cdf)\<close>, after
  \<open>pdf_factor\<close> has been multiplied.\<close>

definition sample_emitter ::
  "'r collaborators \<Rightarrow> bool \<Rightarrow> KernelGlobals \<Rightarrow> cfloat \<Rightarrow> cfloat \<Rightarrow> cfloat \<Rightarrow> float3 \<Rightarrow> int
     \<Rightarrow> 32 word \<Rightarrow> LightSample \<Rightarrow> int \<Rightarrow> fault + bool \<times> LightSample" where
  "sample_emitter c in_volume_segment kg randu randv time P bounce path_flag ls prim_index =
     (case kernel_data_fetch (light_distribution kg) prim_index of
        Inl e \<Rightarrow> Inl e
      | Inr kdistribution \<Rightarrow>
          let prim = prim kdistribution
          in if 0 \<le> prim
             then
               let object = object_id (mesh_light kdistribution)
               in if path_flag AND PATH_RAY_SHADOW_CATCHER_PASS c \<noteq> 0
                  then (case kernel_data_fetch (object_flag kg) object of
                          Inl e \<Rightarrow> Inl e
                        | Inr flag \<Rightarrow>
                            if \<not> (flag AND SD_OBJECT_SHADOW_CATCHER c \<noteq> 0)
                            then Inr (False, ls)
                            else
                              let shader_flag = shader_flag (mesh_light kdistribution);
                                  ls = triangle_light_sample c in_volume_segment prim object
                                         randu randv time ls P;
                                  ls = ls\<lparr>shader := shader ls OR shader_flag\<rparr>
                              in Inr (Finite 0 < pdf ls, ls))
                  else
                    let shader_flag = shader_flag (mesh_light kdistribution);
                        ls = triangle_light_sample c in_volume_segment prim object
                               randu randv time ls P;
                        ls = ls\<lparr>shader := shader ls OR shader_flag\<rparr>
                    in Inr (Finite 0 < pdf ls, ls)
             else
               let lamp = - prim - 1
               in if light_select_reached_max_bounces c lamp bounce
                  then Inr (False, ls)
                  else Inr (light_sample c in_volume_segment lamp randu randv P path_flag ls))"

text \<open>The second loop over the emitters of the leaf, with the two lines after it. The
  result is the returned flag, the light sample and \<open>pdf_factor\<close>.\<close>

function leaf_sample ::
  "math_lib \<Rightarrow> 'r collaborators \<Rightarrow> bool \<Rightarrow> KernelGlobals \<Rightarrow> cfloat \<Rightarrow> cfloat \<Rightarrow> cfloat \<Rightarrow> float3
     \<Rightarrow> float3 \<Rightarrow> int \<Rightarrow> 32 word \<Rightarrow> KernelLightTreeNode \<Rightarrow> cfloat \<Rightarrow> cfloat \<Rightarrow> int \<Rightarrow> cfloat
     \<Rightarrow> LightSample \<Rightarrow> cfloat \<Rightarrow> fault + bool \<times> LightSample \<times> cfloat" where
  "leaf_sample m c in_volume_segment kg randu randv time N P bounce path_flag knode tree_u
       inv_total_importance i emitter_cdf ls pdf_factor =
     (if i < num_prims knode
      then (let prim_index = - child_index knode + i
            in case light_tree_emitter_importance m kg P N prim_index of
                 Inl e \<Rightarrow> Inl e
               | Inr imp \<Rightarrow>
                   let emitter_pdf = imp * inv_total_importance;
                       emitter_cdf = emitter_cdf + emitter_pdf
                   in if tree_u < emitter_cdf
                      then (case sample_emitter c in_volume_segment kg randu randv time P bounce
                                   path_flag ls prim_index of
                              Inl e \<Rightarrow> Inl e
                            | Inr (ret, ls') \<Rightarrow> Inr (ret, ls', pdf_factor * emitter_pdf))
                      else leaf_sample m c in_volume_segment kg randu randv time N P bounce
                             path_flag knode tree_u inv_total_importance (i + 1) emitter_cdf
                             ls pdf_factor)
      else if debug_build c then Inl Assertion_Failed else Inr (False, ls, pdf_factor))"
  by pat_completeness auto
termination
  by (relation "measure (\<lambda>(m, c, iv, kg, ru, rv, t, N, P, b, pf, knode, tu, inv, i, rest).
                  nat (num_prims knode - i))") auto

definition light_tree_sample ::
  "math_lib \<Rightarrow> 'r collaborators \<Rightarrow> bool \<Rightarrow> KernelGlobals \<Rightarrow> 'r \<Rightarrow> cfloat \<Rightarrow> cfloat \<Rightarrow> cfloat
     \<Rightarrow> float3 \<Rightarrow> float3 \<Rightarrow> int \<Rightarrow> 32 word \<Rightarrow> LightSample
     \<Rightarrow> (fault + bool \<times> LightSample \<times> cfloat) option" where
  "light_tree_sample m c in_volume_segment kg rng_state randu randv time N P bounce path_flag ls =
     (let index = 0;
          pdf_factor = Finite 1;
          tree_u = path_state_rng_1D c rng_state 1
      in case kernel_data_fetch (light_tree_nodes kg) index of
           Inl e \<Rightarrow> Some (Inl e)
         | Inr knode \<Rightarrow>
             (case descend m kg P N (index, knode, tree_u, pdf_factor) of
                None \<Rightarrow> None
              | Some (Inl e) \<Rightarrow> Some (Inl e)
              | Some (Inr (index, knode, tree_u, pdf_factor)) \<Rightarrow>
                  Some (case leaf_total m kg P N knode 0 (Finite 0) of
                          Inl e \<Rightarrow> Inl e
                        | Inr total_emitter_importance \<Rightarrow>
                            if feq total_emitter_importance (Finite 0)
                            then Inr (False, ls, pdf_factor)
                            else
                              let inv_total_importance = Finite 1 / total_emitter_importance
                              in leaf_sample m c in_volume_segment kg randu randv time N P
                                   bounce path_flag knode tree_u inv_total_importance 0
                                   (Finite 0) ls pdf_factor)))"


section \<open>The distant-light sampler\<close>

definition light_tree_distant_light_importance ::
  "KernelGlobals \<Rightarrow> float3 \<Rightarrow> float3 \<Rightarrow> int \<Rightarrow> fault + cfloat" where
  "light_tree_distant_light_importance kg P N index =
     (case kernel_data_fetch (light_tree_distant_group kg) index of
        Inl e \<Rightarrow> Inl e
      | Inr kdistant \<Rightarrow> Inr (KernelLightTreeDistantEmitter.energy kdistant))"

function distant_total ::
  "KernelGlobals \<Rightarrow> float3 \<Rightarrow> float3 \<Rightarrow> int \<Rightarrow> int \<Rightarrow> cfloat \<Rightarrow> fault + cfloat" where
  "distant_total kg P N n_lights i total_importance =
     (if i < n_lights
      then (case light_tree_distant_light_importance kg P N i of
              Inl e \<Rightarrow> Inl e
            | Inr imp \<Rightarrow> distant_total kg P N n_lights (i + 1) (total_importance + imp))
      else Inr total_importance)"
  by pat_completeness auto
termination
  by (relation "measure (\<lambda>(kg, P, N, n, i, t). nat (n - i))") auto

text \<open>The second loop of \<open>light_tree_sample_distant_lights\<close>. No statement follows it in
  the source: a walk that comes to the end of the list leaves the function without a
  return value.\<close>

function distant_sample ::
  "'r collaborators \<Rightarrow> bool \<Rightarrow> KernelGlobals \<Rightarrow> cfloat \<Rightarrow> cfloat \<Rightarrow> float3 \<Rightarrow> float3 \<Rightarrow> int
     \<Rightarrow> 32 word \<Rightarrow> int \<Rightarrow> cfloat \<Rightarrow> cfloat \<Rightarrow> int \<Rightarrow> cfloat \<Rightarrow> LightSample \<Rightarrow> cfloat
     \<Rightarrow> fault + bool \<times> LightSample \<times> cfloat" where
  "distant_sample c in_volume_segment kg randu randv N P bounce path_flag n_lights
       distant_u inv_total_importance i light_cdf ls pdf_factor =
     (if i < n_lights
      then (case light_tree_distant_light_importance kg P N i of
              Inl e \<Rightarrow> Inl e
            | Inr imp \<Rightarrow>
                let light_pdf = imp * inv_total_importance;
                    light_cdf = light_cdf + light_pdf
                in if distant_u < light_cdf
                   then (case kernel_data_fetch (light_tree_distant_group kg) i of
                           Inl e \<Rightarrow> Inl e
                         | Inr kdistant \<Rightarrow>
                             let pdf_factor = pdf_factor * light_pdf;
                                 lamp = - prim_id kdistant - 1
                             in if light_select_reached_max_bounces c lamp bounce
                                then Inr (False, ls, pdf_factor)
                                else (case light_sample c in_volume_segment lamp randu randv P
                                             path_flag ls of
                                        (ret, ls') \<Rightarrow> Inr (ret, ls', pdf_factor)))
                   else distant_sample c in_volume_segment kg randu randv N P bounce path_flag
                          n_lights distant_u inv_total_importance (i + 1) light_cdf
                          ls pdf_factor)
      else Inl No_Return_Value)"
  by pat_completeness auto
termination
  by (relation "measure (\<lambda>(c, iv, kg, ru, rv, N, P, b, pf, n, du, inv, i, rest). nat (n - i))")
    auto

definition light_tree_sample_distant_lights ::
  "'r collaborators \<Rightarrow> bool \<Rightarrow> KernelGlobals \<Rightarrow> 'r \<Rightarrow> cfloat \<Rightarrow> cfloat \<Rightarrow> cfloat \<Rightarrow> float3
     \<Rightarrow> float3 \<Rightarrow> int \<Rightarrow> 32 word \<Rightarrow> LightSample \<Rightarrow> cfloat
     \<Rightarrow> fault + bool \<times> LightSample \<times> cfloat" where
  "light_tree_sample_distant_lights c in_volume_segment kg rng_state randu randv time N P bounce
       path_flag ls pdf_factor =
     (let num_distant_lights = num_distant_lights (integrator kg)
      in case distant_total kg P N num_distant_lights 0 (Finite 0) of
           Inl e \<Rightarrow> Inl e
         | Inr total_importance \<Rightarrow>
             let inv_total_importance = Finite 1 / total_importance;
                 light_cdf = Finite 0;
                 distant_u = path_state_rng_1D c rng_state 1
             in distant_sample c in_volume_segment kg randu randv N P bounce path_flag
                  num_distant_lights distant_u inv_total_importance 0 light_cdf ls pdf_factor)"

section \<open>The dispatcher\<close>

text \<open>\<^verbatim>\<open>pdf_factor *= p\<close> after a sub-sampler has returned.\<close>

definition times_pdf_factor ::
  "(fault + bool \<times> LightSample \<times> cfloat) option \<Rightarrow> cfloat
     \<Rightarrow> (fault + bool \<times> LightSample \<times> cfloat) option" where
  "times_pdf_factor r p =
     (case r of
        None \<Rightarrow> None
      | Some (Inl e) \<Rightarrow> Some (Inl e)
      | Some (Inr (ret, ls, pdf_factor)) \<Rightarrow> Some (Inr (ret, ls, pdf_factor * p)))"

text \<open>The three-way branch of \<open>light_tree_sample_from_position\<close>: what the chosen
  sub-sampler returned and wrote, with the \<open>pdf_factor\<close> accumulated so far.\<close>

definition dispatch ::
  "math_lib \<Rightarrow> 'r collaborators \<Rightarrow> KernelGlobals \<Rightarrow> 'r \<Rightarrow> cfloat \<Rightarrow> cfloat \<Rightarrow> cfloat \<Rightarrow> float3
     \<Rightarrow> float3 \<Rightarrow> int \<Rightarrow> 32 word \<Rightarrow> LightSample
     \<Rightarrow> (fault + bool \<times> LightSample \<times> cfloat) option" where
  "dispatch m c kg rng_state randu randv time P N bounce path_flag ls =
     (let num_distant_lights = num_distant_lights (integrator kg);
          num_light_tree_prims = num_distribution (integrator kg) - num_distant_lights;
          pdf_factor = Finite 1
      in if num_distant_lights = 0
         then light_tree_sample m c False kg rng_state randu randv time N P bounce path_flag ls
         else if num_light_tree_prims = 0
         then Some (light_tree_sample_distant_lights c False kg rng_state randu randv time N P
                      bounce path_flag ls pdf_factor)
         else (case kernel_data_fetch (light_tree_nodes kg) 0 of
                 Inl e \<Rightarrow> Some (Inl e)
               | Inr knode \<Rightarrow>
                   let light_tree_importance = light_tree_cluster_importance m P N knode
                   in (case light_tree_distant_light_importance kg P N num_distant_lights of
                         Inl e \<Rightarrow> Some (Inl e)
                       | Inr distant_light_importance \<Rightarrow>
                           let light_tree_probability =
                                 light_tree_importance
                                   / (light_tree_importance + distant_light_importance)
                           in if randu < light_tree_probability
                              then times_pdf_factor
                                     (light_tree_sample m c False kg rng_state randu randv time
                                        N P bounce path_flag ls)
                                     light_tree_probability
                              else times_pdf_factor
                                     (Some (light_tree_sample_distant_lights c False kg rng_state
                                              randu randv time N P bounce path_flag ls
                                              pdf_factor))
                                     (Finite 1 - light_tree_probability))))"

text \<open>The last two lines of \<open>light_tree_sample_from_position\<close>: \<^verbatim>\<open>ls->pdf *= pdf_factor\<close>,
  and the flag is returned.\<close>

definition scale_sample_pdf ::
  "(fault + bool \<times> LightSample \<times> cfloat) option \<Rightarrow> (fault + bool \<times> LightSample) option" where
  "scale_sample_pdf r =
     (case r of
        None \<Rightarrow> None
      | Some (Inl e) \<Rightarrow> Some (Inl e)
      | Some (Inr (ret, ls, pdf_factor)) \<Rightarrow> Some (Inr (ret, ls\<lparr>pdf := pdf ls * pdf_factor\<rparr>)))"

definition light_tree_sample_from_position ::
  "math_lib \<Rightarrow> 'r collaborators \<Rightarrow> KernelGlobals \<Rightarrow> 'r \<Rightarrow> cfloat \<Rightarrow> cfloat \<Rightarrow> cfloat \<Rightarrow> float3
     \<Rightarrow> float3 \<Rightarrow> int \<Rightarrow> 32 word \<Rightarrow> LightSample \<Rightarrow> (fault + bool \<times> LightSample) option" where
  "light_tree_sample_from_position m c kg rng_state randu randv time P N bounce path_flag ls =
     scale_sample_pdf (dispatch m c kg rng_state randu randv time P N bounce path_flag ls)"

section \<open>Reference collaborators and scenes\<close>

text \<open>
  Modelled from the spec: \<^verbatim>\<open>normalize\<close>, \<^verbatim>\<open>fast_acosf\<close> and \<^verbatim>\<open>fast_cosf\<close> are missing
  from the sources. The spec reads them as the unit vector of a direction (the zero
  direction for the zero vector), the angle between two directions and the cosine, and
  \<open>reference_math\<close> is that reading: the exact functions with the result rounded to
  binary32, undefined (not-a-number) outside of their domain. \<open>M_PI_2_F\<close> is the
  binary32 number next to \<open>pi / 2\<close>.
\<close>

fun fsqrt :: "cfloat \<Rightarrow> cfloat" where
  "fsqrt (Finite a) = (if a < 0 then Not_a_Number else round32 (sqrt a))"
| "fsqrt Pos_Inf = Pos_Inf"
| "fsqrt Neg_Inf = Not_a_Number"
| "fsqrt Not_a_Number = Not_a_Number"

definition normalize_ref :: "float3 \<Rightarrow> float3" where
  "normalize_ref a =
     (let l = fsqrt (len_squared a)
      in if l = Finite 0 then a else make_float3 (fx a / l) (fy a / l) (fz a / l))"

fun acos_ref :: "cfloat \<Rightarrow> cfloat" where
  "acos_ref (Finite a) = (if - 1 \<le> a \<and> a \<le> 1 then round32 (arccos a) else Not_a_Number)"
| "acos_ref _ = Not_a_Number"

fun cos_ref :: "cfloat \<Rightarrow> cfloat" where
  "cos_ref (Finite a) = round32 (cos a)"
| "cos_ref _ = Not_a_Number"

definition reference_math :: math_lib where
  "reference_math = \<lparr>normalize = normalize_ref, fast_acosf = acos_ref, fast_cosf = cos_ref\<rparr>"

definition M_PI_2_F :: cfloat where
  "M_PI_2_F = round32 (pi / 2)"

text \<open>
  Collaborators for the examples. The random number service returns the number kept
  in its state. The analytic sampler succeeds and records the \<open>randu\<close> it was handed in
  the sample's pdf; the triangle sampler writes a pdf of zero. Every light has a
  budget of 8 bounces.
\<close>

definition probe :: "bool \<Rightarrow> cfloat collaborators" where
  "probe dbg =
     \<lparr>path_state_rng_1D = (\<lambda>rng_state dimension. rng_state),
      light_select_reached_max_bounces = (\<lambda>lamp bounce. 8 < bounce),
      light_sample = (\<lambda>in_volume_segment lamp randu randv P path_flag ls.
                        (True, ls\<lparr>pdf := randu\<rparr>)),
      triangle_light_sample = (\<lambda>in_volume_segment prim object randu randv time ls P.
                                 ls\<lparr>pdf := Finite 0\<rparr>),
      PATH_RAY_SHADOW_CATCHER_PASS = 16777216,
      SD_OBJECT_SHADOW_CATCHER = 128,
      debug_build = dbg\<rparr>"

text \<open>
  Lights whose bounding box is the segment from -1 to 1 on a coordinate axis, emitting
  along that axis (\<open>theta_o = 0\<close>, \<open>theta_e = M_PI_2_F\<close>), seen from the point at 2 on the
  same axis with the normal facing the light.
\<close>

definition axis_y :: float_array3 where
  "axis_y = Float_Array3 (Finite 0) (Finite 1) (Finite 0)"

definition axis_z :: float_array3 where
  "axis_z = Float_Array3 (Finite 0) (Finite 0) (Finite 1)"

definition neg_array :: "float_array3 \<Rightarrow> float_array3" where
  "neg_array a = Float_Array3 (- elem a 0) (- elem a 1) (- elem a 2)"

definition point_on :: "float_array3 \<Rightarrow> cfloat \<Rightarrow> float3" where
  "point_on a t = make_float3 (t * elem a 0) (t * elem a 1) (t * elem a 2)"

definition segment_emitter :: "float_array3 \<Rightarrow> cfloat \<Rightarrow> KernelLightTreeEmitter" where
  "segment_emitter a en =
     \<lparr>KernelLightTreeEmitter.bounding_box_min = neg_array a,
      KernelLightTreeEmitter.bounding_box_max = a,
      KernelLightTreeEmitter.bounding_cone_axis = a,
      KernelLightTreeEmitter.theta_o = Finite 0,
      KernelLightTreeEmitter.theta_e = M_PI_2_F,
      KernelLightTreeEmitter.energy = en\<rparr>"

definition segment_node :: "float_array3 \<Rightarrow> cfloat \<Rightarrow> int \<Rightarrow> int \<Rightarrow> KernelLightTreeNode" where
  "segment_node a en ci np =
     \<lparr>KernelLightTreeNode.bounding_box_min = neg_array a,
      KernelLightTreeNode.bounding_box_max = a,
      KernelLightTreeNode.bounding_cone_axis = a,
      KernelLightTreeNode.theta_o = Finite 0,
      KernelLightTreeNode.theta_e = M_PI_2_F,
      KernelLightTreeNode.energy = en,
      child_index = ci, num_prims = np\<rparr>"

definition lamp_entry :: "int \<Rightarrow> KernelLightDistribution" where
  "lamp_entry lamp = \<lparr>prim = - lamp - 1, mesh_light = \<lparr>object_id = 0, shader_flag = 0\<rparr>\<rparr>"

definition triangle_entry :: "int \<Rightarrow> int \<Rightarrow> 32 word \<Rightarrow> KernelLightDistribution" where
  "triangle_entry t ob fl = \<lparr>prim = t, mesh_light = \<lparr>object_id = ob, shader_flag = fl\<rparr>\<rparr>"

text \<open>An interior root over two leaves of one lamp each, of energy \<open>e0\<close> and \<open>e1\<close>, and a
  list of distant lights.\<close>

definition two_leaf_scene ::
  "float_array3 \<Rightarrow> cfloat \<Rightarrow> cfloat \<Rightarrow> KernelLightTreeDistantEmitter list \<Rightarrow> int \<Rightarrow> KernelGlobals"
  where
  "two_leaf_scene a e0 e1 distant n_distant =
     \<lparr>light_tree_nodes = [segment_node a (e0 + e1) 2 0, segment_node a e0 0 1,
                           segment_node a e1 (- 1) 1],
      light_tree_emitters = [segment_emitter a e0, segment_emitter a e1],
      light_distribution = [lamp_entry 0, lamp_entry 1],
      light_tree_distant_group = distant,
      object_flag = [],
      integrator = \<lparr>num_distant_lights = n_distant, num_distribution = 2 + n_distant\<rparr>\<rparr>"

text \<open>A tree that is a single leaf with the given emitters.\<close>

definition leaf_scene ::
  "KernelLightTreeEmitter list \<Rightarrow> KernelLightDistribution list \<Rightarrow> 32 word list \<Rightarrow> KernelGlobals"
  where
  "leaf_scene emitters distribution flags =
     \<lparr>light_tree_nodes = [segment_node axis_y (Finite 1) 0 (int (length emitters))],
      light_tree_emitters = emitters,
      light_distribution = distribution,
      light_tree_distant_group = [],
      object_flag = flags,
      integrator = \<lparr>num_distant_lights = 0, num_distribution = int (length emitters)\<rparr>\<rparr>"

text \<open>A scene of distant lights only.\<close>

definition distant_scene :: "KernelLightTreeDistantEmitter list \<Rightarrow> KernelGlobals" where
  "distant_scene distant =
     \<lparr>light_tree_nodes = [], light_tree_emitters = [], light_distribution = [],
      light_tree_distant_group = distant, object_flag = [],
      integrator = \<lparr>num_distant_lights = int (length distant),
                     num_distribution = int (length distant)\<rparr>\<rparr>"

definition sun :: "int \<Rightarrow> cfloat \<Rightarrow> KernelLightTreeDistantEmitter" where
  "sun lamp en = \<lparr>prim_id = - lamp - 1, energy = en\<rparr>"

definition ls0 :: LightSample where
  "ls0 = \<lparr>pdf = Finite 1, shader = 0\<rparr>"


section \<open>The quantities the specification names\<close>

text \<open>The angle \<open>theta\<close> between the cone axis and the direction from the centroid to the
  shading point, and the angle \<open>theta_u\<close> under which the box is seen from there.\<close>

definition point_to_centroid_of :: "math_lib \<Rightarrow> float3 \<Rightarrow> float3 \<Rightarrow> float3 \<Rightarrow> float3" where
  "point_to_centroid_of m P bbox_min bbox_max =
     normalize m (scale3 (Finite (1 / 2)) bbox_min + scale3 (Finite (1 / 2)) bbox_max - P)"

definition theta_of :: "math_lib \<Rightarrow> float3 \<Rightarrow> float3 \<Rightarrow> float3 \<Rightarrow> float3 \<Rightarrow> cfloat" where
  "theta_of m P bbox_min bbox_max bcone_axis =
     fast_acosf m (dot bcone_axis (- point_to_centroid_of m P bbox_min bbox_max))"

definition theta_u_of :: "math_lib \<Rightarrow> float3 \<Rightarrow> float3 \<Rightarrow> float3 \<Rightarrow> cfloat" where
  "theta_u_of m P bbox_min bbox_max =
     light_tree_bounding_box_angle m bbox_min bbox_max P
       (point_to_centroid_of m P bbox_min bbox_max)"

text \<open>
  The dispatcher as the specification words its mixed case: the first random number is
  split between the two sub-samplers as at an interior node, so the sub-sampler chosen
  gets the rescaled number. Everything else is as in \<open>light_tree_sample_from_position\<close>.
\<close>

definition from_position_spec ::
  "math_lib \<Rightarrow> 'r collaborators \<Rightarrow> KernelGlobals \<Rightarrow> 'r \<Rightarrow> cfloat \<Rightarrow> cfloat \<Rightarrow> cfloat \<Rightarrow> float3
     \<Rightarrow> float3 \<Rightarrow> int \<Rightarrow> 32 word \<Rightarrow> LightSample \<Rightarrow> (fault + bool \<times> LightSample) option" where
  "from_position_spec m c kg rng_state randu randv time P N bounce path_flag ls =
     (let n_distant = num_distant_lights (integrator kg);
          num_light_tree_prims = num_distribution (integrator kg) - n_distant
      in if n_distant = 0 \<or> num_light_tree_prims = 0
         then light_tree_sample_from_position m c kg rng_state randu randv time P N bounce
                path_flag ls
         else (case kernel_data_fetch (light_tree_nodes kg) 0 of
                 Inl e \<Rightarrow> Some (Inl e)
               | Inr knode \<Rightarrow>
                   (case light_tree_distant_light_importance kg P N n_distant of
                      Inl e \<Rightarrow> Some (Inl e)
                    | Inr importance_distant \<Rightarrow>
                        let importance_tree = light_tree_cluster_importance m P N knode;
                            p_tree = importance_tree / (importance_tree + importance_distant)
                        in scale_sample_pdf
                             (if randu < p_tree
                              then times_pdf_factor
                                     (light_tree_sample m c False kg rng_state
                                        (randu * (importance_tree + importance_distant)
                                           / importance_tree)
                                        randv time N P bounce path_flag ls)
                                     p_tree
                              else times_pdf_factor
                                     (Some (light_tree_sample_distant_lights c False kg
                                              rng_state
                                              ((randu * (importance_tree + importance_distant)
                                                 - importance_tree) / importance_distant)
                                              randv time N P bounce path_flag ls (Finite 1)))
                                     (Finite 1 - p_tree)))))"


text \<open>
  The path of a descent: \<open>descent_path m kg P N (index, knode, u) ps (index', knode', u')\<close>
  says that the interior nodes visited from \<open>index\<close> on lead to the leaf \<open>index'\<close>, that
  \<open>ps\<close> lists the probability of the branch taken at each of them, in the order of the
  visits, and that \<open>u'\<close> is the rescaled random number at the leaf.
\<close>

inductive descent_path ::
  "math_lib \<Rightarrow> KernelGlobals \<Rightarrow> float3 \<Rightarrow> float3 \<Rightarrow> int \<times> KernelLightTreeNode \<times> cfloat
     \<Rightarrow> cfloat list \<Rightarrow> int \<times> KernelLightTreeNode \<times> cfloat \<Rightarrow> bool"
  for m :: math_lib and kg :: KernelGlobals and P :: float3 and N :: float3 where
  at_leaf:
    "\<not> 0 < child_index knode \<Longrightarrow> descent_path m kg P N (index, knode, tu) [] (index, knode, tu)"
| go_left:
    "0 < child_index knode \<Longrightarrow>
     kernel_data_fetch (light_tree_nodes kg) (index + 1) = Inr left \<Longrightarrow>
     kernel_data_fetch (light_tree_nodes kg) (child_index knode) = Inr right \<Longrightarrow>
     il = light_tree_cluster_importance m P N left \<Longrightarrow>
     ir = light_tree_cluster_importance m P N right \<Longrightarrow>
     tu < il / (il + ir) \<Longrightarrow>
     descent_path m kg P N (index + 1, left, tu * (il + ir) / il) ps leaf \<Longrightarrow>
     descent_path m kg P N (index, knode, tu) (il / (il + ir) # ps) leaf"
| go_right:
    "0 < child_index knode \<Longrightarrow>
     kernel_data_fetch (light_tree_nodes kg) (index + 1) = Inr left \<Longrightarrow>
     kernel_data_fetch (light_tree_nodes kg) (child_index knode) = Inr right \<Longrightarrow>
     il = light_tree_cluster_importance m P N left \<Longrightarrow>
     ir = light_tree_cluster_importance m P N right \<Longrightarrow>
     \<not> tu < il / (il + ir) \<Longrightarrow>
     descent_path m kg P N (child_index knode, right, (tu * (il + ir) - il) / ir) ps leaf \<Longrightarrow>
     descent_path m kg P N (index, knode, tu) ((Finite 1 - il / (il + ir)) # ps) leaf"

text \<open>
  What a sub-sampler may leave in the light sample \<open>ls\<close> it was handed: the sample as it
  was, and then it returns false; or what the analytic sampler \<^verbatim>\<open>light_sample\<close> returned
  for it; or what \<^verbatim>\<open>triangle_light_sample\<close> wrote into it, with a shader flag or'ed in,
  and then it returns whether the pdf of the sample is positive.
\<close>

definition sample_left ::
  "'r collaborators \<Rightarrow> bool \<Rightarrow> cfloat \<Rightarrow> cfloat \<Rightarrow> cfloat \<Rightarrow> float3 \<Rightarrow> 32 word \<Rightarrow> LightSample
     \<Rightarrow> bool \<Rightarrow> LightSample \<Rightarrow> bool" where
  "sample_left c iv randu randv time P path_flag ls ret ls' =
     ((\<not> ret \<and> ls' = ls)
      \<or> (\<exists>lamp. light_sample c iv lamp randu randv P path_flag ls = (ret, ls'))
      \<or> (\<exists>prim object fl.
            ls' = (triangle_light_sample c iv prim object randu randv time ls P)
                    \<lparr>shader := shader (triangle_light_sample c iv prim object randu randv time
                                          ls P) OR fl\<rparr>
            \<and> ret = (Finite 0 < pdf ls')))"

text \<open>
  The walk over the cumulative distribution of a leaf, each emitter weighted by its
  normalized probability, the float product \<open>importance * (1 / total)\<close>: the position in
  the leaf of the first emitter whose cumulative probability lies above \<open>tu\<close>, or \<open>None\<close>
  when the walk comes to the end of the leaf.
\<close>

function leaf_select ::
  "math_lib \<Rightarrow> KernelGlobals \<Rightarrow> float3 \<Rightarrow> float3 \<Rightarrow> KernelLightTreeNode \<Rightarrow> cfloat \<Rightarrow> cfloat \<Rightarrow> int
     \<Rightarrow> cfloat \<Rightarrow> fault + int option" where
  "leaf_select m kg P N knode tu tot i cdf =
     (if i < num_prims knode
      then (case light_tree_emitter_importance m kg P N (- child_index knode + i) of
              Inl e \<Rightarrow> Inl e
            | Inr imp \<Rightarrow>
                if tu < cdf + imp * (Finite 1 / tot) then Inr (Some i)
                else leaf_select m kg P N knode tu tot (i + 1) (cdf + imp * (Finite 1 / tot)))
      else Inr None)"
  by pat_completeness auto
termination
  by (relation "measure (\<lambda>(m, kg, P, N, knode, tu, tot, i, cdf). nat (num_prims knode - i))")
    auto

section \<open>Rounding to binary32\<close>

declare leaf_total.simps [simp del] leaf_sample.simps [simp del] leaf_select.simps [simp del]
  distant_total.simps [simp del] distant_sample.simps [simp del]

lemma rne_of_int [simp]: "rne (of_int n) = n"
  by (simp add: rne_def)

lemma rne_cases: "rne q = \<lfloor>q\<rfloor> \<or> rne q = \<lfloor>q\<rfloor> + 1"
  by (simp add: rne_def Let_def)

lemma rne_le: "q \<le> of_int n \<Longrightarrow> rne q \<le> n"
  unfolding rne_def Let_def by (auto split: if_splits; linarith)

lemma rne_ge: "of_int n \<le> q \<Longrightarrow> n \<le> rne q"
  unfolding rne_def Let_def by (auto split: if_splits; linarith)

lemma rne_near: "\<bar>of_int (rne q) - q\<bar> \<le> 1 / 2"
  unfolding rne_def Let_def by (auto split: if_splits; linarith)

lemma floor_log_bounds:
  assumes "x \<noteq> 0"
  shows "2 powr of_int \<lfloor>log 2 \<bar>x\<bar>\<rfloor> \<le> \<bar>x\<bar>" "\<bar>x\<bar> < 2 powr (of_int \<lfloor>log 2 \<bar>x\<bar>\<rfloor> + 1)"
  using floor_log_eq_powr_iff [of "\<bar>x\<bar>" 2 "\<lfloor>log 2 \<bar>x\<bar>\<rfloor>"] assms by simp_all

lemma floor_log_unique:
  assumes "2 powr of_int e \<le> \<bar>x\<bar>" "\<bar>x\<bar> < 2 powr (of_int e + 1)"
  shows "\<lfloor>log 2 \<bar>x\<bar>\<rfloor> = e"
proof -
  have "0 < \<bar>x\<bar>" using assms(1) by (smt (verit) powr_gt_zero)
  then show ?thesis using floor_log_eq_powr_iff [of "\<bar>x\<bar>" 2 e] assms by simp
qed

lemma powr2_less_int: "(2::real) powr of_int a < 2 powr of_int b \<longleftrightarrow> a < b"
  by simp

lemma ulp_exponent_range: "- 149 \<le> ulp_exponent x"
  by (simp add: ulp_exponent_def)

lemma ulp_quotient_less:
  assumes "x \<noteq> 0"
  shows "\<bar>x\<bar> / 2 powr of_int (ulp_exponent x) < 2 ^ 24"
proof -
  let ?e = "\<lfloor>log 2 \<bar>x\<bar>\<rfloor>"
  have "\<bar>x\<bar> < 2 powr (of_int ?e + 1)" using floor_log_bounds [OF assms] by simp
  also have "\<dots> \<le> 2 powr (of_int (ulp_exponent x) + 24)"
    by (simp add: ulp_exponent_def)
  also have "\<dots> = 2 powr of_int (ulp_exponent x) * 2 ^ 24"
    by (simp add: powr_add)
  finally show ?thesis by (simp add: field_simps)
qed

lemma ulp_exponent_le:
  assumes "x \<noteq> 0" "\<bar>x\<bar> < 2 ^ 128"
  shows "ulp_exponent x \<le> 104"
proof -
  let ?e = "\<lfloor>log 2 \<bar>x\<bar>\<rfloor>"
  have "(2::real) ^ 128 = 2 powr of_int 128" by simp
  then have "(2::real) powr of_int ?e < 2 powr of_int 128"
    using floor_log_bounds(1) [OF assms(1)] assms(2) by linarith
  then have "?e < 128" by (simp only: powr2_less_int)
  then show ?thesis by (simp add: ulp_exponent_def)
qed

lemma in_grid_zero [simp]: "in_grid 0"
  unfolding in_grid_def by (rule exI [of _ 0], rule exI [of _ 0]) simp

lemma in_grid_bound:
  assumes "in_grid x"
  shows "\<bar>x\<bar> \<le> 2 ^ 128 - 2 ^ 104"
proof -
  obtain n k where nk: "\<bar>n\<bar> < 2 ^ 24" "- 149 \<le> k" "k \<le> 104" "x = of_int n * 2 powr of_int k"
    using assms unfolding in_grid_def by blast
  have "\<bar>n\<bar> \<le> 2 ^ 24 - 1" using nk(1) by simp
  then have "real_of_int \<bar>n\<bar> \<le> real_of_int (2 ^ 24 - 1)" by (simp only: of_int_le_iff)
  then have n: "\<bar>real_of_int n\<bar> \<le> 2 ^ 24 - 1" by simp
  have "(2::real) powr of_int k \<le> 2 powr of_int 104"
    by (rule powr_mono) (use nk(3) in simp_all)
  moreover have "(2::real) powr of_int 104 = 2 ^ 104" by simp
  ultimately have k: "(2::real) powr of_int k \<le> 2 ^ 104" by linarith
  have "\<bar>x\<bar> = \<bar>real_of_int n\<bar> * 2 powr of_int k" by (simp add: nk(4) abs_mult)
  also have "\<dots> \<le> (2 ^ 24 - 1) * 2 ^ 104"
    by (rule mult_mono [OF n k]) simp_all
  finally show ?thesis by simp
qed

lemma round32_grid:
  assumes "in_grid x"
  shows "round32 x = Finite x"
proof (cases "x = 0")
  case True
  then show ?thesis by (simp add: round32_def)
next
  case False
  obtain n k where nk: "\<bar>n\<bar> < 2 ^ 24" "- 149 \<le> k" "k \<le> 104" "x = of_int n * 2 powr of_int k"
    using assms unfolding in_grid_def by blast
  let ?e = "\<lfloor>log 2 \<bar>x\<bar>\<rfloor>"
  let ?ue = "ulp_exponent x"
  have lt: "\<bar>x\<bar> < 2 ^ 128 - 2 ^ 103" using in_grid_bound [OF assms] by simp
  have "real_of_int \<bar>n\<bar> < real_of_int (2 ^ 24)" using nk(1) by (simp only: of_int_less_iff)
  then have "\<bar>real_of_int n\<bar> < 2 ^ 24" by simp
  then have "\<bar>x\<bar> < 2 ^ 24 * 2 powr of_int k"
    by (simp add: nk(4) abs_mult)
  moreover have "2 ^ 24 * (2::real) powr of_int k = 2 powr of_int (k + 24)"
    by (simp add: powr_add)
  ultimately have "(2::real) powr of_int ?e < 2 powr of_int (k + 24)"
    using floor_log_bounds(1) [OF False] by linarith
  then have "?e < k + 24" by (simp only: powr2_less_int)
  then have le: "?ue \<le> k" using nk(2) by (simp add: ulp_exponent_def)
  have "x / 2 powr of_int ?ue = of_int n * 2 powr of_int (k - ?ue)"
    by (simp add: nk(4) powr_diff)
  also have "\<dots> = of_int n * 2 ^ nat (k - ?ue)"
    using le by (simp add: powr_realpow [symmetric])
  also have "\<dots> = of_int (n * 2 ^ nat (k - ?ue))" by simp
  finally have q: "x / 2 powr of_int ?ue = of_int (n * 2 ^ nat (k - ?ue))" .
  have "of_int (rne (x / 2 powr of_int ?ue)) * 2 powr of_int ?ue = x"
    unfolding q rne_of_int unfolding q [symmetric] by simp
  then show ?thesis using False lt by (simp add: round32_def)
qed

lemma round32_in_grid:
  assumes "round32 x = Finite y"
  shows "in_grid y"
proof (cases "x = 0")
  case True
  then show ?thesis using assms by (simp add: round32_def)
next
  case False
  let ?ue = "ulp_exponent x"
  let ?u = "(2::real) powr of_int ?ue"
  let ?m = "rne (x / ?u)"
  have lt: "\<bar>x\<bar> < 2 ^ 128 - 2 ^ 103"
    using assms False by (auto simp: round32_def split: if_splits)
  have y: "y = of_int ?m * ?u"
    using assms False lt by (simp add: round32_def)
  have "\<bar>x / ?u\<bar> = \<bar>x\<bar> / ?u" by simp
  then have q: "\<bar>x / ?u\<bar> < 2 ^ 24" using ulp_quotient_less [OF False] by linarith
  have "x / ?u \<le> of_int (2 ^ 24)" "of_int (- (2 ^ 24)) \<le> x / ?u"
    using q by (simp_all only: of_int_minus of_int_power of_int_numeral abs_less_iff) linarith+
  then have m: "?m \<le> 2 ^ 24" "- (2 ^ 24) \<le> ?m"
    using rne_le rne_ge by blast+
  have ue: "?ue \<le> 104" "- 149 \<le> ?ue"
    using ulp_exponent_le [OF False] lt ulp_exponent_range by simp_all
  show ?thesis
  proof (cases "\<bar>?m\<bar> < 2 ^ 24")
    case True
    then show ?thesis unfolding in_grid_def using y ue by blast
  next
    case big: False
    then have abs: "\<bar>?m\<bar> = 2 ^ 24" using m by linarith
    have "\<bar>of_int ?m - x / ?u\<bar> \<le> 1 / 2" by (rule rne_near)
    moreover have "\<bar>real_of_int ?m\<bar> = 2 ^ 24"
    proof -
      have "real_of_int \<bar>?m\<bar> = real_of_int (2 ^ 24)" using abs by (simp only:)
      then show ?thesis by simp
    qed
    ultimately have "2 ^ 24 - 1 / 2 \<le> \<bar>x / ?u\<bar>" by linarith
    then have ge: "(2 ^ 24 - 1 / 2) * ?u \<le> \<bar>x\<bar>"
      by (simp add: field_simps)
    have "?ue \<noteq> 104"
    proof
      assume "?ue = 104"
      then have "?u = 2 ^ 104" by simp
      then show False using ge lt by simp
    qed
    then have ue1: "?ue + 1 \<le> 104" using ue by simp
    have "?m = 2 ^ 24 \<or> ?m = - (2 ^ 24)" using abs by linarith
    then have "y = of_int (?m div 2) * 2 powr of_int (?ue + 1)"
      using y by (auto simp: powr_add)
    moreover have "\<bar>?m div 2\<bar> < 2 ^ 24" using \<open>?m = 2 ^ 24 \<or> ?m = - (2 ^ 24)\<close> by auto
    moreover have "- 149 \<le> ?ue + 1" using ue(2) by simp
    ultimately show ?thesis unfolding in_grid_def using ue1 by blast
  qed
qed


lemma round32_finite:
  assumes "\<bar>x\<bar> < 2 ^ 128 - 2 ^ 103"
  shows "\<exists>y. round32 x = Finite y"
  using assms by (simp add: round32_def)


lemma round32_eval:
  assumes "2 powr of_int e \<le> \<bar>x\<bar>" "\<bar>x\<bar> < 2 powr (of_int e + 1)" "- 126 \<le> e" "e \<le> 126"
  shows "round32 x = Finite (of_int (rne (x / 2 powr of_int (e - 23))) * 2 powr of_int (e - 23))"
proof -
  have e: "\<lfloor>log 2 \<bar>x\<bar>\<rfloor> = e" by (rule floor_log_unique [OF assms(1,2)])
  have ue: "ulp_exponent x = e - 23" using assms(3) by (simp add: ulp_exponent_def e)
  have nz: "x \<noteq> 0" using assms(1) by (smt (verit) powr_gt_zero)
  have "(2::real) powr (of_int e + 1) \<le> 2 powr of_int 127"
    by (rule powr_mono) (use assms(4) in simp_all)
  moreover have "(2::real) powr of_int 127 = 2 ^ 127" by simp
  ultimately have "\<bar>x\<bar> < 2 ^ 127" using assms(2) by linarith
  then have "\<bar>x\<bar> < 2 ^ 128 - 2 ^ 103" by simp
  then show ?thesis using nz by (simp add: round32_def ue)
qed


lemma ulp_exponent_minus [simp]: "ulp_exponent (- x) = ulp_exponent x"
  by (simp add: ulp_exponent_def)






text \<open>A number of the format is rounded to itself, so small integers and dyadic fractions
  are computed with exactly.\<close>

lemma round32_exact [simp]: "in_grid x \<Longrightarrow> round32 x = Finite x"
  by (rule round32_grid)

lemma in_grid_minus [simp]: "in_grid (- x) = in_grid x"
proof -
  have "in_grid (- y)" if g: "in_grid y" for y
  proof -
    obtain n k where nk: "\<bar>n\<bar> < 2 ^ 24" "- 149 \<le> k" "k \<le> 104" "y = of_int n * 2 powr of_int k"
      using g unfolding in_grid_def by blast
    have "\<bar>- n\<bar> < 2 ^ 24" "- y = of_int (- n) * 2 powr of_int k" using nk by simp_all
    then show ?thesis unfolding in_grid_def using nk(2,3) by blast
  qed
  from this [of x] this [of "- x"] show ?thesis by auto
qed

lemma in_grid_dyadic:
  assumes "\<bar>n\<bar> < 2 ^ 24" "k \<le> 149"
  shows "in_grid (of_int n / 2 ^ k)"
proof -
  have "real_of_int n / 2 ^ k = of_int n * 2 powr of_int (- int k)"
    by (simp add: powr_minus_divide powr_realpow)
  moreover have "- 149 \<le> - int k" "- int k \<le> 104" using assms(2) by simp_all
  ultimately show ?thesis unfolding in_grid_def using assms(1) by blast
qed

lemma in_grid_numeral [simp]: "numeral n < (16777216::int) \<Longrightarrow> in_grid (numeral n)"
  using in_grid_dyadic [of "numeral n" 0] by simp

lemma in_grid_one [simp]: "in_grid 1"
  using in_grid_dyadic [of 1 0] by simp

lemma in_grid_fractions [simp]:
  "in_grid (1 / 2)" "in_grid (1 / 4)" "in_grid (1 / 8)" "in_grid (1 / 16)" "in_grid (1 / 32)"
  "in_grid (3 / 4)" "in_grid (3 / 8)" "in_grid (5 / 8)" "in_grid (7 / 8)"
  using in_grid_dyadic [of 1 1] in_grid_dyadic [of 1 2] in_grid_dyadic [of 1 3]
    in_grid_dyadic [of 1 4] in_grid_dyadic [of 1 5] in_grid_dyadic [of 3 2]
    in_grid_dyadic [of 3 3] in_grid_dyadic [of 5 3] in_grid_dyadic [of 7 3]
  by simp_all

section \<open>Arithmetic of the single-precision model\<close>

lemma minus_Finite [simp]: "Finite a - Finite b = round32 (a - b)"
  by (simp add: minus_cfloat_def)

lemma fmaxf_Finite [simp]: "fmaxf (Finite a) (Finite b) = Finite (max a b)"
  by (simp add: fmaxf_def max_def)

lemma fminf_Finite [simp]: "fminf (Finite a) (Finite b) = Finite (min a b)"
  by (simp add: fminf_def min_def)

lemma float3_arith [simp]:
  "make_float3 a b c + make_float3 d e f = make_float3 (a + d) (b + e) (c + f)"
  "make_float3 a b c - make_float3 d e f = make_float3 (a - d) (b - e) (c - f)"
  "- make_float3 a b c = make_float3 (- a) (- b) (- c)"
  "scale3 s (make_float3 a b c) = make_float3 (s * a) (s * b) (s * c)"
  "dot (make_float3 a b c) (make_float3 d e f) = a * d + b * e + c * f"
  "len_squared (make_float3 a b c) = a * a + b * b + c * c"
  by (simp_all add: plus_float3_def minus_float3_def uminus_float3_def scale3_def dot_def
      len_squared_def)

lemma le_fmaxf_zero: "e \<le> d \<Longrightarrow> e \<le> fmaxf d (Finite 0)"
  by (cases e; cases d) (auto simp: fmaxf_def)

lemma nan_absorbs [simp]:
  "a + Not_a_Number = Not_a_Number" "Not_a_Number + a = Not_a_Number"
  "a - Not_a_Number = Not_a_Number" "Not_a_Number - a = Not_a_Number"
  "a * Not_a_Number = Not_a_Number" "Not_a_Number * a = Not_a_Number"
  "a / Not_a_Number = Not_a_Number" "Not_a_Number / a = Not_a_Number"
  "\<not> a < Not_a_Number" "\<not> Not_a_Number < a"
  "\<not> a \<le> Not_a_Number" "\<not> Not_a_Number \<le> a"
  by (cases a; simp add: minus_cfloat_def)+

lemma feq_zero [simp]: "feq a (Finite 0) = (a = Finite 0)"
  by (auto simp: feq_def)

text \<open>The binary32 number next to \<open>pi / 2\<close> is a number of the format, and at least 1.\<close>

lemma M_PI_2_F_value: "\<exists>y. M_PI_2_F = Finite y \<and> in_grid y \<and> 1 \<le> y"
proof -
  have lt: "\<bar>pi / 2\<bar> < 2 ^ 128 - 2 ^ 103" using pi_less_4 pi_ge_two by simp
  obtain y where y: "round32 (pi / 2) = Finite y" using round32_finite [OF lt] by blast
  have g: "in_grid y" by (rule round32_in_grid [OF y])
  have e: "\<lfloor>log 2 \<bar>pi / 2\<bar>\<rfloor> = 0"
    by (rule floor_log_unique) (use pi_less_4 pi_ge_two in simp_all)
  have u: "ulp_exponent (pi / 2) = - 23" unfolding ulp_exponent_def e by simp
  have "of_int (2 ^ 23) \<le> pi / 2 / 2 powr of_int (- 23)"
    using pi_ge_two by (simp add: powr_minus_divide)
  then have "2 ^ 23 \<le> rne (pi / 2 / 2 powr of_int (- 23))" by (rule rne_ge)
  then have "real_of_int (2 ^ 23) \<le> of_int (rne (pi / 2 / 2 powr of_int (- 23)))"
    by (simp only: of_int_le_iff)
  then have "1 \<le> real_of_int (rne (pi / 2 / 2 powr of_int (- 23))) * 2 powr of_int (- 23)"
    by (simp add: powr_minus_divide field_simps)
  moreover have "y = of_int (rne (pi / 2 / 2 powr of_int (- 23))) * 2 powr of_int (- 23)"
    using y lt pi_gt_zero by (simp add: round32_def u)
  ultimately show ?thesis using y g by (simp add: M_PI_2_F_def)
qed

section \<open>Evaluating the reference functions on an axis\<close>

lemma math_sel [simp]:
  "normalize reference_math = normalize_ref"
  "fast_acosf reference_math = acos_ref"
  "fast_cosf reference_math = cos_ref"
  by (simp_all add: reference_math_def)

lemma sqrt_nine [simp]: "sqrt 9 = 3"
  by (rule real_sqrt_unique) simp_all

lemma normalize_ref_y [simp]:
  "t = 1 \<or> t = 2 \<or> t = 3 \<Longrightarrow>
   normalize_ref (make_float3 (Finite 0) (Finite (- t)) (Finite 0))
     = make_float3 (Finite 0) (Finite (- 1)) (Finite 0)"
  by (auto simp: normalize_ref_def Let_def)

lemma normalize_ref_z [simp]:
  "t = 1 \<or> t = 2 \<or> t = 3 \<Longrightarrow>
   normalize_ref (make_float3 (Finite 0) (Finite 0) (Finite (- t)))
     = make_float3 (Finite 0) (Finite 0) (Finite (- 1))"
  by (auto simp: normalize_ref_def Let_def)

lemma box_angle_y:
  "(a = - 1 \<and> b = 1) \<or> (a = 0 \<and> b = 0) \<Longrightarrow>
   light_tree_bounding_box_angle reference_math
     (make_float3 (Finite 0) (Finite a) (Finite 0)) (make_float3 (Finite 0) (Finite b) (Finite 0))
     (make_float3 (Finite 0) (Finite 2) (Finite 0))
     (make_float3 (Finite 0) (Finite (- 1)) (Finite 0)) = Finite 0"
  by (auto simp: light_tree_bounding_box_angle_def corners_def corner_step_def Let_def)

lemma box_angle_z:
  "light_tree_bounding_box_angle reference_math
     (make_float3 (Finite 0) (Finite 0) (Finite (- 1))) (make_float3 (Finite 0) (Finite 0) (Finite 1))
     (make_float3 (Finite 0) (Finite 0) (Finite 2))
     (make_float3 (Finite 0) (Finite 0) (Finite (- 1))) = Finite 0"
  by (simp add: light_tree_bounding_box_angle_def corners_def corner_step_def Let_def)

section \<open>The angular cutoff\<close>

text \<open>
  Claim C4. Whenever \<open>theta - theta_o - theta_u\<close> is at least \<open>theta_e\<close>, with \<open>theta\<close> the
  angle between the cone axis and the direction from the centroid to the shading point
  and \<open>theta_u\<close> the largest angle between the direction to the centroid and the
  directions to the eight corners of the box, \<open>light_tree_node_importance\<close> returns
  exactly 0, for all inputs and whatever the three math functions compute.
\<close>

theorem importance_angular_cutoff:
  fixes theta_o theta_e energy :: cfloat
  assumes "theta_e \<le> theta_of m P bbox_min bbox_max bcone_axis - theta_o
                       - theta_u_of m P bbox_min bbox_max"
  shows "light_tree_node_importance m P N bbox_min bbox_max bcone_axis theta_o theta_e energy
           = Finite 0"
  using assms
  by (simp add: light_tree_node_importance_def theta_of_def theta_u_of_def
      point_to_centroid_of_def Let_def le_fmaxf_zero)

text \<open>At the boundary itself: a cone axis at a right angle to the direction of the shading
  point, \<open>theta_o = 0\<close> and \<open>theta_e\<close> the binary32 number next to \<open>pi / 2\<close>.\<close>

theorem importance_angular_cutoff_witness:
  "M_PI_2_F
     \<le> theta_of reference_math (make_float3 (Finite 0) (Finite 2) (Finite 0))
          (make_float3 (Finite 0) (Finite (- 1)) (Finite 0))
          (make_float3 (Finite 0) (Finite 1) (Finite 0))
          (make_float3 (Finite 1) (Finite 0) (Finite 0))
        - Finite 0
        - theta_u_of reference_math (make_float3 (Finite 0) (Finite 2) (Finite 0))
            (make_float3 (Finite 0) (Finite (- 1)) (Finite 0))
            (make_float3 (Finite 0) (Finite 1) (Finite 0))
   \<and> light_tree_node_importance reference_math (make_float3 (Finite 0) (Finite 2) (Finite 0))
         (make_float3 (Finite 0) (Finite (- 1)) (Finite 0))
         (make_float3 (Finite 0) (Finite (- 1)) (Finite 0))
         (make_float3 (Finite 0) (Finite 1) (Finite 0))
         (make_float3 (Finite 1) (Finite 0) (Finite 0))
         (Finite 0) M_PI_2_F (Finite 1) = Finite 0"
proof -
  obtain y where y: "M_PI_2_F = Finite y" "in_grid y" "1 \<le> y"
    using M_PI_2_F_value by blast
  have r: "round32 (pi / 2) = Finite y" using y(1) by (simp add: M_PI_2_F_def)
  have h: "M_PI_2_F
     \<le> theta_of reference_math (make_float3 (Finite 0) (Finite 2) (Finite 0))
          (make_float3 (Finite 0) (Finite (- 1)) (Finite 0))
          (make_float3 (Finite 0) (Finite 1) (Finite 0))
          (make_float3 (Finite 1) (Finite 0) (Finite 0))
        - Finite 0
        - theta_u_of reference_math (make_float3 (Finite 0) (Finite 2) (Finite 0))
            (make_float3 (Finite 0) (Finite (- 1)) (Finite 0))
            (make_float3 (Finite 0) (Finite 1) (Finite 0))"
    using box_angle_y [of "- 1" 1] y(2,3)
    by (simp add: theta_of_def theta_u_of_def point_to_centroid_of_def y(1) r)
  show ?thesis
    using h importance_angular_cutoff [OF h] by simp
qed

section \<open>Evaluating the importance in the reference scenes\<close>

lemma point_on_y [simp]:
  "in_grid t \<Longrightarrow> point_on axis_y (Finite t) = make_float3 (Finite 0) (Finite t) (Finite 0)"
  by (simp add: point_on_def axis_y_def)

lemma point_on_z [simp]:
  "in_grid t \<Longrightarrow> point_on axis_z (Finite t) = make_float3 (Finite 0) (Finite 0) (Finite t)"
  by (simp add: point_on_def axis_z_def)

lemma importance_on_y:
  assumes "in_grid en" "in_grid (4 * en)"
  shows "light_tree_node_importance reference_math
     (make_float3 (Finite 0) (Finite 2) (Finite 0)) (make_float3 (Finite 0) (Finite (- 1)) (Finite 0))
     (make_float3 (Finite 0) (Finite (- 1)) (Finite 0)) (make_float3 (Finite 0) (Finite 1) (Finite 0))
     (make_float3 (Finite 0) (Finite 1) (Finite az)) (Finite 0) M_PI_2_F (Finite en)
   = Finite (4 * en)"
proof -
  obtain y where y: "M_PI_2_F = Finite y" "in_grid y" "1 \<le> y"
    using M_PI_2_F_value by blast
  have g: "in_grid (en * 4)" using assms(2) by (simp add: mult.commute)
  show ?thesis
    using box_angle_y [of "- 1" 1] y(2,3) assms g
    by (simp add: light_tree_node_importance_def Let_def mult.commute y(1))
qed

lemma importance_on_z:
  assumes "in_grid en" "in_grid (4 * en)"
  shows "light_tree_node_importance reference_math
     (make_float3 (Finite 0) (Finite 0) (Finite 2)) (make_float3 (Finite 0) (Finite 0) (Finite (- 1)))
     (make_float3 (Finite 0) (Finite 0) (Finite (- 1))) (make_float3 (Finite 0) (Finite 0) (Finite 1))
     (make_float3 (Finite 0) (Finite 0) (Finite 1)) (Finite 0) M_PI_2_F (Finite en)
   = Finite (4 * en)"
proof -
  obtain y where y: "M_PI_2_F = Finite y" "in_grid y" "1 \<le> y"
    using M_PI_2_F_value by blast
  have g: "in_grid (en * 4)" using assms(2) by (simp add: mult.commute)
  show ?thesis
    using box_angle_z y(2,3) assms g
    by (simp add: light_tree_node_importance_def Let_def mult.commute y(1))
qed

lemma importance_across_z:
  "light_tree_node_importance reference_math
     (make_float3 (Finite 0) (Finite 0) (Finite 2)) (make_float3 (Finite 0) (Finite 0) (Finite (- 1)))
     (make_float3 (Finite 0) (Finite 0) (Finite (- 1))) (make_float3 (Finite 0) (Finite 0) (Finite 1))
     (make_float3 (Finite 0) (Finite 0) (Finite 0)) (Finite 0) M_PI_2_F (Finite en)
   = Finite 0"
proof -
  obtain y where y: "M_PI_2_F = Finite y" "in_grid y" "1 \<le> y"
    using M_PI_2_F_value by blast
  have r: "round32 (pi / 2) = Finite y" using y(1) by (simp add: M_PI_2_F_def)
  show ?thesis
    using box_angle_z y(2,3)
    by (simp add: light_tree_node_importance_def Let_def y(1) r)
qed

lemma cluster_importance_y [simp]:
  "in_grid en \<Longrightarrow> in_grid (4 * en) \<Longrightarrow>
   light_tree_cluster_importance reference_math (point_on axis_y (Finite 2))
     (point_on axis_y (Finite (- 1))) (segment_node axis_y (Finite en) ci np) = Finite (4 * en)"
  using importance_on_y [of en 1]
  by (simp add: light_tree_cluster_importance_def segment_node_def axis_y_def neg_array_def point_on_def)

lemma cluster_importance_z [simp]:
  "light_tree_cluster_importance reference_math (point_on axis_z (Finite 2))
     (point_on axis_z (Finite (- 1))) (segment_node axis_z (Finite en) ci np) = Finite 0"
  using importance_across_z [of en]
  by (simp add: light_tree_cluster_importance_def segment_node_def axis_z_def neg_array_def point_on_def)

lemma emitter_importance_y:
  "kernel_data_fetch (light_tree_emitters kg) i = Inr (segment_emitter axis_y (Finite en)) \<Longrightarrow>
   in_grid en \<Longrightarrow> in_grid (4 * en) \<Longrightarrow>
   light_tree_emitter_importance reference_math kg (point_on axis_y (Finite 2))
     (point_on axis_y (Finite (- 1))) i = Inr (Finite (4 * en))"
  using importance_on_y [of en 0]
  by (simp add: light_tree_emitter_importance_def segment_emitter_def axis_y_def neg_array_def point_on_def)

lemma emitter_importance_z:
  "kernel_data_fetch (light_tree_emitters kg) i = Inr (segment_emitter axis_z (Finite en)) \<Longrightarrow>
   in_grid en \<Longrightarrow> in_grid (4 * en) \<Longrightarrow>
   light_tree_emitter_importance reference_math kg (point_on axis_z (Finite 2))
     (point_on axis_z (Finite (- 1))) i = Inr (Finite (4 * en))"
  using importance_on_z [of en]
  by (simp add: light_tree_emitter_importance_def segment_emitter_def axis_z_def neg_array_def point_on_def)

lemma two_leaf_nodes [simp]:
  "kernel_data_fetch (light_tree_nodes (two_leaf_scene a e0 e1 ds n)) 0
     = Inr (segment_node a (e0 + e1) 2 0)"
  "kernel_data_fetch (light_tree_nodes (two_leaf_scene a e0 e1 ds n)) 1
     = Inr (segment_node a e0 0 1)"
  "kernel_data_fetch (light_tree_nodes (two_leaf_scene a e0 e1 ds n)) 2
     = Inr (segment_node a e1 (- 1) 1)"
  by (simp_all add: two_leaf_scene_def kernel_data_fetch_def)

lemma two_leaf_emitters [simp]:
  "kernel_data_fetch (light_tree_emitters (two_leaf_scene a e0 e1 ds n)) 0
     = Inr (segment_emitter a e0)"
  "kernel_data_fetch (light_tree_emitters (two_leaf_scene a e0 e1 ds n)) 1
     = Inr (segment_emitter a e1)"
  by (simp_all add: two_leaf_scene_def kernel_data_fetch_def)

lemma segment_node_sel [simp]:
  "child_index (segment_node a en ci np) = ci"
  "num_prims (segment_node a en ci np) = np"
  by (simp_all add: segment_node_def)

section \<open>Range of the importance\<close>











lemma in_grid_large [simp]: "in_grid 170141183460469231731687303715884105728"
proof -
  have "(170141183460469231731687303715884105728::real) = of_int (2 ^ 23) * 2 powr of_int 104"
    by simp
  moreover have "\<bar>2 ^ 23 :: int\<bar> < 2 ^ 24" by simp
  moreover have "- 149 \<le> (104::int)" "(104::int) \<le> 104" by simp_all
  ultimately show ?thesis unfolding in_grid_def by blast
qed







section \<open>The descent\<close>

lemma descend_leaf:
  "\<not> 0 < child_index knode \<Longrightarrow>
   descend m kg P N (index, knode, tu, pf) = Some (Inr (index, knode, tu, pf))"
  by (subst descend.simps) simp

lemma interior_step_split:
  assumes "kernel_data_fetch (light_tree_nodes kg) (index + 1) = Inr left"
    and "kernel_data_fetch (light_tree_nodes kg) (child_index knode) = Inr right"
    and "il = light_tree_cluster_importance m P N left"
    and "ir = light_tree_cluster_importance m P N right"
  shows "interior_step m kg P N (index, knode, tu, pf) =
     Inr (if tu < il / (il + ir)
          then (index + 1, left, tu * (il + ir) / il, pf * (il / (il + ir)))
          else (child_index knode, right, (tu * (il + ir) - il) / ir,
                pf * (Finite 1 - il / (il + ir))))"
  by (simp add: interior_step_def assms Let_def)

lemma descend_interior:
  assumes "0 < child_index knode"
    and "kernel_data_fetch (light_tree_nodes kg) (index + 1) = Inr left"
    and "kernel_data_fetch (light_tree_nodes kg) (child_index knode) = Inr right"
    and "il = light_tree_cluster_importance m P N left"
    and "ir = light_tree_cluster_importance m P N right"
  shows "descend m kg P N (index, knode, tu, pf) =
     descend m kg P N
       (if tu < il / (il + ir)
        then (index + 1, left, tu * (il + ir) / il, pf * (il / (il + ir)))
        else (child_index knode, right, (tu * (il + ir) - il) / ir,
              pf * (Finite 1 - il / (il + ir))))"
  by (subst descend.simps) (simp add: interior_step_split [OF assms(2-5)] assms(1))

lemma descent_path_descend:
  "descent_path m kg P N st ps leaf \<Longrightarrow>
   descend m kg P N (fst st, fst (snd st), snd (snd st), pf)
     = Some (Inr (fst leaf, fst (snd leaf), snd (snd leaf), foldl (*) pf ps))"
proof (induction arbitrary: pf rule: descent_path.induct)
  case (at_leaf knode index tu)
  then show ?case by (simp add: descend_leaf)
next
  case (go_left knode index left right il ir tu ps leaf)
  show ?case
    using go_left.hyps(1-6) go_left.IH [of "pf * (il / (il + ir))"]
    by (simp add: descend_interior [where left = left and right = right and il = il and ir = ir])
next
  case (go_right knode index left right il ir tu ps leaf)
  show ?case
    using go_right.hyps(1-6) go_right.IH [of "pf * (Finite 1 - il / (il + ir))"]
    by (simp add: descend_interior [where left = left and right = right and il = il and ir = ir])
qed

section \<open>The split at an interior node\<close>

text \<open>
  Claim C1. At an interior node visited by the descent of \<open>light_tree_sample\<close> (a node
  with \<open>child_index > 0\<close>), with the left child at \<open>index + 1\<close> and the right child at
  \<open>child_index\<close>, one round of the loop goes left exactly when the running \<open>tu\<close> is below
  \<open>p_left = importance_left / (importance_left + importance_right)\<close>. Going left, the
  state of the loop becomes the left child with \<open>tu\<close> rescaled to
  \<open>tu * (importance_left + importance_right) / importance_left\<close> and \<open>pdf_factor\<close>
  multiplied by \<open>p_left\<close>; going right, it becomes the right child with \<open>tu\<close> rescaled to
  \<open>(tu * (importance_left + importance_right) - importance_left) / importance_right\<close> and
  \<open>pdf_factor\<close> multiplied by \<open>1 - p_left\<close>. The descent goes on from that state, and it
  ends there, with that state, when the child is a leaf.
\<close>

theorem interior_node_split:
  assumes "0 < child_index knode"
    and "kernel_data_fetch (light_tree_nodes kg) (index + 1) = Inr left"
    and "kernel_data_fetch (light_tree_nodes kg) (child_index knode) = Inr right"
    and "importance_left = light_tree_cluster_importance m P N left"
    and "importance_right = light_tree_cluster_importance m P N right"
    and "p_left = importance_left / (importance_left + importance_right)"
    and "next_state =
           (if tu < p_left
            then (index + 1, left,
                  tu * (importance_left + importance_right) / importance_left,
                  pdf_factor * p_left)
            else (child_index knode, right,
                  (tu * (importance_left + importance_right) - importance_left)
                    / importance_right,
                  pdf_factor * (Finite 1 - p_left)))"
  shows "interior_step m kg P N (index, knode, tu, pdf_factor) = Inr next_state
         \<and> descend m kg P N (index, knode, tu, pdf_factor) = descend m kg P N next_state
         \<and> (\<not> 0 < child_index (fst (snd next_state)) \<longrightarrow>
              descend m kg P N (index, knode, tu, pdf_factor) = Some (Inr next_state))"
proof (intro conjI impI)
  show s: "interior_step m kg P N (index, knode, tu, pdf_factor) = Inr next_state"
    unfolding assms(6,7) by (rule interior_step_split [OF assms(2-5)])
  show d: "descend m kg P N (index, knode, tu, pdf_factor) = descend m kg P N next_state"
    unfolding assms(6,7) by (rule descend_interior [OF assms(1-5)])
  assume "\<not> 0 < child_index (fst (snd next_state))"
  then have "descend m kg P N next_state = Some (Inr next_state)"
    using descend_leaf [of "fst (snd next_state)" m kg P N "fst next_state"
        "fst (snd (snd next_state))" "snd (snd (snd next_state))"]
    by simp
  then show "descend m kg P N (index, knode, tu, pdf_factor) = Some (Inr next_state)"
    using d by simp
qed

text \<open>The root over leaves of energy 1 and 3: the importances are 4 and 12 and
  \<open>p_left = 1 / 4\<close>, so 1/8 goes left and 5/8 goes right, both rescaled to 1/2.\<close>

theorem interior_node_split_witness:
  "0 < child_index (segment_node axis_y (Finite 4) 2 0)
   \<and> kernel_data_fetch (light_tree_nodes (two_leaf_scene axis_y (Finite 1) (Finite 3) [] 0)) (0 + 1)
       = Inr (segment_node axis_y (Finite 1) 0 1)
   \<and> kernel_data_fetch (light_tree_nodes (two_leaf_scene axis_y (Finite 1) (Finite 3) [] 0))
         (child_index (segment_node axis_y (Finite 4) 2 0))
       = Inr (segment_node axis_y (Finite 3) (- 1) 1)
   \<and> Finite 4 = light_tree_cluster_importance reference_math (point_on axis_y (Finite 2))
         (point_on axis_y (Finite (- 1))) (segment_node axis_y (Finite 1) 0 1)
   \<and> Finite 12 = light_tree_cluster_importance reference_math (point_on axis_y (Finite 2))
         (point_on axis_y (Finite (- 1))) (segment_node axis_y (Finite 3) (- 1) 1)
   \<and> Finite (1 / 4) = Finite 4 / (Finite 4 + Finite 12)
   \<and> interior_step reference_math (two_leaf_scene axis_y (Finite 1) (Finite 3) [] 0)
         (point_on axis_y (Finite 2)) (point_on axis_y (Finite (- 1)))
         (0, segment_node axis_y (Finite 4) 2 0, Finite (1 / 8), Finite 1)
       = Inr (1, segment_node axis_y (Finite 1) 0 1, Finite (1 / 2), Finite (1 / 4))
   \<and> descend reference_math (two_leaf_scene axis_y (Finite 1) (Finite 3) [] 0)
         (point_on axis_y (Finite 2)) (point_on axis_y (Finite (- 1)))
         (0, segment_node axis_y (Finite 4) 2 0, Finite (1 / 8), Finite 1)
       = Some (Inr (1, segment_node axis_y (Finite 1) 0 1, Finite (1 / 2), Finite (1 / 4)))
   \<and> interior_step reference_math (two_leaf_scene axis_y (Finite 1) (Finite 3) [] 0)
         (point_on axis_y (Finite 2)) (point_on axis_y (Finite (- 1)))
         (0, segment_node axis_y (Finite 4) 2 0, Finite (5 / 8), Finite 1)
       = Inr (2, segment_node axis_y (Finite 3) (- 1) 1, Finite (1 / 2), Finite (3 / 4))
   \<and> descend reference_math (two_leaf_scene axis_y (Finite 1) (Finite 3) [] 0)
         (point_on axis_y (Finite 2)) (point_on axis_y (Finite (- 1)))
         (0, segment_node axis_y (Finite 4) 2 0, Finite (5 / 8), Finite 1)
       = Some (Inr (2, segment_node axis_y (Finite 3) (- 1) 1, Finite (1 / 2), Finite (3 / 4)))"
proof -
  let ?kg = "two_leaf_scene axis_y (Finite 1) (Finite 3) [] 0"
  let ?P = "point_on axis_y (Finite 2)"
  let ?N = "point_on axis_y (Finite (- 1))"
  let ?root = "segment_node axis_y (Finite 4) 2 0"
  let ?l = "segment_node axis_y (Finite 1) 0 1"
  let ?r = "segment_node axis_y (Finite 3) (- 1) 1"
  have h1: "0 < child_index ?root" by simp
  have h2: "kernel_data_fetch (light_tree_nodes ?kg) (0 + 1) = Inr ?l" by simp
  have h3: "kernel_data_fetch (light_tree_nodes ?kg) (child_index ?root) = Inr ?r" by simp
  have h4: "Finite 4 = light_tree_cluster_importance reference_math ?P ?N ?l"
    by (simp del: point_on_y)
  have h5: "Finite 12 = light_tree_cluster_importance reference_math ?P ?N ?r"
    by (simp del: point_on_y)
  have h6: "Finite (1 / 4) = Finite 4 / (Finite 4 + Finite 12)" by simp
  have l: "(1, ?l, Finite (1 / 2), Finite (1 / 4))
           = (if Finite (1 / 8) < Finite (1 / 4)
              then (0 + 1, ?l, Finite (1 / 8) * (Finite 4 + Finite 12) / Finite 4,
                    Finite 1 * Finite (1 / 4))
              else (child_index ?root, ?r,
                    (Finite (1 / 8) * (Finite 4 + Finite 12) - Finite 4) / Finite 12,
                    Finite 1 * (Finite 1 - Finite (1 / 4))))"
    by simp
  have r: "(2, ?r, Finite (1 / 2), Finite (3 / 4))
           = (if Finite (5 / 8) < Finite (1 / 4)
              then (0 + 1, ?l, Finite (5 / 8) * (Finite 4 + Finite 12) / Finite 4,
                    Finite 1 * Finite (1 / 4))
              else (child_index ?root, ?r,
                    (Finite (5 / 8) * (Finite 4 + Finite 12) - Finite 4) / Finite 12,
                    Finite 1 * (Finite 1 - Finite (1 / 4))))"
    by simp
  note tl = interior_node_split [OF h1 h2 h3 h4 h5 h6 l]
  note tr = interior_node_split [OF h1 h2 h3 h4 h5 h6 r]
  have a1: "descend reference_math ?kg ?P ?N (0, ?root, Finite (1 / 8), Finite 1)
              = Some (Inr (1, ?l, Finite (1 / 2), Finite (1 / 4)))"
    using tl [THEN conjunct2, THEN conjunct2] by simp
  have a2: "descend reference_math ?kg ?P ?N (0, ?root, Finite (5 / 8), Finite 1)
              = Some (Inr (2, ?r, Finite (1 / 2), Finite (3 / 4)))"
    using tr [THEN conjunct2, THEN conjunct2] by simp
  show ?thesis
    by (intro conjI h1 h2 h3 h4 h5 h6 tl [THEN conjunct1] tr [THEN conjunct1] a1 a2)
qed

section \<open>The walk over the emitters of a leaf\<close>

text \<open>A product is a float already: adding it to 0 or multiplying it by 1 gives it back.\<close>

lemma one_times_product:
  fixes a b :: cfloat
  shows "Finite 1 * (a * b) = a * b"
proof (cases "a * b")
  case (Finite z)
  have "in_grid z"
  proof (cases a; cases b)
    fix x y
    assume "a = Finite x" "b = Finite y"
    then show ?thesis using Finite round32_in_grid [of "x * y" z] by simp
  qed (use Finite in \<open>simp_all split: if_splits\<close>)
  then show ?thesis using Finite by simp
qed simp_all

lemma zero_plus_product:
  fixes a b :: cfloat
  shows "Finite 0 + a * b = a * b"
proof (cases "a * b")
  case (Finite z)
  have "in_grid z"
  proof (cases a; cases b)
    fix x y
    assume "a = Finite x" "b = Finite y"
    then show ?thesis using Finite round32_in_grid [of "x * y" z] by simp
  qed (use Finite in \<open>simp_all split: if_splits\<close>)
  then show ?thesis using Finite by simp
qed simp_all

lemma leaf_sample_select:
  "leaf_select m kg P N knode tu tot i cdf = Inr (Some j) \<Longrightarrow>
   light_tree_emitter_importance m kg P N (- child_index knode + j) = Inr imp \<Longrightarrow>
   leaf_sample m c iv kg randu randv time N P bounce path_flag knode tu (Finite 1 / tot)
     i cdf ls pf
   = (case sample_emitter c iv kg randu randv time P bounce path_flag ls
            (- child_index knode + j) of
        Inl e \<Rightarrow> Inl e
      | Inr (ret, ls') \<Rightarrow> Inr (ret, ls', pf * (imp * (Finite 1 / tot))))"
proof (induction m kg P N knode tu tot i cdf rule: leaf_select.induct)
  case (1 m kg P N knode tu tot i cdf)
  note sel = "1.prems"(1)
  show ?case
  proof (cases "i < num_prims knode")
    case False
    then show ?thesis using sel by (subst (asm) leaf_select.simps) simp
  next
    case True
    then obtain x where x: "light_tree_emitter_importance m kg P N (- child_index knode + i) = Inr x"
      using sel by (subst (asm) leaf_select.simps) (auto split: sum.splits)
    show ?thesis
    proof (cases "tu < cdf + x * (Finite 1 / tot)")
      case hit: True
      then have "j = i"
        using sel True x by (subst (asm) leaf_select.simps) simp
      then have "imp = x" using x "1.prems"(2) by simp
      then show ?thesis
        using True x hit \<open>j = i\<close>
        by (subst leaf_sample.simps) (simp add: Let_def split: sum.splits)
    next
      case miss: False
      then have "leaf_select m kg P N knode tu tot (i + 1) (cdf + x * (Finite 1 / tot))
                   = Inr (Some j)"
        using sel True x by (subst (asm) leaf_select.simps) simp
      then have "leaf_sample m c iv kg randu randv time N P bounce path_flag knode tu
                   (Finite 1 / tot) (i + 1) (cdf + x * (Finite 1 / tot)) ls pf
                 = (case sample_emitter c iv kg randu randv time P bounce path_flag ls
                          (- child_index knode + j) of
                      Inl e \<Rightarrow> Inl e
                    | Inr (ret, ls') \<Rightarrow> Inr (ret, ls', pf * (imp * (Finite 1 / tot))))"
        using "1.IH" [OF True x miss _ "1.prems"(2)] by simp
      then show ?thesis
        using True x miss
        by (subst leaf_sample.simps) (simp add: Let_def)
    qed
  qed
qed

lemma leaf_sample_exhausted:
  "leaf_select m kg P N knode tu tot i cdf = Inr None \<Longrightarrow>
   leaf_sample m c iv kg randu randv time N P bounce path_flag knode tu (Finite 1 / tot)
     i cdf ls pf
   = (if debug_build c then Inl Assertion_Failed else Inr (False, ls, pf))"
proof (induction m kg P N knode tu tot i cdf rule: leaf_select.induct)
  case (1 m kg P N knode tu tot i cdf)
  note sel = "1.prems"(1)
  show ?case
  proof (cases "i < num_prims knode")
    case False
    then show ?thesis by (subst leaf_sample.simps) simp
  next
    case True
    then obtain x where x: "light_tree_emitter_importance m kg P N (- child_index knode + i) = Inr x"
      using sel by (subst (asm) leaf_select.simps) (auto split: sum.splits)
    have miss: "\<not> tu < cdf + x * (Finite 1 / tot)"
      using sel True x by (subst (asm) leaf_select.simps) (auto split: if_splits)
    then have "leaf_select m kg P N knode tu tot (i + 1) (cdf + x * (Finite 1 / tot)) = Inr None"
      using sel True x by (subst (asm) leaf_select.simps) simp
    then have "leaf_sample m c iv kg randu randv time N P bounce path_flag knode tu
                 (Finite 1 / tot) (i + 1) (cdf + x * (Finite 1 / tot)) ls pf
               = (if debug_build c then Inl Assertion_Failed else Inr (False, ls, pf))"
      using "1.IH" [OF True x miss] by simp
    then show ?thesis
      using True x miss
      by (subst leaf_sample.simps) (simp add: Let_def)
  qed
qed

lemma light_tree_sample_at_leaf:
  assumes "kernel_data_fetch (light_tree_nodes kg) 0 = Inr knode0"
    and "descent_path m kg P N (0, knode0, path_state_rng_1D c rng_state 1) ps (index, knode, tu)"
  shows "light_tree_sample m c iv kg rng_state randu randv time N P bounce path_flag ls
         = Some (case leaf_total m kg P N knode 0 (Finite 0) of
                   Inl e \<Rightarrow> Inl e
                 | Inr tot \<Rightarrow>
                     if tot = Finite 0 then Inr (False, ls, foldl (*) (Finite 1) ps)
                     else leaf_sample m c iv kg randu randv time N P bounce path_flag knode tu
                            (Finite 1 / tot) 0 (Finite 0) ls (foldl (*) (Finite 1) ps))"
  using descent_path_descend [OF assms(2), of "Finite 1"] assms(1)
  by (simp add: light_tree_sample_def Let_def split: sum.splits)

lemma single_emitter_total:
  assumes "num_prims knode = 1"
    and "light_tree_emitter_importance m kg P N (- child_index knode) = Inr imp"
  shows "leaf_total m kg P N knode 0 (Finite 0) = Inr (Finite 0 + imp)"
  using assms
  by (subst leaf_total.simps, subst leaf_total.simps) simp

lemma single_emitter_select:
  assumes "num_prims knode = 1"
    and "light_tree_emitter_importance m kg P N (- child_index knode) = Inr imp"
    and "tu < imp * (Finite 1 / tot)"
  shows "leaf_select m kg P N knode tu tot 0 (Finite 0) = Inr (Some 0)"
  using assms by (subst leaf_select.simps) (simp add: zero_plus_product)

section \<open>Composition of the probability factor\<close>

text \<open>
  Claim C2, as amended. When a call of \<open>light_tree_sample\<close> selects an emitter (the descent
  follows the path \<open>ps\<close> to a leaf whose total importance \<open>tot\<close> is not 0, and the walk over
  the cumulative distribution of the leaf stops at its emitter \<open>j\<close>, of importance \<open>imp\<close>),
  the \<open>pdf_factor\<close> it returns is the product of the branch probabilities taken at the
  interior nodes visited, times the normalized probability of the emitter, the float
  product \<open>imp * (1 / tot)\<close>. In particular, when the root is a leaf with one emitter whose
  importance is a binary32 number \<open>a > 0\<close>, and the emitter is selected, the \<open>pdf_factor\<close>
  returned is the float product \<open>a * (1 / a)\<close>.
\<close>

theorem pdf_factor_composition:
  "(kernel_data_fetch (light_tree_nodes kg) 0 = Inr knode0
    \<and> descent_path m kg P N (0, knode0, path_state_rng_1D c rng_state 1) ps (index, knode, tu)
    \<and> leaf_total m kg P N knode 0 (Finite 0) = Inr tot \<and> \<not> feq tot (Finite 0)
    \<and> leaf_select m kg P N knode tu tot 0 (Finite 0) = Inr (Some j)
    \<and> light_tree_emitter_importance m kg P N (- child_index knode + j) = Inr imp
    \<and> light_tree_sample m c iv kg rng_state randu randv time N P bounce path_flag ls
        = Some (Inr (ret, ls', pdf_factor))
    \<longrightarrow> pdf_factor = foldl (*) (Finite 1) ps * (imp * (Finite 1 / tot)))
   \<and> (kernel_data_fetch (light_tree_nodes kg) 0 = Inr knode0
       \<and> \<not> 0 < child_index knode0 \<and> num_prims knode0 = 1
       \<and> light_tree_emitter_importance m kg P N (- child_index knode0) = Inr (Finite a)
       \<and> in_grid a \<and> 0 < a
       \<and> path_state_rng_1D c rng_state 1 < Finite a * (Finite 1 / Finite a)
       \<and> light_tree_sample m c iv kg rng_state randu randv time N P bounce path_flag ls
           = Some (Inr (ret, ls', pdf_factor))
       \<longrightarrow> pdf_factor = Finite a * (Finite 1 / Finite a))"
proof (intro conjI impI; elim conjE)
  assume f: "kernel_data_fetch (light_tree_nodes kg) 0 = Inr knode0"
    and d: "descent_path m kg P N (0, knode0, path_state_rng_1D c rng_state 1) ps
              (index, knode, tu)"
    and t: "leaf_total m kg P N knode 0 (Finite 0) = Inr tot" "\<not> feq tot (Finite 0)"
    and s: "leaf_select m kg P N knode tu tot 0 (Finite 0) = Inr (Some j)"
    and e: "light_tree_emitter_importance m kg P N (- child_index knode + j) = Inr imp"
    and r: "light_tree_sample m c iv kg rng_state randu randv time N P bounce path_flag ls
              = Some (Inr (ret, ls', pdf_factor))"
  have nz: "tot \<noteq> Finite 0" using t(2) by simp
  have "leaf_sample m c iv kg randu randv time N P bounce path_flag knode tu (Finite 1 / tot)
          0 (Finite 0) ls (foldl (*) (Finite 1) ps) = Inr (ret, ls', pdf_factor)"
    using r t(1) nz unfolding light_tree_sample_at_leaf [OF f d] by simp
  then show "pdf_factor = foldl (*) (Finite 1) ps * (imp * (Finite 1 / tot))"
    unfolding leaf_sample_select [OF s e] by (auto split: sum.splits)
next
  assume f: "kernel_data_fetch (light_tree_nodes kg) 0 = Inr knode0"
    and l: "\<not> 0 < child_index knode0" "num_prims knode0 = 1"
    and e: "light_tree_emitter_importance m kg P N (- child_index knode0) = Inr (Finite a)"
    and a: "in_grid a" "0 < a"
    and u: "path_state_rng_1D c rng_state 1 < Finite a * (Finite 1 / Finite a)"
    and r: "light_tree_sample m c iv kg rng_state randu randv time N P bounce path_flag ls
              = Some (Inr (ret, ls', pdf_factor))"
  have d: "descent_path m kg P N (0, knode0, path_state_rng_1D c rng_state 1) []
             (0, knode0, path_state_rng_1D c rng_state 1)"
    using l(1) by (rule descent_path.at_leaf)
  have t: "leaf_total m kg P N knode0 0 (Finite 0) = Inr (Finite a)"
    using single_emitter_total [OF l(2) e] a(1) by simp
  have s: "leaf_select m kg P N knode0 (path_state_rng_1D c rng_state 1) (Finite a) 0 (Finite 0)
             = Inr (Some 0)"
    by (rule single_emitter_select [OF l(2) e u])
  have e': "light_tree_emitter_importance m kg P N (- child_index knode0 + 0) = Inr (Finite a)"
    using e by simp
  have "leaf_sample m c iv kg randu randv time N P bounce path_flag knode0
          (path_state_rng_1D c rng_state 1) (Finite 1 / Finite a) 0 (Finite 0) ls (Finite 1)
        = Inr (ret, ls', pdf_factor)"
    using r a(2) unfolding light_tree_sample_at_leaf [OF f d] t by simp
  then show "pdf_factor = Finite a * (Finite 1 / Finite a)"
    unfolding leaf_sample_select [OF s e'] by (auto simp: one_times_product split: sum.splits)
qed

section \<open>Evaluating the tree sampler in the reference scenes\<close>

lemma probe_sel [simp]:
  "path_state_rng_1D (probe dbg) r d = r"
  "light_select_reached_max_bounces (probe dbg) lamp bounce = (8 < bounce)"
  "light_sample (probe dbg) iv lamp randu randv P path_flag ls = (True, ls\<lparr>pdf := randu\<rparr>)"
  "triangle_light_sample (probe dbg) iv t ob randu randv time ls P = ls\<lparr>pdf := Finite 0\<rparr>"
  "PATH_RAY_SHADOW_CATCHER_PASS (probe dbg) = 16777216"
  "SD_OBJECT_SHADOW_CATCHER (probe dbg) = 128"
  "debug_build (probe dbg) = dbg"
  by (simp_all add: probe_def)

lemma sample_emitter_lamp:
  "kernel_data_fetch (light_distribution kg) i = Inr (lamp_entry l) \<Longrightarrow> 0 \<le> l \<Longrightarrow>
   sample_emitter (probe dbg) iv kg randu randv time P bounce path_flag ls i
     = Inr (if 8 < bounce then (False, ls) else (True, ls\<lparr>pdf := randu\<rparr>))"
  by (simp add: sample_emitter_def lamp_entry_def Let_def)

lemma two_leaf_distribution [simp]:
  "kernel_data_fetch (light_distribution (two_leaf_scene a e0 e1 ds n)) 0 = Inr (lamp_entry 0)"
  "kernel_data_fetch (light_distribution (two_leaf_scene a e0 e1 ds n)) 1 = Inr (lamp_entry 1)"
  by (simp_all add: two_leaf_scene_def kernel_data_fetch_def)

lemma two_leaf_path_left:
  "descent_path reference_math (two_leaf_scene axis_y (Finite 1) (Finite 3) ds n)
     (point_on axis_y (Finite 2)) (point_on axis_y (Finite (- 1)))
     (0, segment_node axis_y (Finite 4) 2 0, Finite (1 / 8)) [Finite (1 / 4)]
     (1, segment_node axis_y (Finite 1) 0 1, Finite (1 / 2))"
proof -
  let ?kg = "two_leaf_scene axis_y (Finite 1) (Finite 3) ds n"
  let ?P = "point_on axis_y (Finite 2)"
  let ?N = "point_on axis_y (Finite (- 1))"
  let ?leaf = "segment_node axis_y (Finite 1) 0 1"
  have l: "descent_path reference_math ?kg ?P ?N (1, ?leaf, Finite (1 / 2)) []
             (1, ?leaf, Finite (1 / 2))"
    by (rule descent_path.at_leaf) simp
  have "descent_path reference_math ?kg ?P ?N
          (0, segment_node axis_y (Finite 4) 2 0, Finite (1 / 8))
          (Finite 4 / (Finite 4 + Finite 12) # [])
          (1, ?leaf, Finite (1 / 2))"
  proof (rule descent_path.go_left [where left = ?leaf
        and right = "segment_node axis_y (Finite 3) (- 1) 1"])
    show "descent_path reference_math ?kg ?P ?N
            (0 + 1, ?leaf, Finite (1 / 8) * (Finite 4 + Finite 12) / Finite 4) []
            (1, ?leaf, Finite (1 / 2))"
      using l by simp
  qed (simp_all del: point_on_y)
  then show ?thesis by simp
qed

lemma two_leaf_total_left:
  "leaf_total reference_math (two_leaf_scene axis_y (Finite 1) (Finite 3) ds n)
     (point_on axis_y (Finite 2)) (point_on axis_y (Finite (- 1)))
     (segment_node axis_y (Finite 1) 0 1) 0 (Finite 0) = Inr (Finite 4)"
  by (subst single_emitter_total [where imp = "Finite 4"])
    (simp_all add: emitter_importance_y del: point_on_y)

lemma two_leaf_select_left:
  "leaf_select reference_math (two_leaf_scene axis_y (Finite 1) (Finite 3) ds n)
     (point_on axis_y (Finite 2)) (point_on axis_y (Finite (- 1)))
     (segment_node axis_y (Finite 1) 0 1) (Finite (1 / 2)) (Finite 4) 0 (Finite 0)
   = Inr (Some 0)"
  by (subst leaf_select.simps) (simp add: emitter_importance_y del: point_on_y)

lemma two_leaf_sample_left:
  "light_tree_sample reference_math (probe dbg) iv
     (two_leaf_scene axis_y (Finite 1) (Finite 3) ds n) (Finite (1 / 8)) randu randv time
     (point_on axis_y (Finite (- 1))) (point_on axis_y (Finite 2)) bounce path_flag ls
   = Some (Inr (if 8 < bounce then (False, ls, Finite (1 / 4))
                else (True, ls\<lparr>pdf := randu\<rparr>, Finite (1 / 4))))"
proof -
  let ?kg = "two_leaf_scene axis_y (Finite 1) (Finite 3) ds n"
  have e: "light_tree_emitter_importance reference_math ?kg (point_on axis_y (Finite 2))
             (point_on axis_y (Finite (- 1)))
             (- child_index (segment_node axis_y (Finite 1) 0 1) + 0) = Inr (Finite 4)"
    by (simp add: emitter_importance_y del: point_on_y)
  have f: "kernel_data_fetch (light_tree_nodes ?kg) 0 = Inr (segment_node axis_y (Finite 4) 2 0)"
    by simp
  have d: "descent_path reference_math ?kg (point_on axis_y (Finite 2))
             (point_on axis_y (Finite (- 1)))
             (0, segment_node axis_y (Finite 4) 2 0,
              path_state_rng_1D (probe dbg) (Finite (1 / 8)) 1)
             [Finite (1 / 4)] (1, segment_node axis_y (Finite 1) 0 1, Finite (1 / 2))"
    using two_leaf_path_left by (simp del: point_on_y)
  show ?thesis
    unfolding light_tree_sample_at_leaf [OF f d] two_leaf_total_left
    using leaf_sample_select [OF two_leaf_select_left e, where c = "probe dbg"]
    by (simp add: sample_emitter_lamp del: point_on_y)
qed

lemma leaf_scene_fetch [simp]:
  "kernel_data_fetch (light_tree_nodes (leaf_scene es ds fs)) 0
     = Inr (segment_node axis_y (Finite 1) 0 (int (length es)))"
  "kernel_data_fetch (light_tree_emitters (leaf_scene es ds fs)) i = kernel_data_fetch es i"
  "kernel_data_fetch (light_distribution (leaf_scene es ds fs)) i = kernel_data_fetch ds i"
  "kernel_data_fetch (object_flag (leaf_scene es ds fs)) i = kernel_data_fetch fs i"
  by (simp_all add: leaf_scene_def kernel_data_fetch_def)

lemma fetch_Cons [simp]:
  "kernel_data_fetch (x # xs) 0 = Inr x"
  "0 < i \<Longrightarrow> kernel_data_fetch (x # xs) i = kernel_data_fetch xs (i - 1)"
  "kernel_data_fetch [] i = Inl Out_Of_Bounds"
  by (auto simp: kernel_data_fetch_def nth_Cons' nat_diff_distrib)

text \<open>The tree that is one leaf with one segment light of energy \<open>en\<close>: the light has the
  importance \<open>4 * en\<close>, and it is selected when 1/2 is below the float product
  \<open>4 * en * (1 / (4 * en))\<close>.\<close>

lemma single_leaf_sample_emitter:
  assumes "in_grid en" "in_grid (4 * en)" "0 < en"
    and "Finite (1 / 2) < Finite (4 * en) * (Finite 1 / Finite (4 * en))"
  shows "light_tree_sample reference_math (probe dbg) iv
     (leaf_scene [segment_emitter axis_y (Finite en)] ds fs) (Finite (1 / 2))
     randu randv time (point_on axis_y (Finite (- 1))) (point_on axis_y (Finite 2)) bounce
     path_flag ls
   = Some (case sample_emitter (probe dbg) iv (leaf_scene [segment_emitter axis_y (Finite en)] ds fs)
                  randu randv time (point_on axis_y (Finite 2)) bounce path_flag ls 0 of
             Inl e \<Rightarrow> Inl e
           | Inr (ret, ls') \<Rightarrow> Inr (ret, ls', Finite (4 * en) * (Finite 1 / Finite (4 * en))))"
proof -
  let ?kg = "leaf_scene [segment_emitter axis_y (Finite en)] ds fs"
  let ?leaf = "segment_node axis_y (Finite 1) 0 1"
  have f: "kernel_data_fetch (light_tree_nodes ?kg) 0 = Inr ?leaf" by simp
  have d: "descent_path reference_math ?kg (point_on axis_y (Finite 2))
             (point_on axis_y (Finite (- 1)))
             (0, ?leaf, path_state_rng_1D (probe dbg) (Finite (1 / 2)) 1) []
             (0, ?leaf, path_state_rng_1D (probe dbg) (Finite (1 / 2)) 1)"
    by (rule descent_path.at_leaf) simp
  have e: "light_tree_emitter_importance reference_math ?kg (point_on axis_y (Finite 2))
             (point_on axis_y (Finite (- 1))) (- child_index ?leaf) = Inr (Finite (4 * en))"
    using emitter_importance_y [of ?kg 0 en] assms(1,2) by (simp del: point_on_y)
  have t: "leaf_total reference_math ?kg (point_on axis_y (Finite 2))
             (point_on axis_y (Finite (- 1))) ?leaf 0 (Finite 0) = Inr (Finite (4 * en))"
    using single_emitter_total [OF _ e] assms(2) by simp
  have s: "leaf_select reference_math ?kg (point_on axis_y (Finite 2))
             (point_on axis_y (Finite (- 1))) ?leaf (Finite (1 / 2)) (Finite (4 * en)) 0 (Finite 0)
           = Inr (Some 0)"
    by (rule single_emitter_select [OF _ e assms(4)]) simp
  have e': "light_tree_emitter_importance reference_math ?kg (point_on axis_y (Finite 2))
             (point_on axis_y (Finite (- 1))) (- child_index ?leaf + 0) = Inr (Finite (4 * en))"
    using e by simp
  show ?thesis
    unfolding light_tree_sample_at_leaf [OF f d] t
    using leaf_sample_select [OF s e', where c = "probe dbg"] assms(3)
    by (simp add: one_times_product del: point_on_y split: sum.splits)
qed

lemma rne_eval:
  "of_int f \<le> q \<Longrightarrow> q < of_int f + 1 / 2 \<Longrightarrow> rne q = f"
  unfolding rne_def Let_def
  by (subgoal_tac "\<lfloor>q\<rfloor> = f") (simp, simp add: floor_eq_iff)

text \<open>The float quotient \<open>1 / 164\<close> is \<open>13094412 * 2 ^ (- 31)\<close>, and the float product of
  164 with it is \<open>1 - 2 ^ (- 24)\<close>, the binary32 number below 1.\<close>

lemma round32_inv_164: "round32 (1 / 164) = Finite (3273603 / 536870912)"
proof -
  have r: "rne (536870912 / 41) = 13094412"
    by (rule rne_eval) simp_all
  show ?thesis
    by (subst round32_eval [of "- 8"]) (simp_all add: powr_minus_divide r)
qed

lemma round32_pdf_164: "round32 (134217723 / 134217728) = Finite (16777215 / 16777216)"
proof -
  have r: "rne (134217723 / 8) = 16777215"
    by (rule rne_eval) simp_all
  show ?thesis
    by (subst round32_eval [of "- 1"]) (simp_all add: powr_minus_divide r)
qed

lemma pdf_164: "Finite 164 * (Finite 1 / Finite 164) = Finite (16777215 / 16777216)"
  by (simp add: round32_inv_164 round32_pdf_164)

text \<open>
  Claim C2 as stated has the \<open>pdf_factor\<close> equal to 1 for a root leaf with one emitter of
  positive importance. For the segment light of energy 41 the importance is 164; the
  float quotient \<open>1 / 164\<close> is rounded, the float product \<open>164 * (1 / 164)\<close> is the
  binary32 number below 1, and that is the \<open>pdf_factor\<close> returned.
\<close>

theorem single_emitter_factor_counterexample:
  "kernel_data_fetch
     (light_tree_nodes (leaf_scene [segment_emitter axis_y (Finite 41)] [lamp_entry 0] [])) 0
     = Inr (segment_node axis_y (Finite 1) 0 1)
   \<and> \<not> 0 < child_index (segment_node axis_y (Finite 1) 0 1)
   \<and> num_prims (segment_node axis_y (Finite 1) 0 1) = 1
   \<and> light_tree_emitter_importance reference_math
       (leaf_scene [segment_emitter axis_y (Finite 41)] [lamp_entry 0] [])
       (point_on axis_y (Finite 2)) (point_on axis_y (Finite (- 1)))
       (- child_index (segment_node axis_y (Finite 1) 0 1)) = Inr (Finite 164)
   \<and> light_tree_sample reference_math (probe False) False
       (leaf_scene [segment_emitter axis_y (Finite 41)] [lamp_entry 0] []) (Finite (1 / 2))
       (Finite (1 / 2)) (Finite (1 / 2)) (Finite 0)
       (point_on axis_y (Finite (- 1))) (point_on axis_y (Finite 2)) 0 0 ls0
       = Some (Inr (True, ls0\<lparr>pdf := Finite (1 / 2)\<rparr>, Finite (16777215 / 16777216)))
   \<and> Finite (16777215 / 16777216) \<noteq> Finite 1"
proof -
  let ?kl = "leaf_scene [segment_emitter axis_y (Finite 41)] [lamp_entry 0] []"
  have e: "light_tree_emitter_importance reference_math ?kl
       (point_on axis_y (Finite 2)) (point_on axis_y (Finite (- 1)))
       (- child_index (segment_node axis_y (Finite 1) 0 1)) = Inr (Finite 164)"
    using emitter_importance_y [of ?kl 0 41] by (simp del: point_on_y)
  have s: "light_tree_sample reference_math (probe False) False ?kl (Finite (1 / 2))
       (Finite (1 / 2)) (Finite (1 / 2)) (Finite 0)
       (point_on axis_y (Finite (- 1))) (point_on axis_y (Finite 2)) 0 0 ls0
       = Some (Inr (True, ls0\<lparr>pdf := Finite (1 / 2)\<rparr>, Finite (16777215 / 16777216)))"
    using single_leaf_sample_emitter [of 41 False False "[lamp_entry 0]" "[]"
        "Finite (1 / 2)" "Finite (1 / 2)" "Finite 0" 0 0 ls0]
    by (simp add: round32_inv_164 round32_pdf_164 sample_emitter_lamp del: point_on_y)
  show ?thesis using e s by simp
qed

text \<open>The tree of two leaves with the random number 1/8, and the tree that is one leaf
  with one emitter of importance 4, for which the float product \<open>4 * (1 / 4)\<close> is 1.\<close>

theorem pdf_factor_composition_witness:
  "kernel_data_fetch (light_tree_nodes (two_leaf_scene axis_y (Finite 1) (Finite 3) [] 0)) 0
     = Inr (segment_node axis_y (Finite 4) 2 0)
   \<and> descent_path reference_math (two_leaf_scene axis_y (Finite 1) (Finite 3) [] 0)
       (point_on axis_y (Finite 2)) (point_on axis_y (Finite (- 1)))
       (0, segment_node axis_y (Finite 4) 2 0,
        path_state_rng_1D (probe False) (Finite (1 / 8)) 1)
       [Finite (1 / 4)] (1, segment_node axis_y (Finite 1) 0 1, Finite (1 / 2))
   \<and> leaf_total reference_math (two_leaf_scene axis_y (Finite 1) (Finite 3) [] 0)
       (point_on axis_y (Finite 2)) (point_on axis_y (Finite (- 1)))
       (segment_node axis_y (Finite 1) 0 1) 0 (Finite 0) = Inr (Finite 4)
   \<and> \<not> feq (Finite 4) (Finite 0)
   \<and> leaf_select reference_math (two_leaf_scene axis_y (Finite 1) (Finite 3) [] 0)
       (point_on axis_y (Finite 2)) (point_on axis_y (Finite (- 1)))
       (segment_node axis_y (Finite 1) 0 1) (Finite (1 / 2)) (Finite 4) 0 (Finite 0)
       = Inr (Some 0)
   \<and> light_tree_emitter_importance reference_math
       (two_leaf_scene axis_y (Finite 1) (Finite 3) [] 0)
       (point_on axis_y (Finite 2)) (point_on axis_y (Finite (- 1)))
       (- child_index (segment_node axis_y (Finite 1) 0 1) + 0) = Inr (Finite 4)
   \<and> light_tree_sample reference_math (probe False) False
       (two_leaf_scene axis_y (Finite 1) (Finite 3) [] 0) (Finite (1 / 8))
       (Finite (1 / 2)) (Finite (1 / 2)) (Finite 0)
       (point_on axis_y (Finite (- 1))) (point_on axis_y (Finite 2)) 0 0 ls0
       = Some (Inr (True, ls0\<lparr>pdf := Finite (1 / 2)\<rparr>, Finite (1 / 4)))
   \<and> Finite (1 / 4) = foldl (*) (Finite 1) [Finite (1 / 4)] * (Finite 4 * (Finite 1 / Finite 4))
   \<and> kernel_data_fetch
       (light_tree_nodes (leaf_scene [segment_emitter axis_y (Finite 1)] [lamp_entry 0] [])) 0
       = Inr (segment_node axis_y (Finite 1) 0 1)
   \<and> \<not> 0 < child_index (segment_node axis_y (Finite 1) 0 1)
   \<and> num_prims (segment_node axis_y (Finite 1) 0 1) = 1
   \<and> light_tree_emitter_importance reference_math
       (leaf_scene [segment_emitter axis_y (Finite 1)] [lamp_entry 0] [])
       (point_on axis_y (Finite 2)) (point_on axis_y (Finite (- 1)))
       (- child_index (segment_node axis_y (Finite 1) 0 1)) = Inr (Finite 4)
   \<and> in_grid 4
   \<and> path_state_rng_1D (probe False) (Finite (1 / 2)) 1 < Finite 4 * (Finite 1 / Finite 4)
   \<and> light_tree_sample reference_math (probe False) False
       (leaf_scene [segment_emitter axis_y (Finite 1)] [lamp_entry 0] []) (Finite (1 / 2))
       (Finite (1 / 2)) (Finite (1 / 2)) (Finite 0)
       (point_on axis_y (Finite (- 1))) (point_on axis_y (Finite 2)) 0 0 ls0
       = Some (Inr (True, ls0\<lparr>pdf := Finite (1 / 2)\<rparr>, Finite 1))
   \<and> Finite 1 = Finite 4 * (Finite 1 / Finite 4)"
proof -
  let ?kg = "two_leaf_scene axis_y (Finite 1) (Finite 3) [] 0"
  let ?kl = "leaf_scene [segment_emitter axis_y (Finite 1)] [lamp_entry 0] []"
  let ?P = "point_on axis_y (Finite 2)"
  let ?N = "point_on axis_y (Finite (- 1))"
  have h1: "kernel_data_fetch (light_tree_nodes ?kg) 0 = Inr (segment_node axis_y (Finite 4) 2 0)"
    by simp
  have h2: "descent_path reference_math ?kg ?P ?N
       (0, segment_node axis_y (Finite 4) 2 0,
        path_state_rng_1D (probe False) (Finite (1 / 8)) 1)
       [Finite (1 / 4)] (1, segment_node axis_y (Finite 1) 0 1, Finite (1 / 2))"
    using two_leaf_path_left by (simp del: point_on_y)
  note h3 = two_leaf_total_left [of "[]" 0]
  have h4: "\<not> feq (Finite 4) (Finite 0)" by simp
  note h5 = two_leaf_select_left [of "[]" 0]
  have h6: "light_tree_emitter_importance reference_math ?kg ?P ?N
       (- child_index (segment_node axis_y (Finite 1) 0 1) + 0) = Inr (Finite 4)"
    by (simp add: emitter_importance_y del: point_on_y)
  have h7: "light_tree_sample reference_math (probe False) False ?kg (Finite (1 / 8))
       (Finite (1 / 2)) (Finite (1 / 2)) (Finite 0) ?N ?P 0 0 ls0
       = Some (Inr (True, ls0\<lparr>pdf := Finite (1 / 2)\<rparr>, Finite (1 / 4)))"
    by (simp add: two_leaf_sample_left del: point_on_y)
  have g1: "kernel_data_fetch (light_tree_nodes ?kl) 0 = Inr (segment_node axis_y (Finite 1) 0 1)"
    by simp
  have g2: "\<not> 0 < child_index (segment_node axis_y (Finite 1) 0 1)"
    and g3: "num_prims (segment_node axis_y (Finite 1) 0 1) = 1"
    by simp_all
  have g4: "light_tree_emitter_importance reference_math ?kl ?P ?N
       (- child_index (segment_node axis_y (Finite 1) 0 1)) = Inr (Finite 4)"
    using emitter_importance_y [of ?kl 0 1] by (simp del: point_on_y)
  have g5: "in_grid 4" and g6: "0 < (4::real)" by simp_all
  have g7: "path_state_rng_1D (probe False) (Finite (1 / 2)) 1 < Finite 4 * (Finite 1 / Finite 4)"
    by simp
  have g8: "light_tree_sample reference_math (probe False) False ?kl (Finite (1 / 2))
       (Finite (1 / 2)) (Finite (1 / 2)) (Finite 0) ?N ?P 0 0 ls0
       = Some (Inr (True, ls0\<lparr>pdf := Finite (1 / 2)\<rparr>, Finite 1))"
    using single_leaf_sample_emitter [of 1 False False "[lamp_entry 0]" "[]"
        "Finite (1 / 2)" "Finite (1 / 2)" "Finite 0" 0 0 ls0]
    by (simp add: sample_emitter_lamp del: point_on_y)
  have c1: "Finite (1 / 4) = foldl (*) (Finite 1) [Finite (1 / 4)] * (Finite 4 * (Finite 1 / Finite 4))"
    using pdf_factor_composition [THEN conjunct1, rule_format, OF conjI [OF h1 conjI [OF h2
          conjI [OF h3 conjI [OF h4 conjI [OF h5 conjI [OF h6 h7]]]]]]] .
  have c2: "Finite 1 = Finite 4 * (Finite 1 / Finite 4)"
    using pdf_factor_composition [THEN conjunct2, rule_format, OF conjI [OF g1 conjI [OF g2
          conjI [OF g3 conjI [OF g4 conjI [OF g5 conjI [OF g6 conjI [OF g7 g8]]]]]]]] .
  show ?thesis
    by (intro conjI h1 h2 h3 h4 h5 h6 h7 c1 g1 g2 g3 g4 g5 g7 g8 c2)
qed

section \<open>Failure of the tree sampler at a leaf\<close>

text \<open>A leaf whose total importance is 0 makes \<open>light_tree_sample\<close> return false, and a
  walk that comes to the end of the leaf fails the assertion of a debug build and
  returns false otherwise.\<close>

lemma zero_total_leaf_fails:
  assumes "kernel_data_fetch (light_tree_nodes kg) 0 = Inr knode0"
    and "descent_path m kg P N (0, knode0, path_state_rng_1D c rng_state 1) ps (index, knode, tu)"
    and "leaf_total m kg P N knode 0 (Finite 0) = Inr (Finite 0)"
  shows "light_tree_sample m c iv kg rng_state randu randv time N P bounce path_flag ls
           = Some (Inr (False, ls, foldl (*) (Finite 1) ps))"
  unfolding light_tree_sample_at_leaf [OF assms(1,2)] assms(3) by simp

lemma exhausted_leaf_walk:
  assumes "kernel_data_fetch (light_tree_nodes kg) 0 = Inr knode0"
    and "descent_path m kg P N (0, knode0, path_state_rng_1D c rng_state 1) ps (index, knode, tu)"
    and "leaf_total m kg P N knode 0 (Finite 0) = Inr tot" and "tot \<noteq> Finite 0"
    and "leaf_select m kg P N knode tu tot 0 (Finite 0) = Inr None"
  shows "light_tree_sample m c iv kg rng_state randu randv time N P bounce path_flag ls
           = Some (if debug_build c then Inl Assertion_Failed
                   else Inr (False, ls, foldl (*) (Finite 1) ps))"
  unfolding light_tree_sample_at_leaf [OF assms(1,2)] assms(3)
  by (simp add: assms(4) leaf_sample_exhausted [OF assms(5)])

section \<open>The distant-light sampler without its guards\<close>

lemma distant_scene_sel [simp]:
  "light_tree_distant_group (distant_scene ds) = ds"
  "num_distant_lights (integrator (distant_scene ds)) = int (length ds)"
  "num_distribution (integrator (distant_scene ds)) = int (length ds)"
  by (simp_all add: distant_scene_def)

lemma distant_importance_fetch [simp]:
  "light_tree_distant_light_importance kg P N i
     = (case kernel_data_fetch (light_tree_distant_group kg) i of
          Inl e \<Rightarrow> Inl e
        | Inr kdistant \<Rightarrow> Inr (KernelLightTreeDistantEmitter.energy kdistant))"
  by (simp add: light_tree_distant_light_importance_def)

lemma sun_sel [simp]:
  "KernelLightTreeDistantEmitter.energy (sun l en) = en"
  "prim_id (sun l en) = - l - 1"
  by (simp_all add: sun_def)

text \<open>
  Claim C5 asks that a total importance of exactly 0 makes the sampler return false
  without a division by zero. The leaf step of \<open>light_tree_sample\<close> does so (lemma
  \<open>zero_total_leaf_fails\<close>). \<open>light_tree_sample_distant_lights\<close> has no such test: for one
  distant light of energy 0 the total is 0, \<open>inv_total_importance\<close> is \<open>1 / 0\<close>, every
  \<open>light_pdf\<close> is not-a-number, and the function ends without a return value, for
  every random number and every collaborator.
\<close>

theorem distant_zero_importance_no_return:
  "distant_total (distant_scene [sun 0 (Finite 0)]) P N 1 0 (Finite 0) = Inr (Finite 0)
   \<and> Finite 1 / Finite 0 = Pos_Inf
   \<and> Finite 0 * Pos_Inf = Not_a_Number
   \<and> light_tree_sample_distant_lights c iv (distant_scene [sun 0 (Finite 0)]) rng_state
        randu randv time N P bounce path_flag ls pdf_factor = Inl No_Return_Value"
proof -
  have t: "distant_total (distant_scene [sun 0 (Finite 0)]) P N 1 0 (Finite 0) = Inr (Finite 0)"
    by (subst distant_total.simps, subst distant_total.simps) simp
  have "distant_sample c iv (distant_scene [sun 0 (Finite 0)]) randu randv N P bounce path_flag
          1 (path_state_rng_1D c rng_state 1) (Finite 1 / Finite 0) 0 (Finite 0) ls pdf_factor
        = Inl No_Return_Value"
    by (subst distant_sample.simps, subst distant_sample.simps) (simp add: Let_def)
  then show ?thesis
    using t by (simp add: light_tree_sample_distant_lights_def Let_def)
qed

text \<open>
  Claim C7 asks that a walk that comes to the end of its list fails an assertion in a
  debug build and returns false in a release build. The leaf loop of
  \<open>light_tree_sample\<close> does so (lemma \<open>exhausted_leaf_walk\<close>). In
  \<open>light_tree_sample_distant_lights\<close> nothing follows the loop: with two distant lights
  of energy 0 and the random number 1/4 the walk passes both lights and the function
  ends without a return value, in a debug build and in a release build alike.
\<close>

theorem distant_walk_exhausted_no_return:
  "light_tree_sample_distant_lights (probe dbg) False
     (distant_scene [sun 0 (Finite 0), sun 1 (Finite 0)]) (Finite (1 / 4))
     (Finite (1 / 2)) (Finite (1 / 2)) (Finite 0) N P 0 0 ls0 (Finite 1) = Inl No_Return_Value"
proof -
  have t: "distant_total (distant_scene [sun 0 (Finite 0), sun 1 (Finite 0)]) P N 2 0 (Finite 0)
             = Inr (Finite 0)"
    by (subst distant_total.simps, subst distant_total.simps, subst distant_total.simps) simp
  have "distant_sample (probe dbg) False (distant_scene [sun 0 (Finite 0), sun 1 (Finite 0)])
          (Finite (1 / 2)) (Finite (1 / 2)) N P 0 0 2 (Finite (1 / 4)) (Finite 1 / Finite 0) 0
          (Finite 0) ls0 (Finite 1)
        = Inl No_Return_Value"
    by (subst distant_sample.simps, subst distant_sample.simps, subst distant_sample.simps)
      (simp add: Let_def)
  then show ?thesis
    using t by (simp add: light_tree_sample_distant_lights_def Let_def)
qed

section \<open>An interior node whose children both have importance 0\<close>

lemma two_leaf_path_nan:
  "descent_path reference_math (two_leaf_scene axis_z (Finite 1) (Finite 1) ds n)
     (point_on axis_z (Finite 2)) (point_on axis_z (Finite (- 1)))
     (0, segment_node axis_z (Finite 2) 2 0, Finite (1 / 2)) [Not_a_Number]
     (2, segment_node axis_z (Finite 1) (- 1) 1, Not_a_Number)"
proof -
  let ?kg = "two_leaf_scene axis_z (Finite 1) (Finite 1) ds n"
  let ?P = "point_on axis_z (Finite 2)"
  let ?N = "point_on axis_z (Finite (- 1))"
  let ?leaf = "segment_node axis_z (Finite 1) (- 1) 1"
  have l: "descent_path reference_math ?kg ?P ?N (2, ?leaf, Not_a_Number) []
             (2, ?leaf, Not_a_Number)"
    by (rule descent_path.at_leaf) simp
  have "descent_path reference_math ?kg ?P ?N
          (0, segment_node axis_z (Finite 2) 2 0, Finite (1 / 2))
          ((Finite 1 - Finite 0 / (Finite 0 + Finite 0)) # [])
          (2, ?leaf, Not_a_Number)"
  proof (rule descent_path.go_right [where left = "segment_node axis_z (Finite 1) 0 1"
        and right = ?leaf])
    show "descent_path reference_math ?kg ?P ?N
            (child_index (segment_node axis_z (Finite 2) 2 0), ?leaf,
             (Finite (1 / 2) * (Finite 0 + Finite 0) - Finite 0) / Finite 0) []
            (2, ?leaf, Not_a_Number)"
      using l by simp
  qed (simp_all del: point_on_z)
  then show ?thesis by simp
qed

text \<open>
  Claim C6 asks that the split at an interior node does not divide by zero when both
  child importances are 0. The source has no such case. In the tree of two lights on
  the third axis, seen from that axis, both clusters have importance 0 (the cluster
  importance reads the third component of the cone axis at index 1): \<open>left_probability\<close>
  is \<open>0 / 0\<close>, the comparison fails, the right child is taken, and \<open>tree_u\<close> and
  \<open>pdf_factor\<close> become not-a-number. The emitter of the right leaf has importance 4, so
  the walk over the leaf passes it and a debug build stops at the assertion that the
  source calls unreachable.
\<close>

theorem interior_zero_importance_divides:
  "light_tree_cluster_importance reference_math (point_on axis_z (Finite 2))
     (point_on axis_z (Finite (- 1))) (segment_node axis_z (Finite 1) 0 1) = Finite 0
   \<and> light_tree_cluster_importance reference_math (point_on axis_z (Finite 2))
       (point_on axis_z (Finite (- 1))) (segment_node axis_z (Finite 1) (- 1) 1) = Finite 0
   \<and> Finite 0 / (Finite 0 + Finite 0) = Not_a_Number
   \<and> interior_step reference_math (two_leaf_scene axis_z (Finite 1) (Finite 1) [] 0)
       (point_on axis_z (Finite 2)) (point_on axis_z (Finite (- 1)))
       (0, segment_node axis_z (Finite 2) 2 0, Finite (1 / 2), Finite 1)
       = Inr (2, segment_node axis_z (Finite 1) (- 1) 1, Not_a_Number, Not_a_Number)
   \<and> light_tree_sample reference_math (probe True) False
       (two_leaf_scene axis_z (Finite 1) (Finite 1) [] 0) (Finite (1 / 2))
       (Finite (1 / 2)) (Finite (1 / 2)) (Finite 0)
       (point_on axis_z (Finite (- 1))) (point_on axis_z (Finite 2)) 0 0 ls0
       = Some (Inl Assertion_Failed)"
proof -
  let ?kg = "two_leaf_scene axis_z (Finite 1) (Finite 1) [] 0"
  let ?P = "point_on axis_z (Finite 2)"
  let ?N = "point_on axis_z (Finite (- 1))"
  let ?leaf = "segment_node axis_z (Finite 1) (- 1) 1"
  have s: "interior_step reference_math ?kg ?P ?N
       (0, segment_node axis_z (Finite 2) 2 0, Finite (1 / 2), Finite 1)
       = Inr (2, ?leaf, Not_a_Number, Not_a_Number)"
    by (simp add: interior_step_def Let_def del: point_on_z)
  have f: "kernel_data_fetch (light_tree_nodes ?kg) 0 = Inr (segment_node axis_z (Finite 2) 2 0)"
    by simp
  have d: "descent_path reference_math ?kg ?P ?N
             (0, segment_node axis_z (Finite 2) 2 0,
              path_state_rng_1D (probe True) (Finite (1 / 2)) 1)
             [Not_a_Number] (2, ?leaf, Not_a_Number)"
    using two_leaf_path_nan by (simp del: point_on_z)
  have e: "light_tree_emitter_importance reference_math ?kg ?P ?N (- child_index ?leaf)
             = Inr (Finite 4)"
    using emitter_importance_z [of ?kg 1 1] by (simp del: point_on_z)
  have t: "leaf_total reference_math ?kg ?P ?N ?leaf 0 (Finite 0) = Inr (Finite 4)"
    using single_emitter_total [OF _ e] by simp
  have nz: "Finite 4 \<noteq> Finite 0" by simp
  have x: "leaf_select reference_math ?kg ?P ?N ?leaf Not_a_Number (Finite 4) 0 (Finite 0)
             = Inr None"
    using e by (subst leaf_select.simps, subst leaf_select.simps) (simp del: point_on_z)
  show ?thesis
    using s exhausted_leaf_walk [OF f d t nz x, of False "Finite (1 / 2)" "Finite (1 / 2)"
        "Finite 0" 0 0 ls0]
    by (simp del: point_on_z)
qed

section \<open>Which tables a sampler reads\<close>

text \<open>The tree sampler reads the node, emitter, distribution and object-flag tables only;
  the distant-light sampler reads the distant group and the integrator counts only.\<close>

lemma interior_step_nodes:
  assumes "light_tree_nodes kg' = light_tree_nodes kg"
  shows "interior_step m kg' P N st = interior_step m kg P N st"
  unfolding interior_step_def assms ..

lemma descend_nodes_Some:
  assumes "descend m kg P N st = Some r"
  shows "\<forall>kg'. light_tree_nodes kg' = light_tree_nodes kg \<longrightarrow> descend m kg' P N st = Some r"
proof -
  let ?Q = "\<lambda>x r. (case x of ((((m, kg), P), N), st) \<Rightarrow>
              \<forall>kg'. light_tree_nodes kg' = light_tree_nodes kg \<longrightarrow> descend m kg' P N st = Some r)"
  have "?Q ((((m, kg), P), N), st) r"
  proof (rule descend.raw_induct [where Pa = ?Q, OF _ assms])
    fix d and m :: math_lib and kg :: KernelGlobals and P N :: float3
      and st :: descent_state and r :: "fault + descent_state"
    assume IH: "\<And>m kg P N st y. d m kg P N st = Some y \<Longrightarrow> ?Q ((((m, kg), P), N), st) y"
      and body: "(if 0 < child_index (fst (snd st))
                  then case interior_step m kg P N st of
                         Inl e \<Rightarrow> Some (Inl e)
                       | Inr st' \<Rightarrow> d m kg P N st'
                  else Some (Inr st)) = Some r"
    show "?Q ((((m, kg), P), N), st) r"
    proof (simp only: prod.case, intro allI impI)
      fix kg' :: KernelGlobals
      assume eq: "light_tree_nodes kg' = light_tree_nodes kg"
      show "descend m kg' P N st = Some r"
      proof (cases "0 < child_index (fst (snd st))")
        case False
        then show ?thesis using body by (subst descend.simps) simp
      next
        case True
        show ?thesis
        proof (cases "interior_step m kg P N st")
          case (Inl e)
          then have "r = Inl e" using True body by simp
          then show ?thesis
            using True Inl by (subst descend.simps) (simp add: interior_step_nodes [OF eq])
        next
          case (Inr st')
          then have "d m kg P N st' = Some r" using True body by simp
          then have "descend m kg' P N st' = Some r" using IH eq by fastforce
          then show ?thesis
            using True Inr by (subst descend.simps) (simp add: interior_step_nodes [OF eq])
        qed
      qed
    qed
  qed
  then show ?thesis by simp
qed

lemma descend_nodes:
  assumes "light_tree_nodes kg' = light_tree_nodes kg"
  shows "descend m kg' P N st = descend m kg P N st"
proof (cases "descend m kg P N st")
  case (Some r)
  then show ?thesis using descend_nodes_Some [OF Some] assms by simp
next
  case None
  show ?thesis
  proof (cases "descend m kg' P N st")
    case None' : None
    then show ?thesis using None by simp
  next
    case (Some r)
    then show ?thesis using descend_nodes_Some [OF Some] assms None by simp
  qed
qed


lemma emitter_importance_emitters:
  assumes "light_tree_emitters kg' = light_tree_emitters kg"
  shows "light_tree_emitter_importance m kg' P N i = light_tree_emitter_importance m kg P N i"
  unfolding light_tree_emitter_importance_def assms ..

lemma leaf_total_emitters:
  "light_tree_emitters kg' = light_tree_emitters kg \<Longrightarrow>
   leaf_total m kg' P N knode i t = leaf_total m kg P N knode i t"
proof (induction m kg P N knode i t rule: leaf_total.induct)
  case (1 m kg P N knode i t)
  note e = emitter_importance_emitters [OF "1.prems"]
  show ?case
  proof (cases "i < num_prims knode")
    case False
    then show ?thesis
      by (simp add: leaf_total.simps [of m kg'] leaf_total.simps [of m kg])
  next
    case True
    show ?thesis
    proof (cases "light_tree_emitter_importance m kg P N (- child_index knode + i)")
      case (Inl x)
      then show ?thesis
        using True by (simp add: leaf_total.simps [of m kg' P N knode i]
            leaf_total.simps [of m kg P N knode i] e)
    next
      case (Inr x)
      then show ?thesis
        using True "1.IH" [OF True refl Inr "1.prems"]
        by (simp add: leaf_total.simps [of m kg' P N knode i]
            leaf_total.simps [of m kg P N knode i] e)
    qed
  qed
qed

lemma sample_emitter_tables:
  assumes "light_distribution kg' = light_distribution kg" and "object_flag kg' = object_flag kg"
  shows "sample_emitter c iv kg' randu randv time P bounce path_flag ls i
           = sample_emitter c iv kg randu randv time P bounce path_flag ls i"
  unfolding sample_emitter_def assms ..

lemma leaf_sample_tables:
  "light_tree_emitters kg' = light_tree_emitters kg \<Longrightarrow>
   light_distribution kg' = light_distribution kg \<Longrightarrow> object_flag kg' = object_flag kg \<Longrightarrow>
   leaf_sample m c iv kg' randu randv time N P bounce path_flag knode tu itot i cdf ls pf
     = leaf_sample m c iv kg randu randv time N P bounce path_flag knode tu itot i cdf ls pf"
proof (induction m c iv kg randu randv time N P bounce path_flag knode tu itot i cdf ls pf
    rule: leaf_sample.induct)
  case (1 m c iv kg randu randv time N P bounce path_flag knode tu itot i cdf ls pf)
  note e = emitter_importance_emitters [OF "1.prems"(1)]
  note s = sample_emitter_tables [OF "1.prems"(2,3)]
  note L = leaf_sample.simps [of m c iv kg' randu randv time N P bounce path_flag knode tu
      itot i cdf ls pf]
  note R = leaf_sample.simps [of m c iv kg randu randv time N P bounce path_flag knode tu
      itot i cdf ls pf]
  show ?case
  proof (cases "i < num_prims knode")
    case False
    then show ?thesis by (simp add: L R)
  next
    case True
    show ?thesis
    proof (cases "light_tree_emitter_importance m kg P N (- child_index knode + i)")
      case (Inl x)
      then show ?thesis using True by (simp add: L R e)
    next
      case (Inr x)
      show ?thesis
      proof (cases "tu < cdf + x * itot")
        case hit: True
        then show ?thesis using True Inr by (simp add: L R e s Let_def)
      next
        case miss: False
        then show ?thesis
          using True Inr "1.IH" [OF True refl Inr refl refl miss "1.prems"]
          by (simp add: L R e Let_def)
      qed
    qed
  qed
qed

lemma light_tree_sample_tables:
  assumes "light_tree_nodes kg' = light_tree_nodes kg"
    and "light_tree_emitters kg' = light_tree_emitters kg"
    and "light_distribution kg' = light_distribution kg"
    and "object_flag kg' = object_flag kg"
  shows "light_tree_sample m c iv kg' rng_state randu randv time N P bounce path_flag ls
           = light_tree_sample m c iv kg rng_state randu randv time N P bounce path_flag ls"
  unfolding light_tree_sample_def assms(1) descend_nodes [OF assms(1)]
    leaf_total_emitters [OF assms(2)] leaf_sample_tables [OF assms(2,3,4)] ..


lemma distant_importance_group:
  assumes "light_tree_distant_group kg' = light_tree_distant_group kg"
  shows "light_tree_distant_light_importance kg' P N i
           = light_tree_distant_light_importance kg P N i"
  unfolding light_tree_distant_light_importance_def assms ..

lemma distant_total_group:
  "light_tree_distant_group kg' = light_tree_distant_group kg \<Longrightarrow>
   distant_total kg' P N n i t = distant_total kg P N n i t"
proof (induction kg P N n i t rule: distant_total.induct)
  case (1 kg P N n i t)
  note e = distant_importance_group [OF "1.prems"]
  note L = distant_total.simps [of kg' P N n i t]
  note R = distant_total.simps [of kg P N n i t]
  show ?case
  proof (cases "i < n")
    case False
    then show ?thesis by (simp only: L R if_False)
  next
    case True
    show ?thesis
    proof (cases "light_tree_distant_light_importance kg P N i")
      case (Inl x)
      then show ?thesis using True by (simp only: L R e if_True sum.case)
    next
      case (Inr x)
      then show ?thesis
        using True "1.IH" [OF True Inr "1.prems"] by (simp only: L R e if_True sum.case)
    qed
  qed
qed

lemma distant_sample_group:
  "light_tree_distant_group kg' = light_tree_distant_group kg \<Longrightarrow>
   distant_sample c iv kg' randu randv N P bounce path_flag n du itot i cdf ls pf
     = distant_sample c iv kg randu randv N P bounce path_flag n du itot i cdf ls pf"
proof (induction c iv kg randu randv N P bounce path_flag n du itot i cdf ls pf
    rule: distant_sample.induct)
  case (1 c iv kg randu randv N P bounce path_flag n du itot i cdf ls pf)
  note e = distant_importance_group [OF "1.prems"]
  note L = distant_sample.simps [of c iv kg' randu randv N P bounce path_flag n du itot i cdf
      ls pf]
  note R = distant_sample.simps [of c iv kg randu randv N P bounce path_flag n du itot i cdf
      ls pf]
  show ?case
  proof (cases "i < n")
    case False
    then show ?thesis by (simp only: L R if_False)
  next
    case True
    show ?thesis
    proof (cases "light_tree_distant_light_importance kg P N i")
      case (Inl x)
      then show ?thesis using True by (simp only: L R e if_True sum.case)
    next
      case (Inr x)
      show ?thesis
      proof (cases "du < cdf + x * itot")
        case hit: True
        then show ?thesis
          using True Inr by (simp only: L R e "1.prems" if_True sum.case Let_def)
      next
        case miss: False
        then show ?thesis
          using True Inr "1.IH" [OF True Inr refl refl miss "1.prems"]
          by (simp only: L R e if_True if_False sum.case Let_def)
      qed
    qed
  qed
qed

lemma distant_lights_group:
  assumes "light_tree_distant_group kg' = light_tree_distant_group kg"
    and "integrator kg' = integrator kg"
  shows "light_tree_sample_distant_lights c iv kg' rng_state randu randv time N P bounce
           path_flag ls pf
         = light_tree_sample_distant_lights c iv kg rng_state randu randv time N P bounce
           path_flag ls pf"
  unfolding light_tree_sample_distant_lights_def assms(2) distant_total_group [OF assms(1)]
    distant_sample_group [OF assms(1)] ..

section \<open>Delegation by the dispatcher\<close>

lemma from_position_tree_only:
  "num_distant_lights (integrator kg) = 0 \<Longrightarrow>
   light_tree_sample_from_position m c kg rng_state randu randv time P N bounce path_flag ls
     = scale_sample_pdf
         (light_tree_sample m c False kg rng_state randu randv time N P bounce path_flag ls)"
  by (simp add: light_tree_sample_from_position_def dispatch_def)

lemma from_position_distant_only:
  "num_distant_lights (integrator kg) \<noteq> 0 \<Longrightarrow>
   num_distribution (integrator kg) - num_distant_lights (integrator kg) = 0 \<Longrightarrow>
   light_tree_sample_from_position m c kg rng_state randu randv time P N bounce path_flag ls
     = scale_sample_pdf
         (Some (light_tree_sample_distant_lights c False kg rng_state randu randv time N P
                  bounce path_flag ls (Finite 1)))"
  by (simp add: light_tree_sample_from_position_def dispatch_def)

text \<open>
  Claim C9, as amended. With no distant light, \<open>light_tree_sample_from_position\<close> is the
  tree sampler followed by the multiplication of the sample's pdf, and its result does
  not change when the distant-light table is replaced. With at least one distant light
  and no emitter in the tree (\<open>num_distribution - num_distant_lights = 0\<close>), it is the
  distant-light sampler followed by that multiplication, and its result does not
  change when the node, emitter, distribution and object-flag tables are replaced.
\<close>

theorem dispatcher_delegation:
  "(num_distant_lights (integrator kg) = 0 \<longrightarrow>
      light_tree_sample_from_position m c kg rng_state randu randv time P N bounce path_flag ls
        = scale_sample_pdf
            (light_tree_sample m c False kg rng_state randu randv time N P bounce path_flag ls)
      \<and> light_tree_sample_from_position m c (kg\<lparr>light_tree_distant_group := dg\<rparr>) rng_state
          randu randv time P N bounce path_flag ls
        = light_tree_sample_from_position m c kg rng_state randu randv time P N bounce
            path_flag ls)
   \<and> (num_distant_lights (integrator kg) \<noteq> 0
       \<and> num_distribution (integrator kg) - num_distant_lights (integrator kg) = 0 \<longrightarrow>
      light_tree_sample_from_position m c kg rng_state randu randv time P N bounce path_flag ls
        = scale_sample_pdf
            (Some (light_tree_sample_distant_lights c False kg rng_state randu randv time N P
                     bounce path_flag ls (Finite 1)))
      \<and> light_tree_sample_from_position m c
          (kg\<lparr>light_tree_nodes := ns, light_tree_emitters := es, light_distribution := ds,
               object_flag := fs\<rparr>)
          rng_state randu randv time P N bounce path_flag ls
        = light_tree_sample_from_position m c kg rng_state randu randv time P N bounce
            path_flag ls)"
proof (intro conjI impI)
  assume n: "num_distant_lights (integrator kg) = 0"
  show "light_tree_sample_from_position m c kg rng_state randu randv time P N bounce path_flag ls
        = scale_sample_pdf
            (light_tree_sample m c False kg rng_state randu randv time N P bounce path_flag ls)"
    by (rule from_position_tree_only [OF n])
  have n': "num_distant_lights (integrator (kg\<lparr>light_tree_distant_group := dg\<rparr>)) = 0"
    using n by simp
  show "light_tree_sample_from_position m c (kg\<lparr>light_tree_distant_group := dg\<rparr>) rng_state
          randu randv time P N bounce path_flag ls
        = light_tree_sample_from_position m c kg rng_state randu randv time P N bounce
            path_flag ls"
    unfolding from_position_tree_only [OF n] from_position_tree_only [OF n']
    by (subst light_tree_sample_tables [of "kg\<lparr>light_tree_distant_group := dg\<rparr>" kg])
      simp_all
next
  assume a: "num_distant_lights (integrator kg) \<noteq> 0
       \<and> num_distribution (integrator kg) - num_distant_lights (integrator kg) = 0"
  let ?kg' = "kg\<lparr>light_tree_nodes := ns, light_tree_emitters := es, light_distribution := ds,
               object_flag := fs\<rparr>"
  have a': "num_distant_lights (integrator ?kg') \<noteq> 0"
    "num_distribution (integrator ?kg') - num_distant_lights (integrator ?kg') = 0"
    using a by simp_all
  show "light_tree_sample_from_position m c kg rng_state randu randv time P N bounce path_flag ls
        = scale_sample_pdf
            (Some (light_tree_sample_distant_lights c False kg rng_state randu randv time N P
                     bounce path_flag ls (Finite 1)))"
    using a by (simp add: from_position_distant_only)
  show "light_tree_sample_from_position m c ?kg' rng_state randu randv time P N bounce
          path_flag ls
        = light_tree_sample_from_position m c kg rng_state randu randv time P N bounce
            path_flag ls"
    unfolding from_position_distant_only [OF a'] from_position_distant_only [OF conjunct1 [OF a]
        conjunct2 [OF a]]
    by (subst distant_lights_group [of ?kg' kg]) simp_all
qed


lemma empty_leaf_sample:
  "light_tree_sample m c iv (leaf_scene [] [] []) rng_state randu randv time N P bounce
     path_flag ls = Some (Inr (False, ls, Finite 1))"
proof -
  let ?leaf = "segment_node axis_y (Finite 1) 0 0"
  have f: "kernel_data_fetch (light_tree_nodes (leaf_scene [] [] [])) 0 = Inr ?leaf" by simp
  have d: "descent_path m (leaf_scene [] [] []) P N (0, ?leaf, path_state_rng_1D c rng_state 1)
             [] (0, ?leaf, path_state_rng_1D c rng_state 1)"
    by (rule descent_path.at_leaf) simp
  have t: "leaf_total m (leaf_scene [] [] []) P N ?leaf 0 (Finite 0) = Inr (Finite 0)"
    by (subst leaf_total.simps) simp
  show ?thesis using zero_total_leaf_fails [OF f d t] by simp
qed

lemma no_distant_lights_no_return:
  "light_tree_sample_distant_lights c iv (leaf_scene es ds fs) rng_state randu randv time N P
     bounce path_flag ls pf = Inl No_Return_Value"
proof -
  have n: "num_distant_lights (integrator (leaf_scene es ds fs)) = 0"
    by (simp add: leaf_scene_def)
  show ?thesis
    unfolding light_tree_sample_distant_lights_def Let_def n
    by (subst distant_total.simps, subst distant_sample.simps) simp
qed

text \<open>
  Claim C9 as stated lets the second case hold whenever the tree has no emitter. The
  first test of the dispatcher wins: with no light at all (both counts 0) it calls the
  tree sampler, which reads node 0. The result is not what the distant-light sampler
  gives, and it changes with the node table.
\<close>

theorem empty_scene_counterexample:
  "num_distribution (integrator (leaf_scene [] [] []))
     - num_distant_lights (integrator (leaf_scene [] [] [])) = 0
   \<and> light_tree_sample_from_position reference_math (probe False) (leaf_scene [] [] [])
       (Finite (1 / 2)) (Finite (1 / 2)) (Finite (1 / 2)) (Finite 0)
       (point_on axis_y (Finite 2)) (point_on axis_y (Finite (- 1))) 0 0 ls0
       = Some (Inr (False, ls0))
   \<and> scale_sample_pdf
         (Some (light_tree_sample_distant_lights (probe False) False (leaf_scene [] [] [])
                  (Finite (1 / 2)) (Finite (1 / 2)) (Finite (1 / 2)) (Finite 0)
                  (point_on axis_y (Finite (- 1))) (point_on axis_y (Finite 2)) 0 0 ls0
                  (Finite 1)))
       = Some (Inl No_Return_Value)
   \<and> light_tree_sample_from_position reference_math (probe False)
       ((leaf_scene [] [] [])\<lparr>light_tree_nodes := []\<rparr>)
       (Finite (1 / 2)) (Finite (1 / 2)) (Finite (1 / 2)) (Finite 0)
       (point_on axis_y (Finite 2)) (point_on axis_y (Finite (- 1))) 0 0 ls0
       = Some (Inl Out_Of_Bounds)"
proof -
  have n: "num_distant_lights (integrator (leaf_scene [] [] [])) = 0"
    "num_distribution (integrator (leaf_scene [] [] [])) = 0"
    by (simp_all add: leaf_scene_def)
  have n': "num_distant_lights (integrator ((leaf_scene [] [] [])\<lparr>light_tree_nodes := []\<rparr>)) = 0"
    by (simp add: leaf_scene_def)
  have a: "light_tree_sample_from_position reference_math (probe False) (leaf_scene [] [] [])
       (Finite (1 / 2)) (Finite (1 / 2)) (Finite (1 / 2)) (Finite 0)
       (point_on axis_y (Finite 2)) (point_on axis_y (Finite (- 1))) 0 0 ls0
       = Some (Inr (False, ls0))"
    unfolding from_position_tree_only [OF n(1)] empty_leaf_sample
    by (simp add: scale_sample_pdf_def ls0_def)
  have b: "light_tree_sample_from_position reference_math (probe False)
       ((leaf_scene [] [] [])\<lparr>light_tree_nodes := []\<rparr>)
       (Finite (1 / 2)) (Finite (1 / 2)) (Finite (1 / 2)) (Finite 0)
       (point_on axis_y (Finite 2)) (point_on axis_y (Finite (- 1))) 0 0 ls0
       = Some (Inl Out_Of_Bounds)"
    unfolding from_position_tree_only [OF n']
    by (simp add: light_tree_sample_def scale_sample_pdf_def)
  show ?thesis
    using n a b by (simp add: no_distant_lights_no_return scale_sample_pdf_def)
qed

text \<open>A scene of two tree lights and no distant light, and a scene of one distant light
  and no tree light.\<close>

theorem dispatcher_delegation_witness:
  "num_distant_lights (integrator (two_leaf_scene axis_y (Finite 1) (Finite 3) [] 0)) = 0
   \<and> light_tree_sample_from_position reference_math (probe False)
       (two_leaf_scene axis_y (Finite 1) (Finite 3) [] 0)
       (Finite (1 / 8)) (Finite (1 / 2)) (Finite (1 / 2)) (Finite 0)
       (point_on axis_y (Finite 2)) (point_on axis_y (Finite (- 1))) 0 0 ls0
     = scale_sample_pdf
         (light_tree_sample reference_math (probe False) False
            (two_leaf_scene axis_y (Finite 1) (Finite 3) [] 0)
            (Finite (1 / 8)) (Finite (1 / 2)) (Finite (1 / 2)) (Finite 0)
            (point_on axis_y (Finite (- 1))) (point_on axis_y (Finite 2)) 0 0 ls0)
   \<and> light_tree_sample_from_position reference_math (probe False)
       ((two_leaf_scene axis_y (Finite 1) (Finite 3) [] 0)
          \<lparr>light_tree_distant_group := [sun 7 (Finite 3)]\<rparr>)
       (Finite (1 / 8)) (Finite (1 / 2)) (Finite (1 / 2)) (Finite 0)
       (point_on axis_y (Finite 2)) (point_on axis_y (Finite (- 1))) 0 0 ls0
     = light_tree_sample_from_position reference_math (probe False)
         (two_leaf_scene axis_y (Finite 1) (Finite 3) [] 0)
         (Finite (1 / 8)) (Finite (1 / 2)) (Finite (1 / 2)) (Finite 0)
         (point_on axis_y (Finite 2)) (point_on axis_y (Finite (- 1))) 0 0 ls0
   \<and> num_distant_lights (integrator (distant_scene [sun 0 (Finite 1)])) \<noteq> 0
   \<and> num_distribution (integrator (distant_scene [sun 0 (Finite 1)]))
       - num_distant_lights (integrator (distant_scene [sun 0 (Finite 1)])) = 0
   \<and> light_tree_sample_from_position reference_math (probe False)
       (distant_scene [sun 0 (Finite 1)])
       (Finite (1 / 2)) (Finite (1 / 2)) (Finite (1 / 2)) (Finite 0)
       (point_on axis_y (Finite 2)) (point_on axis_y (Finite (- 1))) 0 0 ls0
     = scale_sample_pdf
         (Some (light_tree_sample_distant_lights (probe False) False
                  (distant_scene [sun 0 (Finite 1)])
                  (Finite (1 / 2)) (Finite (1 / 2)) (Finite (1 / 2)) (Finite 0)
                  (point_on axis_y (Finite (- 1))) (point_on axis_y (Finite 2)) 0 0 ls0
                  (Finite 1)))
   \<and> light_tree_sample_from_position reference_math (probe False)
       ((distant_scene [sun 0 (Finite 1)])
          \<lparr>light_tree_nodes := [segment_node axis_y (Finite 1) 0 1],
            light_tree_emitters := [segment_emitter axis_y (Finite 1)],
            light_distribution := [lamp_entry 5], object_flag := [1]\<rparr>)
       (Finite (1 / 2)) (Finite (1 / 2)) (Finite (1 / 2)) (Finite 0)
       (point_on axis_y (Finite 2)) (point_on axis_y (Finite (- 1))) 0 0 ls0
     = light_tree_sample_from_position reference_math (probe False)
         (distant_scene [sun 0 (Finite 1)])
         (Finite (1 / 2)) (Finite (1 / 2)) (Finite (1 / 2)) (Finite 0)
         (point_on axis_y (Finite 2)) (point_on axis_y (Finite (- 1))) 0 0 ls0"
proof -
  have h1: "num_distant_lights (integrator (two_leaf_scene axis_y (Finite 1) (Finite 3) [] 0))
              = 0"
    by (simp add: two_leaf_scene_def)
  have h2: "num_distant_lights (integrator (distant_scene [sun 0 (Finite 1)])) \<noteq> 0
     \<and> num_distribution (integrator (distant_scene [sun 0 (Finite 1)]))
         - num_distant_lights (integrator (distant_scene [sun 0 (Finite 1)])) = 0"
    by simp
  note t1 = dispatcher_delegation [where m = reference_math and c = "probe False"
      and kg = "two_leaf_scene axis_y (Finite 1) (Finite 3) [] 0"
      and rng_state = "Finite (1 / 8)" and randu = "Finite (1 / 2)" and randv = "Finite (1 / 2)"
      and time = "Finite 0" and P = "point_on axis_y (Finite 2)"
      and N = "point_on axis_y (Finite (- 1))" and bounce = 0 and path_flag = 0 and ls = ls0
      and dg = "[sun 7 (Finite 3)]", THEN conjunct1, rule_format, OF h1]
  note t2 = dispatcher_delegation [where m = reference_math and c = "probe False"
      and kg = "distant_scene [sun 0 (Finite 1)]"
      and rng_state = "Finite (1 / 2)" and randu = "Finite (1 / 2)" and randv = "Finite (1 / 2)"
      and time = "Finite 0" and P = "point_on axis_y (Finite 2)"
      and N = "point_on axis_y (Finite (- 1))" and bounce = 0 and path_flag = 0 and ls = ls0
      and ns = "[segment_node axis_y (Finite 1) 0 1]"
      and es = "[segment_emitter axis_y (Finite 1)]" and ds = "[lamp_entry 5]"
      and fs = "[1]", THEN conjunct2, rule_format, OF h2]
  show ?thesis
    using h1 h2 t1 t2 by (intro conjI) (elim conjE, assumption)+
qed


section \<open>The light sample on return\<close>

lemma sample_emitter_left:
  assumes "sample_emitter c iv kg randu randv time P bounce path_flag ls i = Inr (ret, ls')"
  shows "sample_left c iv randu randv time P path_flag ls ret ls'"
proof -
  obtain kd where kd: "kernel_data_fetch (light_distribution kg) i = Inr kd"
    using assms by (auto simp: sample_emitter_def split: sum.splits)
  let ?lt = "triangle_light_sample c iv (prim kd) (object_id (mesh_light kd)) randu randv time ls P"
  let ?ls = "?lt\<lparr>shader := shader ?lt OR shader_flag (mesh_light kd)\<rparr>"
  have "(\<not> ret \<and> ls' = ls)
        \<or> light_sample c iv (- prim kd - 1) randu randv P path_flag ls = (ret, ls')
        \<or> (ls' = ?ls \<and> ret = (Finite 0 < pdf ls'))"
    using assms unfolding sample_emitter_def kd Let_def
    by (auto split: sum.splits if_splits)
  then show ?thesis unfolding sample_left_def by blast
qed

lemma leaf_sample_left:
  "leaf_sample m c iv kg randu randv time N P bounce path_flag knode tu itot i cdf ls pf
     = Inr (ret, ls', pf') \<Longrightarrow>
   sample_left c iv randu randv time P path_flag ls ret ls'"
proof (induction m c iv kg randu randv time N P bounce path_flag knode tu itot i cdf ls pf
    rule: leaf_sample.induct)
  case (1 m c iv kg randu randv time N P bounce path_flag knode tu itot i cdf ls pf)
  note r = "1.prems"
  note L = leaf_sample.simps [of m c iv kg randu randv time N P bounce path_flag knode tu
      itot i cdf ls pf]
  show ?case
  proof (cases "i < num_prims knode")
    case False
    then have "\<not> ret \<and> ls' = ls"
      using r by (auto simp: L split: if_splits)
    then show ?thesis by (simp add: sample_left_def)
  next
    case True
    show ?thesis
    proof (cases "light_tree_emitter_importance m kg P N (- child_index knode + i)")
      case (Inl e)
      then show ?thesis using r True by (simp add: L)
    next
      case (Inr x)
      show ?thesis
      proof (cases "tu < cdf + x * itot")
        case hit: True
        then have "sample_emitter c iv kg randu randv time P bounce path_flag ls
                     (- child_index knode + i) = Inr (ret, ls')"
          using r True Inr by (auto simp: L Let_def split: sum.splits)
        then show ?thesis by (rule sample_emitter_left)
      next
        case miss: False
        then have "leaf_sample m c iv kg randu randv time N P bounce path_flag knode tu itot
                     (i + 1) (cdf + x * itot) ls pf = Inr (ret, ls', pf')"
          using r True Inr by (simp add: L Let_def)
        then show ?thesis using "1.IH" [OF True refl Inr refl refl miss] by simp
      qed
    qed
  qed
qed

lemma light_tree_sample_left:
  assumes "light_tree_sample m c iv kg rng_state randu randv time N P bounce path_flag ls
             = Some (Inr (ret, ls', pf))"
  shows "sample_left c iv randu randv time P path_flag ls ret ls'"
proof -
  obtain knode0 where f: "kernel_data_fetch (light_tree_nodes kg) 0 = Inr knode0"
    using assms by (auto simp: light_tree_sample_def split: sum.splits)
  obtain index knode tu pf0 where
    d: "descend m kg P N (0, knode0, path_state_rng_1D c rng_state 1, Finite 1)
          = Some (Inr (index, knode, tu, pf0))"
    using assms f
    by (auto simp: light_tree_sample_def Let_def split: option.splits sum.splits)
  obtain tot where t: "leaf_total m kg P N knode 0 (Finite 0) = Inr tot"
    using assms f d
    by (auto simp: light_tree_sample_def Let_def split: sum.splits)
  show ?thesis
  proof (cases "tot = Finite 0")
    case True
    then have "\<not> ret \<and> ls' = ls"
      using assms f d t by (auto simp: light_tree_sample_def Let_def)
    then show ?thesis by (simp add: sample_left_def)
  next
    case False
    then have "leaf_sample m c iv kg randu randv time N P bounce path_flag knode tu
                 (Finite 1 / tot) 0 (Finite 0) ls pf0 = Inr (ret, ls', pf)"
      using assms f d t by (auto simp: light_tree_sample_def Let_def)
    then show ?thesis by (rule leaf_sample_left)
  qed
qed

lemma distant_sample_left:
  "distant_sample c iv kg randu randv N P bounce path_flag n du itot i cdf ls pf
     = Inr (ret, ls', pf') \<Longrightarrow>
   sample_left c iv randu randv time P path_flag ls ret ls'"
proof (induction c iv kg randu randv N P bounce path_flag n du itot i cdf ls pf
    rule: distant_sample.induct)
  case (1 c iv kg randu randv N P bounce path_flag n du itot i cdf ls pf)
  note r = "1.prems"
  note L = distant_sample.simps [of c iv kg randu randv N P bounce path_flag n du itot i cdf
      ls pf]
  have lt: "i < n" using r by (auto simp: L split: if_splits)
  show ?case
  proof (cases "light_tree_distant_light_importance kg P N i")
    case (Inl e)
    then show ?thesis using r lt by (simp only: L if_True sum.case) simp
  next
    case (Inr x)
    show ?thesis
    proof (cases "du < cdf + x * itot")
      case hit: True
      have "(\<not> ret \<and> ls' = ls)
            \<or> (\<exists>lamp. light_sample c iv lamp randu randv P path_flag ls = (ret, ls'))"
        using r lt Inr hit
        by (simp only: L if_True sum.case Let_def)
          (auto split: sum.splits if_splits prod.splits)
      then show ?thesis unfolding sample_left_def by blast
    next
      case miss: False
      then have "distant_sample c iv kg randu randv N P bounce path_flag n du itot (i + 1)
                   (cdf + x * itot) ls pf = Inr (ret, ls', pf')"
        using r lt Inr by (simp only: L if_True if_False sum.case Let_def)
      then show ?thesis using "1.IH" [OF lt Inr refl refl miss] by simp
    qed
  qed
qed

lemma distant_lights_left:
  assumes "light_tree_sample_distant_lights c iv kg rng_state randu randv time N P bounce
             path_flag ls pf = Inr (ret, ls', pf')"
  shows "sample_left c iv randu randv time P path_flag ls ret ls'"
  using assms unfolding light_tree_sample_distant_lights_def Let_def
  by (auto split: sum.splits intro: distant_sample_left)

lemma times_pdf_factor_Some:
  "times_pdf_factor r p = Some (Inr (ret, ls', pf)) \<Longrightarrow> \<exists>pf0. r = Some (Inr (ret, ls', pf0))"
  by (auto simp: times_pdf_factor_def split: option.splits sum.splits)

lemma dispatch_left:
  assumes "dispatch m c kg rng_state randu randv time P N bounce path_flag ls
             = Some (Inr (ret, ls', pf))"
  shows "sample_left c False randu randv time P path_flag ls ret ls'"
proof -
  have "(\<exists>pf0. light_tree_sample m c False kg rng_state randu randv time N P bounce path_flag ls
                  = Some (Inr (ret, ls', pf0)))
        \<or> (\<exists>pf0. light_tree_sample_distant_lights c False kg rng_state randu randv time N P
                    bounce path_flag ls (Finite 1) = Inr (ret, ls', pf0))"
    using assms unfolding dispatch_def Let_def
    by (auto split: if_splits sum.splits dest!: times_pdf_factor_Some)
  then show ?thesis
  proof (elim disjE exE)
    fix pf0
    assume "light_tree_sample m c False kg rng_state randu randv time N P bounce path_flag ls
              = Some (Inr (ret, ls', pf0))"
    then show ?thesis by (rule light_tree_sample_left)
  next
    fix pf0
    assume "light_tree_sample_distant_lights c False kg rng_state randu randv time N P
              bounce path_flag ls (Finite 1) = Inr (ret, ls', pf0)"
    then show ?thesis by (rule distant_lights_left)
  qed
qed

lemma sample_emitter_paths:
  assumes "kernel_data_fetch (light_distribution kg) i = Inr kd"
  shows "prim kd < 0 \<Longrightarrow> light_select_reached_max_bounces c (- prim kd - 1) bounce \<Longrightarrow>
         sample_emitter c iv kg randu randv time P bounce path_flag ls i = Inr (False, ls)"
    and "0 \<le> prim kd \<Longrightarrow> path_flag AND PATH_RAY_SHADOW_CATCHER_PASS c \<noteq> 0 \<Longrightarrow>
         kernel_data_fetch (object_flag kg) (object_id (mesh_light kd)) = Inr flag \<Longrightarrow>
         flag AND SD_OBJECT_SHADOW_CATCHER c = 0 \<Longrightarrow>
         sample_emitter c iv kg randu randv time P bounce path_flag ls i = Inr (False, ls)"
    and "0 \<le> prim kd \<Longrightarrow>
         path_flag AND PATH_RAY_SHADOW_CATCHER_PASS c = 0
         \<or> (kernel_data_fetch (object_flag kg) (object_id (mesh_light kd)) = Inr flag
            \<and> flag AND SD_OBJECT_SHADOW_CATCHER c \<noteq> 0) \<Longrightarrow>
         ls_t = (triangle_light_sample c iv (prim kd) (object_id (mesh_light kd)) randu randv
                   time ls P)
                  \<lparr>shader := shader (triangle_light_sample c iv (prim kd)
                                        (object_id (mesh_light kd)) randu randv time ls P)
                               OR shader_flag (mesh_light kd)\<rparr> \<Longrightarrow>
         sample_emitter c iv kg randu randv time P bounce path_flag ls i
           = Inr (Finite 0 < pdf ls_t, ls_t)"
  by (auto simp: sample_emitter_def assms Let_def)

lemma selected_emitter_sample:
  assumes "num_distant_lights (integrator kg) = 0"
    and "kernel_data_fetch (light_tree_nodes kg) 0 = Inr knode0"
    and "descent_path m kg P N (0, knode0, path_state_rng_1D c rng_state 1) ps (index, knode, tu)"
    and "leaf_total m kg P N knode 0 (Finite 0) = Inr tot" and "tot \<noteq> Finite 0"
    and "leaf_select m kg P N knode tu tot 0 (Finite 0) = Inr (Some j)"
    and "light_tree_emitter_importance m kg P N (- child_index knode + j) = Inr imp"
    and "sample_emitter c False kg randu randv time P bounce path_flag ls
           (- child_index knode + j) = Inr (ret, ls')"
  shows "light_tree_sample_from_position m c kg rng_state randu randv time P N bounce
           path_flag ls
         = Some (Inr (ret, ls'\<lparr>pdf := pdf ls'
                        * (foldl (*) (Finite 1) ps * (imp * (Finite 1 / tot)))\<rparr>))"
  unfolding from_position_tree_only [OF assms(1)] light_tree_sample_at_leaf [OF assms(2,3)]
    assms(4)
  using assms(8)
  by (simp add: assms(5) leaf_sample_select [OF assms(6,7)] scale_sample_pdf_def)

text \<open>
  Claim C10, as amended. On every return of \<open>light_tree_sample_from_position\<close>, with the
  flag true or false, the light sample handed back is the one the chosen sub-sampler
  left, with its pdf multiplied by the accumulated \<open>pdf_factor\<close>; and the sub-sampler has
  left either the sample as it was passed in (and then the flag is false), or what
  \<^verbatim>\<open>light_sample\<close> returned for it, or what \<^verbatim>\<open>triangle_light_sample\<close> wrote into it with
  the shader flag of the mesh light or'ed in (and then the flag says whether the pdf is
  positive, so a failing mesh-light path has written the sample). For a scene without
  distant lights, on the failure paths the result is: with a leaf of total importance 0,
  and with a walk that comes to the end of the leaf in a release build, false and the
  sample passed in with its pdf multiplied by the product of the branch probabilities;
  with a lamp past its bounce budget, and with a mesh light left out of the
  shadow-catcher pass, false and the sample passed in with its pdf multiplied by that
  product times the normalized probability of the emitter; with a mesh light that is
  sampled (outside of the shadow-catcher pass, or on a shadow-catcher object), the flag
  \<open>pdf > 0\<close> and the sample written by the triangle sampler with its pdf multiplied
  likewise. So on the failure paths that write nothing the sample
  handed back is the one passed in whenever the float product of its pdf with the
  factor is that pdf again.
\<close>

theorem sample_on_every_return:
  "(light_tree_sample_from_position m c kg rng_state randu randv time P N bounce path_flag ls
      = Some (Inr (ret, ls_out))
    \<longrightarrow> (\<exists>ls' pdf_factor.
           dispatch m c kg rng_state randu randv time P N bounce path_flag ls
             = Some (Inr (ret, ls', pdf_factor))
           \<and> ls_out = ls'\<lparr>pdf := pdf ls' * pdf_factor\<rparr>
           \<and> sample_left c False randu randv time P path_flag ls ret ls'))
   \<and> (num_distant_lights (integrator kg) = 0
       \<and> kernel_data_fetch (light_tree_nodes kg) 0 = Inr knode0
       \<and> descent_path m kg P N (0, knode0, path_state_rng_1D c rng_state 1) ps
            (index, knode, tu)
       \<and> leaf_total m kg P N knode 0 (Finite 0) = Inr tot
    \<longrightarrow> (tot = Finite 0 \<longrightarrow>
           light_tree_sample_from_position m c kg rng_state randu randv time P N bounce
             path_flag ls
           = Some (Inr (False, ls\<lparr>pdf := pdf ls * foldl (*) (Finite 1) ps\<rparr>)))
        \<and> (tot \<noteq> Finite 0 \<and> leaf_select m kg P N knode tu tot 0 (Finite 0) = Inr None
            \<and> \<not> debug_build c \<longrightarrow>
           light_tree_sample_from_position m c kg rng_state randu randv time P N bounce
             path_flag ls
           = Some (Inr (False, ls\<lparr>pdf := pdf ls * foldl (*) (Finite 1) ps\<rparr>)))
        \<and> (tot \<noteq> Finite 0 \<and> leaf_select m kg P N knode tu tot 0 (Finite 0) = Inr (Some j)
            \<and> light_tree_emitter_importance m kg P N (- child_index knode + j) = Inr imp
            \<and> kernel_data_fetch (light_distribution kg) (- child_index knode + j) = Inr kd
            \<longrightarrow> (prim kd < 0 \<and> light_select_reached_max_bounces c (- prim kd - 1) bounce \<longrightarrow>
                   light_tree_sample_from_position m c kg rng_state randu randv time P N
                     bounce path_flag ls
                   = Some (Inr (False, ls\<lparr>pdf := pdf ls
                                * (foldl (*) (Finite 1) ps * (imp * (Finite 1 / tot)))\<rparr>)))
                \<and> (0 \<le> prim kd \<and> path_flag AND PATH_RAY_SHADOW_CATCHER_PASS c \<noteq> 0
                    \<and> kernel_data_fetch (object_flag kg) (object_id (mesh_light kd)) = Inr flag
                    \<and> flag AND SD_OBJECT_SHADOW_CATCHER c = 0 \<longrightarrow>
                   light_tree_sample_from_position m c kg rng_state randu randv time P N
                     bounce path_flag ls
                   = Some (Inr (False, ls\<lparr>pdf := pdf ls
                                * (foldl (*) (Finite 1) ps * (imp * (Finite 1 / tot)))\<rparr>)))
                \<and> (0 \<le> prim kd
                    \<and> (path_flag AND PATH_RAY_SHADOW_CATCHER_PASS c = 0
                        \<or> (kernel_data_fetch (object_flag kg) (object_id (mesh_light kd))
                              = Inr flag
                            \<and> flag AND SD_OBJECT_SHADOW_CATCHER c \<noteq> 0))
                    \<and> ls_t = (triangle_light_sample c False (prim kd)
                                (object_id (mesh_light kd)) randu randv time ls P)
                               \<lparr>shader := shader (triangle_light_sample c False (prim kd)
                                            (object_id (mesh_light kd)) randu randv time ls P)
                                          OR shader_flag (mesh_light kd)\<rparr> \<longrightarrow>
                   light_tree_sample_from_position m c kg rng_state randu randv time P N
                     bounce path_flag ls
                   = Some (Inr (Finite 0 < pdf ls_t, ls_t\<lparr>pdf := pdf ls_t
                                * (foldl (*) (Finite 1) ps * (imp * (Finite 1 / tot)))\<rparr>)))))"
proof (intro conjI impI; (elim conjE)?)
  assume r: "light_tree_sample_from_position m c kg rng_state randu randv time P N bounce
               path_flag ls = Some (Inr (ret, ls_out))"
  then obtain ls' pdf_factor where
    d: "dispatch m c kg rng_state randu randv time P N bounce path_flag ls
          = Some (Inr (ret, ls', pdf_factor))"
    and o: "ls_out = ls'\<lparr>pdf := pdf ls' * pdf_factor\<rparr>"
    by (auto simp: light_tree_sample_from_position_def scale_sample_pdf_def
        split: option.splits sum.splits)
  show "\<exists>ls' pdf_factor.
           dispatch m c kg rng_state randu randv time P N bounce path_flag ls
             = Some (Inr (ret, ls', pdf_factor))
           \<and> ls_out = ls'\<lparr>pdf := pdf ls' * pdf_factor\<rparr>
           \<and> sample_left c False randu randv time P path_flag ls ret ls'"
    using d o dispatch_left [OF d] by blast
next
  assume n: "num_distant_lights (integrator kg) = 0"
    and f: "kernel_data_fetch (light_tree_nodes kg) 0 = Inr knode0"
    and d: "descent_path m kg P N (0, knode0, path_state_rng_1D c rng_state 1) ps
              (index, knode, tu)"
    and t: "leaf_total m kg P N knode 0 (Finite 0) = Inr tot"
    and z: "tot = Finite 0"
  show "light_tree_sample_from_position m c kg rng_state randu randv time P N bounce
          path_flag ls
        = Some (Inr (False, ls\<lparr>pdf := pdf ls * foldl (*) (Finite 1) ps\<rparr>))"
    unfolding from_position_tree_only [OF n] zero_total_leaf_fails [OF f d t [unfolded z]]
    by (simp add: scale_sample_pdf_def)
next
  assume n: "num_distant_lights (integrator kg) = 0"
    and f: "kernel_data_fetch (light_tree_nodes kg) 0 = Inr knode0"
    and d: "descent_path m kg P N (0, knode0, path_state_rng_1D c rng_state 1) ps
              (index, knode, tu)"
    and t: "leaf_total m kg P N knode 0 (Finite 0) = Inr tot"
    and z: "tot \<noteq> Finite 0"
    and s: "leaf_select m kg P N knode tu tot 0 (Finite 0) = Inr None"
    and b: "\<not> debug_build c"
  show "light_tree_sample_from_position m c kg rng_state randu randv time P N bounce
          path_flag ls
        = Some (Inr (False, ls\<lparr>pdf := pdf ls * foldl (*) (Finite 1) ps\<rparr>))"
    unfolding from_position_tree_only [OF n] exhausted_leaf_walk [OF f d t z s]
    by (simp add: scale_sample_pdf_def b)
next
  assume n: "num_distant_lights (integrator kg) = 0"
    and f: "kernel_data_fetch (light_tree_nodes kg) 0 = Inr knode0"
    and d: "descent_path m kg P N (0, knode0, path_state_rng_1D c rng_state 1) ps
              (index, knode, tu)"
    and t: "leaf_total m kg P N knode 0 (Finite 0) = Inr tot"
    and z: "tot \<noteq> Finite 0"
    and s: "leaf_select m kg P N knode tu tot 0 (Finite 0) = Inr (Some j)"
    and e: "light_tree_emitter_importance m kg P N (- child_index knode + j) = Inr imp"
    and k: "kernel_data_fetch (light_distribution kg) (- child_index knode + j) = Inr kd"
    and p: "prim kd < 0" "light_select_reached_max_bounces c (- prim kd - 1) bounce"
  show "light_tree_sample_from_position m c kg rng_state randu randv time P N bounce
          path_flag ls
        = Some (Inr (False, ls\<lparr>pdf := pdf ls
                       * (foldl (*) (Finite 1) ps * (imp * (Finite 1 / tot)))\<rparr>))"
    by (rule selected_emitter_sample [OF n f d t z s e sample_emitter_paths(1) [OF k p]])
next
  assume n: "num_distant_lights (integrator kg) = 0"
    and f: "kernel_data_fetch (light_tree_nodes kg) 0 = Inr knode0"
    and d: "descent_path m kg P N (0, knode0, path_state_rng_1D c rng_state 1) ps
              (index, knode, tu)"
    and t: "leaf_total m kg P N knode 0 (Finite 0) = Inr tot"
    and z: "tot \<noteq> Finite 0"
    and s: "leaf_select m kg P N knode tu tot 0 (Finite 0) = Inr (Some j)"
    and e: "light_tree_emitter_importance m kg P N (- child_index knode + j) = Inr imp"
    and k: "kernel_data_fetch (light_distribution kg) (- child_index knode + j) = Inr kd"
    and p: "0 \<le> prim kd" "path_flag AND PATH_RAY_SHADOW_CATCHER_PASS c \<noteq> 0"
      "kernel_data_fetch (object_flag kg) (object_id (mesh_light kd)) = Inr flag"
      "flag AND SD_OBJECT_SHADOW_CATCHER c = 0"
  show "light_tree_sample_from_position m c kg rng_state randu randv time P N bounce
          path_flag ls
        = Some (Inr (False, ls\<lparr>pdf := pdf ls
                       * (foldl (*) (Finite 1) ps * (imp * (Finite 1 / tot)))\<rparr>))"
    by (rule selected_emitter_sample [OF n f d t z s e sample_emitter_paths(2) [OF k p]])
next
  assume n: "num_distant_lights (integrator kg) = 0"
    and f: "kernel_data_fetch (light_tree_nodes kg) 0 = Inr knode0"
    and d: "descent_path m kg P N (0, knode0, path_state_rng_1D c rng_state 1) ps
              (index, knode, tu)"
    and t: "leaf_total m kg P N knode 0 (Finite 0) = Inr tot"
    and z: "tot \<noteq> Finite 0"
    and s: "leaf_select m kg P N knode tu tot 0 (Finite 0) = Inr (Some j)"
    and e: "light_tree_emitter_importance m kg P N (- child_index knode + j) = Inr imp"
    and k: "kernel_data_fetch (light_distribution kg) (- child_index knode + j) = Inr kd"
    and p: "0 \<le> prim kd"
      "path_flag AND PATH_RAY_SHADOW_CATCHER_PASS c = 0
       \<or> (kernel_data_fetch (object_flag kg) (object_id (mesh_light kd)) = Inr flag
          \<and> flag AND SD_OBJECT_SHADOW_CATCHER c \<noteq> 0)"
      "ls_t = (triangle_light_sample c False (prim kd) (object_id (mesh_light kd)) randu randv
                 time ls P)
                \<lparr>shader := shader (triangle_light_sample c False (prim kd)
                                      (object_id (mesh_light kd)) randu randv time ls P)
                             OR shader_flag (mesh_light kd)\<rparr>"
  show "light_tree_sample_from_position m c kg rng_state randu randv time P N bounce
          path_flag ls
        = Some (Inr (Finite 0 < pdf ls_t, ls_t\<lparr>pdf := pdf ls_t
                       * (foldl (*) (Finite 1) ps * (imp * (Finite 1 / tot)))\<rparr>))"
    by (rule selected_emitter_sample [OF n f d t z s e sample_emitter_paths(3) [OF k p]])
qed

lemma single_leaf_facts:
  assumes "in_grid en" "in_grid (4 * en)"
  shows "light_tree_emitter_importance reference_math
           (leaf_scene [segment_emitter axis_y (Finite en)] ds fs)
           (point_on axis_y (Finite 2)) (point_on axis_y (Finite (- 1)))
           (- child_index (segment_node axis_y (Finite 1) 0 1) + 0) = Inr (Finite (4 * en))"
    and "leaf_total reference_math (leaf_scene [segment_emitter axis_y (Finite en)] ds fs)
           (point_on axis_y (Finite 2)) (point_on axis_y (Finite (- 1)))
           (segment_node axis_y (Finite 1) 0 1) 0 (Finite 0) = Inr (Finite (4 * en))"
    and "Finite (1 / 2) < Finite (4 * en) * (Finite 1 / Finite (4 * en)) \<Longrightarrow>
         leaf_select reference_math (leaf_scene [segment_emitter axis_y (Finite en)] ds fs)
           (point_on axis_y (Finite 2)) (point_on axis_y (Finite (- 1)))
           (segment_node axis_y (Finite 1) 0 1) (Finite (1 / 2)) (Finite (4 * en)) 0 (Finite 0)
         = Inr (Some 0)"
proof -
  let ?kg = "leaf_scene [segment_emitter axis_y (Finite en)] ds fs"
  let ?leaf = "segment_node axis_y (Finite 1) 0 1"
  have e: "light_tree_emitter_importance reference_math ?kg (point_on axis_y (Finite 2))
             (point_on axis_y (Finite (- 1))) (- child_index ?leaf) = Inr (Finite (4 * en))"
    using emitter_importance_y [of ?kg 0 en] assms by (simp del: point_on_y)
  show "light_tree_emitter_importance reference_math ?kg (point_on axis_y (Finite 2))
          (point_on axis_y (Finite (- 1))) (- child_index ?leaf + 0) = Inr (Finite (4 * en))"
    using e by simp
  show "leaf_total reference_math ?kg (point_on axis_y (Finite 2))
          (point_on axis_y (Finite (- 1))) ?leaf 0 (Finite 0) = Inr (Finite (4 * en))"
    using single_emitter_total [OF _ e] assms(2) by simp
  show "leaf_select reference_math ?kg (point_on axis_y (Finite 2))
          (point_on axis_y (Finite (- 1))) ?leaf (Finite (1 / 2)) (Finite (4 * en)) 0 (Finite 0)
        = Inr (Some 0)"
    if "Finite (1 / 2) < Finite (4 * en) * (Finite 1 / Finite (4 * en))"
    by (rule single_emitter_select [OF _ e that]) simp
qed

lemma single_leaf_path:
  "descent_path m (leaf_scene es ds fs) P N
     (0, segment_node axis_y (Finite 1) 0 (int (length es)), path_state_rng_1D c r 1) []
     (0, segment_node axis_y (Finite 1) 0 (int (length es)), path_state_rng_1D c r 1)"
  by (rule descent_path.at_leaf) simp

lemma leaf_scene_sel [simp]:
  "num_distant_lights (integrator (leaf_scene es ds fs)) = 0"
  by (simp add: leaf_scene_def)

lemma entry_sel [simp]:
  "prim (lamp_entry l) = - l - 1"
  "prim (triangle_entry t ob fl) = t"
  "object_id (mesh_light (triangle_entry t ob fl)) = ob"
  "shader_flag (mesh_light (triangle_entry t ob fl)) = fl"
  by (simp_all add: lamp_entry_def triangle_entry_def)

lemma two_leaf_nan_leaf:
  "light_tree_emitter_importance reference_math (two_leaf_scene axis_z (Finite 1) (Finite 1) ds n)
     (point_on axis_z (Finite 2)) (point_on axis_z (Finite (- 1)))
     (- child_index (segment_node axis_z (Finite 1) (- 1) 1)) = Inr (Finite 4)"
  "leaf_total reference_math (two_leaf_scene axis_z (Finite 1) (Finite 1) ds n)
     (point_on axis_z (Finite 2)) (point_on axis_z (Finite (- 1)))
     (segment_node axis_z (Finite 1) (- 1) 1) 0 (Finite 0) = Inr (Finite 4)"
  "leaf_select reference_math (two_leaf_scene axis_z (Finite 1) (Finite 1) ds n)
     (point_on axis_z (Finite 2)) (point_on axis_z (Finite (- 1)))
     (segment_node axis_z (Finite 1) (- 1) 1) Not_a_Number (Finite 4) 0 (Finite 0) = Inr None"
proof -
  let ?kg = "two_leaf_scene axis_z (Finite 1) (Finite 1) ds n"
  let ?P = "point_on axis_z (Finite 2)"
  let ?N = "point_on axis_z (Finite (- 1))"
  let ?leaf = "segment_node axis_z (Finite 1) (- 1) 1"
  show e: "light_tree_emitter_importance reference_math ?kg ?P ?N (- child_index ?leaf)
             = Inr (Finite 4)"
    using emitter_importance_z [of ?kg 1 1] by (simp del: point_on_z)
  show "leaf_total reference_math ?kg ?P ?N ?leaf 0 (Finite 0) = Inr (Finite 4)"
    using single_emitter_total [OF _ e] by simp
  show "leaf_select reference_math ?kg ?P ?N ?leaf Not_a_Number (Finite 4) 0 (Finite 0)
          = Inr None"
    using e by (subst leaf_select.simps, subst leaf_select.simps) (simp del: point_on_z)
qed

text \<open>
  Claim C10 as stated has the light sample changed whenever the function returns false.
  With a root leaf whose only light has the importance 0, and with a root leaf whose
  only lamp is past its bounce budget (the probability factor is \<open>4 * (1 / 4) = 1\<close>), the
  function returns false and the sample is the one passed in.
\<close>

theorem failing_sample_unchanged_counterexample:
  "light_tree_sample_from_position reference_math (probe False)
     (leaf_scene [segment_emitter axis_y (Finite 0)] [lamp_entry 0] [])
     (Finite (1 / 2)) (Finite (1 / 2)) (Finite (1 / 2)) (Finite 0)
     (point_on axis_y (Finite 2)) (point_on axis_y (Finite (- 1))) 0 0 ls0
     = Some (Inr (False, ls0))
   \<and> light_tree_sample_from_position reference_math (probe False)
       (leaf_scene [segment_emitter axis_y (Finite 1)] [lamp_entry 0] [])
       (Finite (1 / 2)) (Finite (1 / 2)) (Finite (1 / 2)) (Finite 0)
       (point_on axis_y (Finite 2)) (point_on axis_y (Finite (- 1))) 9 0 ls0
       = Some (Inr (False, ls0))"
proof -
  let ?k0 = "leaf_scene [segment_emitter axis_y (Finite 0)] [lamp_entry 0] []"
  let ?k1 = "leaf_scene [segment_emitter axis_y (Finite 1)] [lamp_entry 0] []"
  have f: "kernel_data_fetch (light_tree_nodes ?k0) 0 = Inr (segment_node axis_y (Finite 1) 0 1)"
    by simp
  have t: "leaf_total reference_math ?k0 (point_on axis_y (Finite 2))
             (point_on axis_y (Finite (- 1))) (segment_node axis_y (Finite 1) 0 1) 0 (Finite 0)
           = Inr (Finite 0)"
    using single_leaf_facts(2) [of 0 "[lamp_entry 0]" "[]"] by simp
  have a: "light_tree_sample_from_position reference_math (probe False) ?k0
     (Finite (1 / 2)) (Finite (1 / 2)) (Finite (1 / 2)) (Finite 0)
     (point_on axis_y (Finite 2)) (point_on axis_y (Finite (- 1))) 0 0 ls0
     = Some (Inr (False, ls0))"
    unfolding from_position_tree_only [OF leaf_scene_sel]
      zero_total_leaf_fails [OF f single_leaf_path [of reference_math "[segment_emitter axis_y (Finite 0)]", simplified] t]
    by (simp add: scale_sample_pdf_def ls0_def)
  have b: "light_tree_sample_from_position reference_math (probe False) ?k1
       (Finite (1 / 2)) (Finite (1 / 2)) (Finite (1 / 2)) (Finite 0)
       (point_on axis_y (Finite 2)) (point_on axis_y (Finite (- 1))) 9 0 ls0
       = Some (Inr (False, ls0))"
    unfolding from_position_tree_only [OF leaf_scene_sel]
    using single_leaf_sample_emitter [of 1 False False "[lamp_entry 0]" "[]"
        "Finite (1 / 2)" "Finite (1 / 2)" "Finite 0" 9 0 ls0]
    by (simp add: sample_emitter_lamp scale_sample_pdf_def ls0_def del: point_on_y)
  show ?thesis using a b by simp
qed

text \<open>
  The paths of the amended claim in the reference scenes. A root leaf with a mesh light
  whose triangle sampler writes a pdf of 0: the function returns false, and the sample
  comes back with that pdf and with the shader flag 5 of the mesh light; in the
  shadow-catcher pass the mesh light is left out and the sample comes back as passed in.
  A root leaf whose light has the importance 0: the sample comes back as passed in. The
  tree on the third axis, where the walk comes to the end of the leaf with a factor that
  is not-a-number: the pdf comes back as not-a-number. A lamp past its bounce budget
  below the root of the tree of two leaves: the pdf comes back multiplied by 1/4.
\<close>

theorem sample_on_every_return_witness:
  "light_tree_sample_from_position reference_math (probe False)
     (leaf_scene [segment_emitter axis_y (Finite 1)] [triangle_entry 0 0 5] [0])
     (Finite (1 / 2)) (Finite (1 / 2)) (Finite (1 / 2)) (Finite 0)
     (point_on axis_y (Finite 2)) (point_on axis_y (Finite (- 1))) 0 0 ls0
     = Some (Inr (False, \<lparr>pdf = Finite 0, shader = 5\<rparr>))
   \<and> (\<exists>ls' pdf_factor.
         dispatch reference_math (probe False)
           (leaf_scene [segment_emitter axis_y (Finite 1)] [triangle_entry 0 0 5] [0])
           (Finite (1 / 2)) (Finite (1 / 2)) (Finite (1 / 2)) (Finite 0)
           (point_on axis_y (Finite 2)) (point_on axis_y (Finite (- 1))) 0 0 ls0
           = Some (Inr (False, ls', pdf_factor))
         \<and> \<lparr>pdf = Finite 0, shader = 5\<rparr> = ls'\<lparr>pdf := pdf ls' * pdf_factor\<rparr>
         \<and> sample_left (probe False) False (Finite (1 / 2)) (Finite (1 / 2)) (Finite 0)
             (point_on axis_y (Finite 2)) 0 ls0 False ls')
   \<and> leaf_total reference_math
       (leaf_scene [segment_emitter axis_y (Finite 0)] [lamp_entry 0] [])
       (point_on axis_y (Finite 2)) (point_on axis_y (Finite (- 1)))
       (segment_node axis_y (Finite 1) 0 1) 0 (Finite 0) = Inr (Finite 0)
   \<and> light_tree_sample_from_position reference_math (probe False)
       (leaf_scene [segment_emitter axis_y (Finite 0)] [lamp_entry 0] [])
       (Finite (1 / 2)) (Finite (1 / 2)) (Finite (1 / 2)) (Finite 0)
       (point_on axis_y (Finite 2)) (point_on axis_y (Finite (- 1))) 0 0 ls0
       = Some (Inr (False, ls0\<lparr>pdf := pdf ls0 * foldl (*) (Finite 1) []\<rparr>))
   \<and> ls0\<lparr>pdf := pdf ls0 * foldl (*) (Finite 1) []\<rparr> = ls0
   \<and> descent_path reference_math (two_leaf_scene axis_z (Finite 1) (Finite 1) [] 0)
       (point_on axis_z (Finite 2)) (point_on axis_z (Finite (- 1)))
       (0, segment_node axis_z (Finite 2) 2 0,
        path_state_rng_1D (probe False) (Finite (1 / 2)) 1)
       [Not_a_Number] (2, segment_node axis_z (Finite 1) (- 1) 1, Not_a_Number)
   \<and> leaf_total reference_math (two_leaf_scene axis_z (Finite 1) (Finite 1) [] 0)
       (point_on axis_z (Finite 2)) (point_on axis_z (Finite (- 1)))
       (segment_node axis_z (Finite 1) (- 1) 1) 0 (Finite 0) = Inr (Finite 4)
   \<and> leaf_select reference_math (two_leaf_scene axis_z (Finite 1) (Finite 1) [] 0)
       (point_on axis_z (Finite 2)) (point_on axis_z (Finite (- 1)))
       (segment_node axis_z (Finite 1) (- 1) 1) Not_a_Number (Finite 4) 0 (Finite 0) = Inr None
   \<and> \<not> debug_build (probe False)
   \<and> light_tree_sample_from_position reference_math (probe False)
       (two_leaf_scene axis_z (Finite 1) (Finite 1) [] 0)
       (Finite (1 / 2)) (Finite (1 / 2)) (Finite (1 / 2)) (Finite 0)
       (point_on axis_z (Finite 2)) (point_on axis_z (Finite (- 1))) 0 0 ls0
       = Some (Inr (False, ls0\<lparr>pdf := pdf ls0 * foldl (*) (Finite 1) [Not_a_Number]\<rparr>))
   \<and> ls0\<lparr>pdf := pdf ls0 * foldl (*) (Finite 1) [Not_a_Number]\<rparr>
       = \<lparr>pdf = Not_a_Number, shader = 0\<rparr>
   \<and> descent_path reference_math (two_leaf_scene axis_y (Finite 1) (Finite 3) [] 0)
       (point_on axis_y (Finite 2)) (point_on axis_y (Finite (- 1)))
       (0, segment_node axis_y (Finite 4) 2 0,
        path_state_rng_1D (probe False) (Finite (1 / 8)) 1)
       [Finite (1 / 4)] (1, segment_node axis_y (Finite 1) 0 1, Finite (1 / 2))
   \<and> leaf_select reference_math (two_leaf_scene axis_y (Finite 1) (Finite 3) [] 0)
       (point_on axis_y (Finite 2)) (point_on axis_y (Finite (- 1)))
       (segment_node axis_y (Finite 1) 0 1) (Finite (1 / 2)) (Finite 4) 0 (Finite 0)
       = Inr (Some 0)
   \<and> kernel_data_fetch (light_distribution (two_leaf_scene axis_y (Finite 1) (Finite 3) [] 0))
       (- child_index (segment_node axis_y (Finite 1) 0 1) + 0) = Inr (lamp_entry 0)
   \<and> prim (lamp_entry 0) < 0
   \<and> light_select_reached_max_bounces (probe False) (- prim (lamp_entry 0) - 1) 9
   \<and> light_tree_sample_from_position reference_math (probe False)
       (two_leaf_scene axis_y (Finite 1) (Finite 3) [] 0)
       (Finite (1 / 8)) (Finite (1 / 2)) (Finite (1 / 2)) (Finite 0)
       (point_on axis_y (Finite 2)) (point_on axis_y (Finite (- 1))) 9 0 ls0
       = Some (Inr (False, ls0\<lparr>pdf := pdf ls0
                      * (foldl (*) (Finite 1) [Finite (1 / 4)]
                         * (Finite 4 * (Finite 1 / Finite 4)))\<rparr>))
   \<and> ls0\<lparr>pdf := pdf ls0 * (foldl (*) (Finite 1) [Finite (1 / 4)]
                              * (Finite 4 * (Finite 1 / Finite 4)))\<rparr>
       = \<lparr>pdf = Finite (1 / 4), shader = 0\<rparr>
   \<and> kernel_data_fetch
       (light_distribution
          (leaf_scene [segment_emitter axis_y (Finite 1)] [triangle_entry 0 0 5] [0]))
       (- child_index (segment_node axis_y (Finite 1) 0 1) + 0) = Inr (triangle_entry 0 0 5)
   \<and> 0 \<le> prim (triangle_entry 0 0 5)
   \<and> 16777216 AND PATH_RAY_SHADOW_CATCHER_PASS (probe False) \<noteq> 0
   \<and> kernel_data_fetch
       (object_flag (leaf_scene [segment_emitter axis_y (Finite 1)] [triangle_entry 0 0 5] [0]))
       (object_id (mesh_light (triangle_entry 0 0 5))) = Inr 0
   \<and> 0 AND SD_OBJECT_SHADOW_CATCHER (probe False) = 0
   \<and> light_tree_sample_from_position reference_math (probe False)
       (leaf_scene [segment_emitter axis_y (Finite 1)] [triangle_entry 0 0 5] [0])
       (Finite (1 / 2)) (Finite (1 / 2)) (Finite (1 / 2)) (Finite 0)
       (point_on axis_y (Finite 2)) (point_on axis_y (Finite (- 1))) 0 16777216 ls0
       = Some (Inr (False, ls0\<lparr>pdf := pdf ls0
                      * (foldl (*) (Finite 1) [] * (Finite 4 * (Finite 1 / Finite 4)))\<rparr>))
   \<and> ls0\<lparr>pdf := pdf ls0 * (foldl (*) (Finite 1) [] * (Finite 4 * (Finite 1 / Finite 4)))\<rparr>
       = ls0
   \<and> 0 AND PATH_RAY_SHADOW_CATCHER_PASS (probe False) = 0
   \<and> \<lparr>pdf = Finite 0, shader = 5\<rparr>
       = (triangle_light_sample (probe False) False (prim (triangle_entry 0 0 5))
            (object_id (mesh_light (triangle_entry 0 0 5))) (Finite (1 / 2)) (Finite (1 / 2))
            (Finite 0) ls0 (point_on axis_y (Finite 2)))
           \<lparr>shader := shader (triangle_light_sample (probe False) False
                                (prim (triangle_entry 0 0 5))
                                (object_id (mesh_light (triangle_entry 0 0 5)))
                                (Finite (1 / 2)) (Finite (1 / 2)) (Finite 0) ls0
                                (point_on axis_y (Finite 2)))
                       OR shader_flag (mesh_light (triangle_entry 0 0 5))\<rparr>
   \<and> light_tree_sample_from_position reference_math (probe False)
       (leaf_scene [segment_emitter axis_y (Finite 1)] [triangle_entry 0 0 5] [0])
       (Finite (1 / 2)) (Finite (1 / 2)) (Finite (1 / 2)) (Finite 0)
       (point_on axis_y (Finite 2)) (point_on axis_y (Finite (- 1))) 0 0 ls0
       = Some (Inr (Finite 0 < pdf \<lparr>pdf = Finite 0, shader = 5\<rparr>,
                    \<lparr>pdf = Finite 0, shader = 5\<rparr>
                      \<lparr>pdf := pdf \<lparr>pdf = Finite 0, shader = 5\<rparr>
                         * (foldl (*) (Finite 1) []
                            * (Finite 4 * (Finite 1 / Finite 4)))\<rparr>))"
proof -
  let ?km = "leaf_scene [segment_emitter axis_y (Finite 1)] [triangle_entry 0 0 5] [0]"
  let ?k0 = "leaf_scene [segment_emitter axis_y (Finite 0)] [lamp_entry 0] []"
  let ?kz = "two_leaf_scene axis_z (Finite 1) (Finite 1) [] 0"
  let ?kg = "two_leaf_scene axis_y (Finite 1) (Finite 3) [] 0"
  let ?P = "point_on axis_y (Finite 2)"
  let ?N = "point_on axis_y (Finite (- 1))"
  let ?Pz = "point_on axis_z (Finite 2)"
  let ?Nz = "point_on axis_z (Finite (- 1))"
  let ?leaf = "segment_node axis_y (Finite 1) 0 1"
  let ?lz = "segment_node axis_z (Finite 1) (- 1) 1"
  let ?h = "Finite (1 / 2)"
  note paths = sample_on_every_return [THEN conjunct2, rule_format]
  have nm: "num_distant_lights (integrator ?km) = 0" and n0: "num_distant_lights (integrator ?k0) = 0"
    by simp_all
  have fm: "kernel_data_fetch (light_tree_nodes ?km) 0 = Inr ?leaf"
    and f0: "kernel_data_fetch (light_tree_nodes ?k0) 0 = Inr ?leaf"
    by simp_all
  have dm: "descent_path reference_math ?km ?P ?N
              (0, ?leaf, path_state_rng_1D (probe False) ?h 1) []
              (0, ?leaf, path_state_rng_1D (probe False) ?h 1)"
    using single_leaf_path [of reference_math "[segment_emitter axis_y (Finite 1)]"
        "[triangle_entry 0 0 5]" "[0]" ?P ?N "probe False" ?h]
    by simp
  have d0: "descent_path reference_math ?k0 ?P ?N
              (0, ?leaf, path_state_rng_1D (probe False) ?h 1) []
              (0, ?leaf, path_state_rng_1D (probe False) ?h 1)"
    using single_leaf_path [of reference_math "[segment_emitter axis_y (Finite 0)]"
        "[lamp_entry 0]" "[]" ?P ?N "probe False" ?h]
    by simp
  have tm: "leaf_total reference_math ?km ?P ?N ?leaf 0 (Finite 0) = Inr (Finite 4)"
    using single_leaf_facts(2) [of 1 "[triangle_entry 0 0 5]" "[0]"] by simp
  have t0: "leaf_total reference_math ?k0 ?P ?N ?leaf 0 (Finite 0) = Inr (Finite 0)"
    using single_leaf_facts(2) [of 0 "[lamp_entry 0]" "[]"] by simp
  have z4: "Finite 4 \<noteq> Finite 0" by simp
  have sm: "leaf_select reference_math ?km ?P ?N ?leaf (path_state_rng_1D (probe False) ?h 1)
              (Finite 4) 0 (Finite 0) = Inr (Some 0)"
    using single_leaf_facts(3) [of 1 "[triangle_entry 0 0 5]" "[0]"] by simp
  have em: "light_tree_emitter_importance reference_math ?km ?P ?N (- child_index ?leaf + 0)
              = Inr (Finite 4)"
    using single_leaf_facts(1) [of 1 "[triangle_entry 0 0 5]" "[0]"] by simp
  have km: "kernel_data_fetch (light_distribution ?km) (- child_index ?leaf + 0)
              = Inr (triangle_entry 0 0 5)"
    by simp
  have p1: "0 \<le> prim (triangle_entry 0 0 5)" by simp
  have p2: "16777216 AND PATH_RAY_SHADOW_CATCHER_PASS (probe False) \<noteq> 0" by simp
  have p3: "kernel_data_fetch (object_flag ?km) (object_id (mesh_light (triangle_entry 0 0 5)))
              = Inr 0"
    by simp
  have p4: "0 AND SD_OBJECT_SHADOW_CATCHER (probe False) = 0" by simp
  have p5: "0 AND PATH_RAY_SHADOW_CATCHER_PASS (probe False) = 0" by simp
  have p6: "\<lparr>pdf = Finite 0, shader = 5\<rparr>
       = (triangle_light_sample (probe False) False (prim (triangle_entry 0 0 5))
            (object_id (mesh_light (triangle_entry 0 0 5))) ?h ?h (Finite 0) ls0 ?P)
           \<lparr>shader := shader (triangle_light_sample (probe False) False
                                (prim (triangle_entry 0 0 5))
                                (object_id (mesh_light (triangle_entry 0 0 5)))
                                ?h ?h (Finite 0) ls0 ?P)
                       OR shader_flag (mesh_light (triangle_entry 0 0 5))\<rparr>"
    by (simp add: ls0_def)
  note pm = paths [OF conjI [OF nm conjI [OF fm conjI [OF dm tm]]], THEN conjunct2,
      THEN conjunct2, rule_format, OF conjI [OF z4 conjI [OF sm conjI [OF em km]]]]
  note excluded = pm [THEN conjunct2, THEN conjunct1, rule_format,
      OF conjI [OF p1 conjI [OF p2 conjI [OF p3 p4]]]]
  note sampled = pm [THEN conjunct2, THEN conjunct2, rule_format,
      OF conjI [OF p1 conjI [OF disjI1 [OF p5] p6]]]
  note zero = paths [OF conjI [OF n0 conjI [OF f0 conjI [OF d0 t0]]], THEN conjunct1,
      rule_format, OF refl]
  have a: "light_tree_sample_from_position reference_math (probe False) ?km ?h ?h ?h (Finite 0)
             ?P ?N 0 0 ls0 = Some (Inr (False, \<lparr>pdf = Finite 0, shader = 5\<rparr>))"
    using sampled by simp
  note every = sample_on_every_return [THEN conjunct1, rule_format, OF a]
  have v0: "ls0\<lparr>pdf := pdf ls0 * foldl (*) (Finite 1) []\<rparr> = ls0"
    and vm: "ls0\<lparr>pdf := pdf ls0 * (foldl (*) (Finite 1) [] * (Finite 4 * (Finite 1 / Finite 4)))\<rparr>
               = ls0"
    and vz: "ls0\<lparr>pdf := pdf ls0 * foldl (*) (Finite 1) [Not_a_Number]\<rparr>
               = \<lparr>pdf = Not_a_Number, shader = 0\<rparr>"
    and vg: "ls0\<lparr>pdf := pdf ls0 * (foldl (*) (Finite 1) [Finite (1 / 4)]
                                      * (Finite 4 * (Finite 1 / Finite 4)))\<rparr>
               = \<lparr>pdf = Finite (1 / 4), shader = 0\<rparr>"
    by (simp_all add: ls0_def)
  have nz: "num_distant_lights (integrator ?kz) = 0" by (simp add: two_leaf_scene_def)
  have fz: "kernel_data_fetch (light_tree_nodes ?kz) 0 = Inr (segment_node axis_z (Finite 2) 2 0)"
    by simp
  have dz: "descent_path reference_math ?kz ?Pz ?Nz
              (0, segment_node axis_z (Finite 2) 2 0, path_state_rng_1D (probe False) ?h 1)
              [Not_a_Number] (2, ?lz, Not_a_Number)"
    using two_leaf_path_nan by (simp del: point_on_z)
  note tz = two_leaf_nan_leaf(2) [of "[]" 0]
  note sz = two_leaf_nan_leaf(3) [of "[]" 0]
  have rel: "\<not> debug_build (probe False)" by simp
  note exhausted = paths [OF conjI [OF nz conjI [OF fz conjI [OF dz tz]]], THEN conjunct2,
      THEN conjunct1, rule_format, OF conjI [OF z4 conjI [OF sz rel]]]
  have ng: "num_distant_lights (integrator ?kg) = 0" by (simp add: two_leaf_scene_def)
  have fg: "kernel_data_fetch (light_tree_nodes ?kg) 0 = Inr (segment_node axis_y (Finite 4) 2 0)"
    by simp
  have dg: "descent_path reference_math ?kg ?P ?N
              (0, segment_node axis_y (Finite 4) 2 0,
               path_state_rng_1D (probe False) (Finite (1 / 8)) 1)
              [Finite (1 / 4)] (1, ?leaf, ?h)"
    using two_leaf_path_left by (simp del: point_on_y)
  note tg = two_leaf_total_left [of "[]" 0]
  note sg = two_leaf_select_left [of "[]" 0]
  have eg: "light_tree_emitter_importance reference_math ?kg ?P ?N (- child_index ?leaf + 0)
              = Inr (Finite 4)"
    by (simp add: emitter_importance_y del: point_on_y)
  have kg: "kernel_data_fetch (light_distribution ?kg) (- child_index ?leaf + 0)
              = Inr (lamp_entry 0)"
    by simp
  have q1: "prim (lamp_entry 0) < 0" by simp
  have q2: "light_select_reached_max_bounces (probe False) (- prim (lamp_entry 0) - 1) 9"
    by simp
  note budget = paths [OF conjI [OF ng conjI [OF fg conjI [OF dg tg]]], THEN conjunct2,
      THEN conjunct2, rule_format, OF conjI [OF z4 conjI [OF sg conjI [OF eg kg]]],
      THEN conjunct1, rule_format, OF conjI [OF q1 q2]]
  show ?thesis
    by (intro conjI a every t0 zero v0 dz tz sz rel exhausted vz dg sg kg q1 q2 budget vg
        km p1 p2 p3 p4 excluded vm p5 p6 sampled)
qed

section \<open>The dispatcher with both kinds of light\<close>

lemma from_position_mixed:
  assumes "num_distant_lights (integrator kg) \<noteq> 0"
    and "num_distribution (integrator kg) - num_distant_lights (integrator kg) \<noteq> 0"
    and "kernel_data_fetch (light_tree_nodes kg) 0 = Inr knode"
    and "kernel_data_fetch (light_tree_distant_group kg) (num_distant_lights (integrator kg))
           = Inr kdistant"
  shows "light_tree_sample_from_position m c kg rng_state randu randv time P N bounce
           path_flag ls
         = scale_sample_pdf
             (if randu < light_tree_cluster_importance m P N knode
                           / (light_tree_cluster_importance m P N knode
                              + KernelLightTreeDistantEmitter.energy kdistant)
              then times_pdf_factor
                     (light_tree_sample m c False kg rng_state randu randv time N P bounce
                        path_flag ls)
                     (light_tree_cluster_importance m P N knode
                        / (light_tree_cluster_importance m P N knode
                           + KernelLightTreeDistantEmitter.energy kdistant))
              else times_pdf_factor
                     (Some (light_tree_sample_distant_lights c False kg rng_state randu randv
                              time N P bounce path_flag ls (Finite 1)))
                     (Finite 1 - light_tree_cluster_importance m P N knode
                                   / (light_tree_cluster_importance m P N knode
                                      + KernelLightTreeDistantEmitter.energy kdistant)))"
  using assms
  by (simp add: light_tree_sample_from_position_def dispatch_def Let_def)

text \<open>
  The mixed case as the source has it. With at least one distant light and at least one
  emitter in the tree, \<open>importance_tree\<close> is the importance of the root cluster and
  \<open>importance_distant\<close> the energy of the entry of the distant group at index
  \<open>num_distant_lights\<close>; with \<open>p_tree = importance_tree / (importance_tree +
  importance_distant)\<close> the tree sampler is called exactly when \<open>randu < p_tree\<close> and the
  distant-light sampler otherwise, each with \<open>randu\<close> as it is; the \<open>pdf_factor\<close> of the
  sub-sampler is multiplied by the probability of the branch taken, and the pdf of the
  sample by the result.
\<close>

theorem dispatcher_mixed_split:
  assumes "num_distant_lights (integrator kg) \<noteq> 0"
    and "num_distribution (integrator kg) - num_distant_lights (integrator kg) \<noteq> 0"
    and "kernel_data_fetch (light_tree_nodes kg) 0 = Inr knode"
    and "kernel_data_fetch (light_tree_distant_group kg) (num_distant_lights (integrator kg))
           = Inr kdistant"
    and "importance_tree = light_tree_cluster_importance m P N knode"
    and "importance_distant = KernelLightTreeDistantEmitter.energy kdistant"
    and "p_tree = importance_tree / (importance_tree + importance_distant)"
  shows "light_tree_sample_from_position m c kg rng_state randu randv time P N bounce
           path_flag ls
         = scale_sample_pdf
             (if randu < p_tree
              then times_pdf_factor
                     (light_tree_sample m c False kg rng_state randu randv time N P bounce
                        path_flag ls)
                     p_tree
              else times_pdf_factor
                     (Some (light_tree_sample_distant_lights c False kg rng_state randu randv
                              time N P bounce path_flag ls (Finite 1)))
                     (Finite 1 - p_tree))"
  unfolding assms(5,6,7) by (rule from_position_mixed [OF assms(1-4)])

lemma mixed_scene_sel [simp]:
  "num_distant_lights (integrator (two_leaf_scene a e0 e1 ds n)) = n"
  "num_distribution (integrator (two_leaf_scene a e0 e1 ds n)) = 2 + n"
  "light_tree_distant_group (two_leaf_scene a e0 e1 ds n) = ds"
  by (simp_all add: two_leaf_scene_def)

text \<open>
  Claim C8 has the first random number split between the two sub-samplers and rescaled
  exactly as at an interior node, where \<open>tree_u\<close> is rescaled after each comparison. The
  dispatcher compares \<open>randu\<close> with \<open>p_tree\<close> and passes it on unchanged: in the tree of
  two leaves with one distant light, \<open>p_tree = 1 / 2\<close> and \<open>randu = 1 / 4\<close>, the lamp
  sampler is handed 1/4 and the sample comes back with the pdf 1/32, where the
  dispatcher of the claim hands on 1/2 and gives 1/16.
\<close>

theorem dispatcher_randu_not_rescaled:
  "light_tree_sample_from_position reference_math (probe False)
     (two_leaf_scene axis_y (Finite 1) (Finite 3) [sun 2 (Finite 16), sun 3 (Finite 16)] 1)
     (Finite (1 / 8)) (Finite (1 / 4)) (Finite (1 / 2)) (Finite 0)
     (point_on axis_y (Finite 2)) (point_on axis_y (Finite (- 1))) 0 0 ls0
     = Some (Inr (True, \<lparr>pdf = Finite (1 / 32), shader = 0\<rparr>))
   \<and> from_position_spec reference_math (probe False)
       (two_leaf_scene axis_y (Finite 1) (Finite 3) [sun 2 (Finite 16), sun 3 (Finite 16)] 1)
       (Finite (1 / 8)) (Finite (1 / 4)) (Finite (1 / 2)) (Finite 0)
       (point_on axis_y (Finite 2)) (point_on axis_y (Finite (- 1))) 0 0 ls0
     = Some (Inr (True, \<lparr>pdf = Finite (1 / 16), shader = 0\<rparr>))
   \<and> light_tree_sample_from_position reference_math (probe False)
       (two_leaf_scene axis_y (Finite 1) (Finite 3) [sun 2 (Finite 16), sun 3 (Finite 16)] 1)
       (Finite (1 / 8)) (Finite (1 / 4)) (Finite (1 / 2)) (Finite 0)
       (point_on axis_y (Finite 2)) (point_on axis_y (Finite (- 1))) 0 0 ls0
     \<noteq> from_position_spec reference_math (probe False)
         (two_leaf_scene axis_y (Finite 1) (Finite 3) [sun 2 (Finite 16), sun 3 (Finite 16)] 1)
         (Finite (1 / 8)) (Finite (1 / 4)) (Finite (1 / 2)) (Finite 0)
         (point_on axis_y (Finite 2)) (point_on axis_y (Finite (- 1))) 0 0 ls0"
proof -
  let ?kg = "two_leaf_scene axis_y (Finite 1) (Finite 3) [sun 2 (Finite 16), sun 3 (Finite 16)] 1"
  have h1: "num_distant_lights (integrator ?kg) \<noteq> 0"
    and h2: "num_distribution (integrator ?kg) - num_distant_lights (integrator ?kg) \<noteq> 0"
    by simp_all
  have h3: "kernel_data_fetch (light_tree_nodes ?kg) 0 = Inr (segment_node axis_y (Finite 4) 2 0)"
    by simp
  have h4: "kernel_data_fetch (light_tree_distant_group ?kg) (num_distant_lights (integrator ?kg))
              = Inr (sun 3 (Finite 16))"
    by simp
  have a: "light_tree_sample_from_position reference_math (probe False) ?kg
     (Finite (1 / 8)) (Finite (1 / 4)) (Finite (1 / 2)) (Finite 0)
     (point_on axis_y (Finite 2)) (point_on axis_y (Finite (- 1))) 0 0 ls0
     = Some (Inr (True, \<lparr>pdf = Finite (1 / 32), shader = 0\<rparr>))"
    unfolding from_position_mixed [OF h1 h2 h3 h4] two_leaf_sample_left
    by (simp add: times_pdf_factor_def scale_sample_pdf_def ls0_def del: point_on_y)
  have b: "from_position_spec reference_math (probe False) ?kg
       (Finite (1 / 8)) (Finite (1 / 4)) (Finite (1 / 2)) (Finite 0)
       (point_on axis_y (Finite 2)) (point_on axis_y (Finite (- 1))) 0 0 ls0
     = Some (Inr (True, \<lparr>pdf = Finite (1 / 16), shader = 0\<rparr>))"
    unfolding from_position_spec_def
    by (simp add: Let_def two_leaf_sample_left times_pdf_factor_def scale_sample_pdf_def ls0_def
        del: point_on_y)
  show ?thesis using a b by simp
qed

text \<open>The mixed case in the tree of two leaves with one distant light; the entry at
  index 1 of the distant group carries the energy 16.\<close>

theorem dispatcher_mixed_split_witness:
  "num_distant_lights (integrator
      (two_leaf_scene axis_y (Finite 1) (Finite 3) [sun 2 (Finite 16), sun 3 (Finite 16)] 1)) \<noteq> 0
   \<and> num_distribution (integrator
        (two_leaf_scene axis_y (Finite 1) (Finite 3) [sun 2 (Finite 16), sun 3 (Finite 16)] 1))
       - num_distant_lights (integrator
          (two_leaf_scene axis_y (Finite 1) (Finite 3) [sun 2 (Finite 16), sun 3 (Finite 16)] 1))
       \<noteq> 0
   \<and> kernel_data_fetch (light_tree_nodes
        (two_leaf_scene axis_y (Finite 1) (Finite 3) [sun 2 (Finite 16), sun 3 (Finite 16)] 1)) 0
       = Inr (segment_node axis_y (Finite 4) 2 0)
   \<and> kernel_data_fetch (light_tree_distant_group
        (two_leaf_scene axis_y (Finite 1) (Finite 3) [sun 2 (Finite 16), sun 3 (Finite 16)] 1))
        (num_distant_lights (integrator
          (two_leaf_scene axis_y (Finite 1) (Finite 3) [sun 2 (Finite 16), sun 3 (Finite 16)] 1)))
       = Inr (sun 3 (Finite 16))
   \<and> Finite 16 = light_tree_cluster_importance reference_math (point_on axis_y (Finite 2))
                     (point_on axis_y (Finite (- 1))) (segment_node axis_y (Finite 4) 2 0)
   \<and> Finite 16 = KernelLightTreeDistantEmitter.energy (sun 3 (Finite 16))
   \<and> Finite (1 / 2) = Finite 16 / (Finite 16 + Finite 16)
   \<and> light_tree_sample_from_position reference_math (probe False)
       (two_leaf_scene axis_y (Finite 1) (Finite 3) [sun 2 (Finite 16), sun 3 (Finite 16)] 1)
       (Finite (1 / 8)) (Finite (1 / 4)) (Finite (1 / 2)) (Finite 0)
       (point_on axis_y (Finite 2)) (point_on axis_y (Finite (- 1))) 0 0 ls0
     = scale_sample_pdf
         (if Finite (1 / 4) < Finite (1 / 2)
          then times_pdf_factor
                 (light_tree_sample reference_math (probe False) False
                    (two_leaf_scene axis_y (Finite 1) (Finite 3)
                       [sun 2 (Finite 16), sun 3 (Finite 16)] 1)
                    (Finite (1 / 8)) (Finite (1 / 4)) (Finite (1 / 2)) (Finite 0)
                    (point_on axis_y (Finite (- 1))) (point_on axis_y (Finite 2)) 0 0 ls0)
                 (Finite (1 / 2))
          else times_pdf_factor
                 (Some (light_tree_sample_distant_lights (probe False) False
                          (two_leaf_scene axis_y (Finite 1) (Finite 3)
                             [sun 2 (Finite 16), sun 3 (Finite 16)] 1)
                          (Finite (1 / 8)) (Finite (1 / 4)) (Finite (1 / 2)) (Finite 0)
                          (point_on axis_y (Finite (- 1))) (point_on axis_y (Finite 2)) 0 0 ls0
                          (Finite 1)))
                 (Finite 1 - Finite (1 / 2)))"
proof -
  let ?kg = "two_leaf_scene axis_y (Finite 1) (Finite 3) [sun 2 (Finite 16), sun 3 (Finite 16)] 1"
  have h1: "num_distant_lights (integrator ?kg) \<noteq> 0"
    and h2: "num_distribution (integrator ?kg) - num_distant_lights (integrator ?kg) \<noteq> 0"
    by simp_all
  have h3: "kernel_data_fetch (light_tree_nodes ?kg) 0 = Inr (segment_node axis_y (Finite 4) 2 0)"
    by simp
  have h4: "kernel_data_fetch (light_tree_distant_group ?kg) (num_distant_lights (integrator ?kg))
              = Inr (sun 3 (Finite 16))"
    by simp
  have h5: "Finite 16 = light_tree_cluster_importance reference_math (point_on axis_y (Finite 2))
                     (point_on axis_y (Finite (- 1))) (segment_node axis_y (Finite 4) 2 0)"
    by (simp del: point_on_y)
  have h6: "Finite 16 = KernelLightTreeDistantEmitter.energy (sun 3 (Finite 16))" by simp
  have h7: "Finite (1 / 2) = Finite 16 / (Finite 16 + Finite 16)" by simp
  show ?thesis
    using h1 h2 h3 h4 h5 h6 h7
      dispatcher_mixed_split [OF h1 h2 h3 h4 h5 h6 h7, where c = "probe False"
        and rng_state = "Finite (1 / 8)" and randu = "Finite (1 / 4)"
        and randv = "Finite (1 / 2)" and time = "Finite 0" and bounce = 0 and path_flag = 0
        and ls = ls0]
    by (intro conjI) assumption+
qed


end
